(* ===== verification/Prelude.thy ===== *)
theory Prelude
  imports Main "HOL-Library.Sublist"
begin

text \<open>
  Shared vocabulary of the development. Django model instances are identified by their
  integer primary keys (\<open>obj_id\<close>); \<open>DecimalField(max_digits=10, decimal_places=2)\<close>
  values are kept as integers counting hundredths (\<open>decimal\<close>); \<open>DateTimeField\<close> and
  \<open>DateField\<close> values are points of a discrete clock. The theory also holds the
  error taxonomy of the stock-ledger core (spec section 7), Python's \<open>str\<close> of an
  integer (used by the models' \<open>__str__\<close> methods), the field
  validators Django applies to the declared fields, and generic lemmas on lists and maps
  that the component theories share.
\<close>

type_synonym obj_id = nat
type_synonym decimal = int
type_synonym datetime = nat
type_synonym date = nat

named_theorems choice_simps "value and label tables of the Django choice sets"
named_theorems ledger_simps "unfolding rules of the stock-ledger operations"

section \<open>Errors of the core (spec section 7)\<close>

datatype wms_error =
    InsufficientStock
  | CapacityExceeded
  | InvalidTransition
  | DuplicateExternalId
  | StaleEvent
  | IncompleteAudit
  | NegativeQuantity
  | OverReceipt
  | NotFound
  | IntegrityError

section \<open>Python's \<open>str\<close> on integers\<close>

definition digit_char :: "nat \<Rightarrow> char" where
  "digit_char d = char_of (48 + d)"

fun nat_str :: "nat \<Rightarrow> string" where
  "nat_str n = (if n < 10 then [digit_char n] else nat_str (n div 10) @ [digit_char (n mod 10)])"

declare nat_str.simps [simp del]

definition int_str :: "int \<Rightarrow> string" where
  "int_str i = (if i < 0 then CHR ''-'' # nat_str (nat (- i)) else nat_str (nat i))"

text \<open>\<open>str(self.id)\<close>: the primary key of a saved instance, \<open>None\<close> before the first save.\<close>

definition pk_str :: "obj_id option \<Rightarrow> string" where
  "pk_str k = (case k of None \<Rightarrow> ''None'' | Some i \<Rightarrow> int_str (int i))"

section \<open>Tables\<close>

text \<open>
  A database table is the list of its rows, each with its primary key. \<open>has_row\<close> is a
  foreign-key target test, \<open>doomed_in P\<close> says some row with the key is marked by
  \<open>P\<close>, and \<open>keep_rows P\<close> deletes the marked rows.
\<close>

type_synonym 'a table = "(obj_id \<times> 'a) list"

definition has_row :: "'a table \<Rightarrow> obj_id \<Rightarrow> bool" where
  "has_row t i \<longleftrightarrow> list_ex (\<lambda>(j, r). j = i) t"

definition doomed_in :: "(obj_id \<Rightarrow> 'a \<Rightarrow> bool) \<Rightarrow> 'a table \<Rightarrow> obj_id \<Rightarrow> bool" where
  "doomed_in P t i \<longleftrightarrow> list_ex (\<lambda>(j, r). j = i \<and> P j r) t"

definition keep_rows :: "(obj_id \<Rightarrow> 'a \<Rightarrow> bool) \<Rightarrow> 'a table \<Rightarrow> 'a table" where
  "keep_rows P t = filter (\<lambda>(j, r). \<not> P j r) t"

section \<open>Django field validation\<close>

text \<open>
  \<open>CharField(max_length=n)\<close> rejects longer values (the string type here counts
  characters of ASCII text, which is what the choice values and the keys used below are);
  \<open>IntegerField\<close> is a signed 32-bit column; a \<open>DecimalField\<close> with
  \<open>decimal_places=2\<close> holds at most \<open>max_digits - 2\<close> digits before the point, that is
  an absolute value below \<open>10 ^ max_digits\<close> hundredths.
\<close>

definition max_length_ok :: "nat \<Rightarrow> string \<Rightarrow> bool" where
  "max_length_ok n s \<longleftrightarrow> length s \<le> n"

definition integer_field_ok :: "int \<Rightarrow> bool" where
  "integer_field_ok x \<longleftrightarrow> - 2147483648 \<le> x \<and> x \<le> 2147483647"

definition decimal_field_ok :: "nat \<Rightarrow> decimal \<Rightarrow> bool" where
  "decimal_field_ok max_digits x \<longleftrightarrow> \<bar>x\<bar> < 10 ^ max_digits"

section \<open>Choice fields\<close>

text \<open>
  A \<open>CharField(choices=...)\<close> stores the first component of a choice pair;
  \<open>get_FOO_display()\<close> looks the stored value up in the choices and returns its label,
  or the stored value itself when it is not among the choices. The model's enumerations
  name each choice by a constructor; \<open>choice_of\<close> reads a stored value back.
\<close>

definition choice_display :: "(string \<times> string) list \<Rightarrow> string \<Rightarrow> string" where
  "choice_display choices v = (case map_of choices v of Some lbl \<Rightarrow> lbl | None \<Rightarrow> v)"

definition choice_of :: "('a \<Rightarrow> string) \<Rightarrow> 'a list \<Rightarrow> string \<Rightarrow> 'a option" where
  "choice_of val cs s = find (\<lambda>c. val c = s) cs"

section \<open>Shared lemmas\<close>

subsection \<open>Choice fields\<close>

lemma choice_of_val:
  assumes "distinct (map val cs)" and "c \<in> set cs"
  shows "choice_of val cs (val c) = Some c"
  using assms
proof (induction cs)
  case Nil
  then show ?case by simp
next
  case (Cons d cs)
  then show ?case by (auto simp: choice_of_def)
qed

lemma choice_of_Some: "choice_of val cs s = Some c \<Longrightarrow> val c = s \<and> c \<in> set cs"
  by (auto simp: choice_of_def find_Some_iff)

lemma choice_of_None: "choice_of val cs s = None \<longleftrightarrow> s \<notin> val ` set cs"
  by (auto simp: choice_of_def find_None_iff)

lemma choice_display_in:
  "distinct (map fst choices) \<Longrightarrow> (v, lbl) \<in> set choices \<Longrightarrow> choice_display choices v = lbl"
  by (simp add: choice_display_def)

subsection \<open>Tables\<close>

lemma has_row_iff: "has_row t i \<longleftrightarrow> (\<exists>r. (i, r) \<in> set t)"
  by (auto simp: has_row_def list_ex_iff)

lemma doomed_in_iff: "doomed_in P t i \<longleftrightarrow> (\<exists>r. (i, r) \<in> set t \<and> P i r)"
  by (auto simp: doomed_in_def list_ex_iff)

lemma in_keep_rows [simp]: "(i, r) \<in> set (keep_rows P t) \<longleftrightarrow> (i, r) \<in> set t \<and> \<not> P i r"
  by (auto simp: keep_rows_def)

lemma has_row_keep_rows:
  "has_row t i \<Longrightarrow> \<not> doomed_in P t i \<Longrightarrow> has_row (keep_rows P t) i"
  by (auto simp: has_row_iff doomed_in_iff)

lemma doomed_in_row: "(i, r) \<in> set t \<Longrightarrow> P i r \<Longrightarrow> doomed_in P t i"
  by (auto simp: doomed_in_iff)

lemma has_row_map_keyed [simp]: "has_row (map (\<lambda>(i, r). (i, f i r)) t) j = has_row t j"
  by (auto simp: has_row_iff)

lemma has_row_append [simp]: "has_row (xs @ ys) i \<longleftrightarrow> has_row xs i \<or> has_row ys i"
  by (simp add: has_row_def)

lemma distinct_map_keep_rows: "distinct (map f t) \<Longrightarrow> distinct (map f (keep_rows P t))"
  by (simp add: keep_rows_def distinct_map_filter)

lemma subseq_map_fst_keep_rows: "subseq (map fst (keep_rows P t)) (map fst t)"
  by (simp add: keep_rows_def subseq_map)

subsection \<open>Lists\<close>

lemma sum_list_map_filter_split:
  "sum_list (map f xs) = sum_list (map f (filter P xs)) + sum_list (map f (filter (\<lambda>x. \<not> P x) xs))"
  for f :: "'a \<Rightarrow> int"
  by (induction xs) auto

lemma filter_append_single [simp]:
  "filter P (xs @ [x]) = (if P x then filter P xs @ [x] else filter P xs)"
  by simp

lemma subseq_distinct: "subseq xs ys \<Longrightarrow> distinct ys \<Longrightarrow> distinct xs"
  by (induction rule: list_emb.induct) (auto dest: list_emb_set)

text \<open>A list that adds one new element to a distinct list is distinct.\<close>

lemma distinct_by_count:
  assumes "distinct xs" "x \<notin> set xs" "set ys = insert x (set xs)" "length ys = Suc (length xs)"
  shows "distinct ys"
proof -
  have "card (set ys) = Suc (length xs)"
    using assms(1-3) by (simp add: distinct_card)
  with assms(4) show ?thesis by (simp add: card_distinct)
qed

end
