(* ===== verification/Warehouses.thy ===== *)
theory Warehouses
  imports Prelude
begin

text \<open>
  The \<open>warehouses\<close> app (src/backend/warehouses/models.py): \<open>Warehouse\<close> with its type
  choices and \<open>StorageUnit\<close> with its unit-type choices, its optional capacity
  (\<open>max_weight\<close>, \<open>max_items\<close>) and its self-referential \<open>parent_unit\<close>. The parent
  links are read by \<open>unit_ancestors\<close>, which follows them for a bounded number of steps
  (the number of units is enough, see Store), since the schema itself does not prevent a
  cycle.
\<close>

datatype warehouse_type = Wh_client | Wh_fulfillment | Wh_marketplace

definition WAREHOUSE_TYPES :: "(string \<times> string) list" where
  "WAREHOUSE_TYPES =
     [(''client'', ''Client warehouse''),
      (''fulfillment'', ''Fulfillment warehouse''),
      (''marketplace'', ''Marketplace warehouse'')]"

fun warehouse_type_value :: "warehouse_type \<Rightarrow> string" where
  "warehouse_type_value Wh_client = ''client''"
| "warehouse_type_value Wh_fulfillment = ''fulfillment''"
| "warehouse_type_value Wh_marketplace = ''marketplace''"

definition all_warehouse_types :: "warehouse_type list" where
  "all_warehouse_types = [Wh_client, Wh_fulfillment, Wh_marketplace]"

record warehouse =
  wh_name :: string
  wh_type :: string
  wh_address :: string
  wh_company :: obj_id
  wh_contact_person :: "string option"
  wh_contact_phone :: "string option"
  wh_contact_email :: "string option"
  wh_created_at :: datetime
  wh_updated_at :: datetime

definition new_warehouse :: "string \<Rightarrow> string \<Rightarrow> string \<Rightarrow> obj_id \<Rightarrow> datetime \<Rightarrow> warehouse" where
  "new_warehouse name ty addr co now =
     \<lparr>wh_name = name, wh_type = ty, wh_address = addr, wh_company = co,
      wh_contact_person = None, wh_contact_phone = None, wh_contact_email = None,
      wh_created_at = now, wh_updated_at = now\<rparr>"

definition warehouse_str :: "warehouse \<Rightarrow> string" where
  "warehouse_str w = wh_name w"

definition warehouse_valid :: "warehouse \<Rightarrow> bool" where
  "warehouse_valid w \<longleftrightarrow>
     max_length_ok 255 (wh_name w) \<and> max_length_ok 20 (wh_type w) \<and>
     choice_of warehouse_type_value all_warehouse_types (wh_type w) \<noteq> None \<and>
     (case wh_contact_person w of None \<Rightarrow> True | Some s \<Rightarrow> max_length_ok 255 s) \<and>
     (case wh_contact_phone w of None \<Rightarrow> True | Some s \<Rightarrow> max_length_ok 20 s)"

datatype unit_type = Unit_shelf | Unit_rack | Unit_pallet | Unit_box | Unit_cell

definition UNIT_TYPES :: "(string \<times> string) list" where
  "UNIT_TYPES =
     [(''shelf'', ''Shelf''), (''rack'', ''Rack''), (''pallet'', ''Pallet''),
      (''box'', ''Box''), (''cell'', ''Cell'')]"

fun unit_type_value :: "unit_type \<Rightarrow> string" where
  "unit_type_value Unit_shelf = ''shelf''"
| "unit_type_value Unit_rack = ''rack''"
| "unit_type_value Unit_pallet = ''pallet''"
| "unit_type_value Unit_box = ''box''"
| "unit_type_value Unit_cell = ''cell''"

definition all_unit_types :: "unit_type list" where
  "all_unit_types = [Unit_shelf, Unit_rack, Unit_pallet, Unit_box, Unit_cell]"

record storage_unit =
  su_warehouse :: obj_id
  su_name :: string
  su_type :: string
  su_code :: string
  su_width :: "decimal option"
  su_height :: "decimal option"
  su_depth :: "decimal option"
  su_max_weight :: "decimal option"
  su_max_items :: "int option"
  su_parent_unit :: "obj_id option"
  su_created_at :: datetime
  su_updated_at :: datetime

definition new_storage_unit :: "obj_id \<Rightarrow> string \<Rightarrow> string \<Rightarrow> string \<Rightarrow> datetime \<Rightarrow> storage_unit" where
  "new_storage_unit w name ty code now =
     \<lparr>su_warehouse = w, su_name = name, su_type = ty, su_code = code, su_width = None,
      su_height = None, su_depth = None, su_max_weight = None, su_max_items = None,
      su_parent_unit = None, su_created_at = now, su_updated_at = now\<rparr>"

definition storage_unit_str :: "storage_unit \<Rightarrow> string" where
  "storage_unit_str u = su_code u @ '' - '' @ su_name u"

definition storage_unit_valid :: "storage_unit \<Rightarrow> bool" where
  "storage_unit_valid u \<longleftrightarrow>
     max_length_ok 100 (su_name u) \<and> max_length_ok 20 (su_type u) \<and>
     choice_of unit_type_value all_unit_types (su_type u) \<noteq> None \<and>
     max_length_ok 50 (su_code u) \<and>
     (case su_max_items u of None \<Rightarrow> True | Some m \<Rightarrow> integer_field_ok m) \<and>
     (case su_max_weight u of None \<Rightarrow> True | Some m \<Rightarrow> decimal_field_ok 10 m)"

text \<open>The chain of parent units of a unit, nearest first, following at most \<open>n\<close> links.\<close>

fun unit_ancestors :: "nat \<Rightarrow> (obj_id \<rightharpoonup> storage_unit) \<Rightarrow> obj_id \<Rightarrow> obj_id list" where
  "unit_ancestors 0 us u = []"
| "unit_ancestors (Suc n) us u =
     (case us u of
        None \<Rightarrow> []
      | Some su \<Rightarrow> (case su_parent_unit su of
                     None \<Rightarrow> []
                   | Some p \<Rightarrow> p # unit_ancestors n us p))"

end
