(* ===== verification/Ledger.thy ===== *)
theory Ledger
  imports Warehouses
begin

text \<open>
  The Stock Ledger of spec section 4.1. The Django schema under src/ has no stock table:
  the ledger is the behavioural core the spec derives from it, so every definition here
  is modelled from the spec. A stock entry is keyed by (storage unit, product) and holds
  the three buckets \<open>available\<close>, \<open>reserved\<close>, \<open>in_transit\<close>; entries are created
  lazily (a key never touched reads as zero). Each of the six operations is one atomic
  step on one entry: it checks its precondition, returns a typed error (spec section 7)
  or changes the entry and appends one immutable movement record (the bucket deltas,
  the cause, the actor and the time). The state is reconstructible by folding the log
  (\<open>replay\<close>); the invariant \<open>ledger_inv\<close> says so, says every bucket is
  non-negative and that the log's timestamps are the clock ticks in order.

  The ledger addresses the storage units of the source's \<open>StorageUnit\<close> table
  (\<open>layout\<close>, fixed for the ledger's lifetime): an operation on an unknown unit fails
  with \<open>NotFound\<close>, and an operation that adds stock to a unit whose \<open>max_items\<close> is
  set fails with \<open>CapacityExceeded\<close> when the unit's total on hand would pass it
  (spec section 3: a unit's capacity bounds what the ledger may place there). The total
  per unit is kept incrementally in \<open>unit_load\<close>; \<open>log_load\<close> is its reference
  definition over the movement log.
\<close>

type_synonym stock_key = "obj_id \<times> obj_id"

record stock_entry =
  available :: int
  reserved :: int
  in_transit :: int

definition zero_entry :: stock_entry where
  "zero_entry = \<lparr>available = 0, reserved = 0, in_transit = 0\<rparr>"

definition entry_ok :: "stock_entry \<Rightarrow> bool" where
  "entry_ok e \<longleftrightarrow> 0 \<le> available e \<and> 0 \<le> reserved e \<and> 0 \<le> in_transit e"

definition shift :: "stock_entry \<Rightarrow> int \<Rightarrow> int \<Rightarrow> int \<Rightarrow> stock_entry" where
  "shift e da dr dt =
     \<lparr>available = available e + da, reserved = reserved e + dr, in_transit = in_transit e + dt\<rparr>"

datatype movement_cause =
    Cause_reserve
  | Cause_release
  | Cause_commit_in_transit
  | Cause_receive
  | Cause_ship
  | Cause_adjust string

record movement =
  mv_key :: stock_key
  mv_available :: int
  mv_reserved :: int
  mv_in_transit :: int
  mv_cause :: movement_cause
  mv_actor :: obj_id
  mv_time :: datetime

record ledger =
  layout :: "obj_id \<rightharpoonup> storage_unit"
  entries :: "stock_key \<rightharpoonup> stock_entry"
  movements :: "movement list"
  clock :: datetime
  unit_load :: "obj_id \<Rightarrow> int"

definition init_ledger :: "(obj_id \<rightharpoonup> storage_unit) \<Rightarrow> ledger" where
  "init_ledger us =
     \<lparr>layout = us, entries = Map.empty, movements = [], clock = 0, unit_load = (\<lambda>u. 0)\<rparr>"

definition fits :: "ledger \<Rightarrow> obj_id \<Rightarrow> int \<Rightarrow> bool" where
  "fits l u q =
     (case layout l u of
        None \<Rightarrow> False
      | Some su \<Rightarrow> (case su_max_items su of None \<Rightarrow> True | Some m \<Rightarrow> unit_load l u + q \<le> m))"

definition entry_in :: "(stock_key \<rightharpoonup> stock_entry) \<Rightarrow> stock_key \<Rightarrow> stock_entry" where
  "entry_in es k = (case es k of None \<Rightarrow> zero_entry | Some e \<Rightarrow> e)"

definition snapshot :: "ledger \<Rightarrow> obj_id \<Rightarrow> obj_id \<Rightarrow> stock_entry" where
  "snapshot l u p = entry_in (entries l) (u, p)"

section \<open>Replaying the movement log\<close>

definition apply_movement :: "(stock_key \<rightharpoonup> stock_entry) \<Rightarrow> movement \<Rightarrow> (stock_key \<rightharpoonup> stock_entry)" where
  "apply_movement es m =
     es(mv_key m \<mapsto> shift (entry_in es (mv_key m)) (mv_available m) (mv_reserved m) (mv_in_transit m))"

definition replay :: "movement list \<Rightarrow> (stock_key \<rightharpoonup> stock_entry)" where
  "replay ms = foldl apply_movement Map.empty ms"

section \<open>The atomic operations\<close>

text \<open>\<open>post\<close> is the commit of one transaction: write the entry, append the movement.\<close>

definition post :: "obj_id \<Rightarrow> obj_id \<Rightarrow> int \<Rightarrow> int \<Rightarrow> int \<Rightarrow> movement_cause \<Rightarrow> obj_id \<Rightarrow> ledger \<Rightarrow> ledger" where
  "post u p da dr dt c a l =
     (let m = \<lparr>mv_key = (u, p), mv_available = da, mv_reserved = dr, mv_in_transit = dt,
               mv_cause = c, mv_actor = a, mv_time = clock l\<rparr>
      in l\<lparr>entries := apply_movement (entries l) m, movements := movements l @ [m],
           clock := Suc (clock l), unit_load := (unit_load l)(u := unit_load l u + da + dr + dt)\<rparr>)"

definition reserve :: "obj_id \<Rightarrow> obj_id \<Rightarrow> int \<Rightarrow> obj_id \<Rightarrow> ledger \<Rightarrow> wms_error + ledger" where
  "reserve u p q a l =
     (if layout l u = None then Inl NotFound
      else if q < 0 then Inl NegativeQuantity
      else if available (snapshot l u p) < q then Inl InsufficientStock
      else Inr (post u p (- q) q 0 Cause_reserve a l))"

definition release :: "obj_id \<Rightarrow> obj_id \<Rightarrow> int \<Rightarrow> obj_id \<Rightarrow> ledger \<Rightarrow> wms_error + ledger" where
  "release u p q a l =
     (if layout l u = None then Inl NotFound
      else if q < 0 then Inl NegativeQuantity
      else if reserved (snapshot l u p) < q then Inl InsufficientStock
      else Inr (post u p q (- q) 0 Cause_release a l))"

definition commit_in_transit :: "obj_id \<Rightarrow> obj_id \<Rightarrow> int \<Rightarrow> obj_id \<Rightarrow> ledger \<Rightarrow> wms_error + ledger" where
  "commit_in_transit u p q a l =
     (if layout l u = None then Inl NotFound
      else if q < 0 then Inl NegativeQuantity
      else if \<not> fits l u q then Inl CapacityExceeded
      else Inr (post u p 0 0 q Cause_commit_in_transit a l))"

text \<open>\<open>receive\<close> books stock into \<open>available\<close>, from the entry's \<open>in_transit\<close>
  bucket or from outside the ledger.\<close>

definition receive :: "obj_id \<Rightarrow> obj_id \<Rightarrow> int \<Rightarrow> bool \<Rightarrow> obj_id \<Rightarrow> ledger \<Rightarrow> wms_error + ledger" where
  "receive u p q from_transit a l =
     (if layout l u = None then Inl NotFound
      else if q < 0 then Inl NegativeQuantity
      else if from_transit then
        (if in_transit (snapshot l u p) < q then Inl InsufficientStock
         else Inr (post u p q 0 (- q) Cause_receive a l))
      else if \<not> fits l u q then Inl CapacityExceeded
      else Inr (post u p q 0 0 Cause_receive a l))"

definition ship :: "obj_id \<Rightarrow> obj_id \<Rightarrow> int \<Rightarrow> obj_id \<Rightarrow> ledger \<Rightarrow> wms_error + ledger" where
  "ship u p q a l =
     (if layout l u = None then Inl NotFound
      else if q < 0 then Inl NegativeQuantity
      else if reserved (snapshot l u p) < q then Inl InsufficientStock
      else Inr (post u p 0 (- q) 0 Cause_ship a l))"

definition adjust :: "obj_id \<Rightarrow> obj_id \<Rightarrow> int \<Rightarrow> string \<Rightarrow> obj_id \<Rightarrow> ledger \<Rightarrow> wms_error + ledger" where
  "adjust u p d reason a l =
     (if layout l u = None then Inl NotFound
      else if available (snapshot l u p) + d < 0 then Inl NegativeQuantity
      else if 0 < d \<and> \<not> fits l u d then Inl CapacityExceeded
      else Inr (post u p d 0 0 (Cause_adjust reason) a l))"

section \<open>Operations as data\<close>

datatype ledger_op =
    Reserve obj_id obj_id int
  | Release obj_id obj_id int
  | Commit_in_transit obj_id obj_id int
  | Receive obj_id obj_id int bool
  | Ship obj_id obj_id int
  | Adjust obj_id obj_id int string

fun op_key :: "ledger_op \<Rightarrow> stock_key" where
  "op_key (Reserve u p q) = (u, p)"
| "op_key (Release u p q) = (u, p)"
| "op_key (Commit_in_transit u p q) = (u, p)"
| "op_key (Receive u p q t) = (u, p)"
| "op_key (Ship u p q) = (u, p)"
| "op_key (Adjust u p d r) = (u, p)"

fun ledger_step :: "obj_id \<Rightarrow> ledger \<Rightarrow> ledger_op \<Rightarrow> wms_error + ledger" where
  "ledger_step a l (Reserve u p q) = reserve u p q a l"
| "ledger_step a l (Release u p q) = release u p q a l"
| "ledger_step a l (Commit_in_transit u p q) = commit_in_transit u p q a l"
| "ledger_step a l (Receive u p q t) = receive u p q t a l"
| "ledger_step a l (Ship u p q) = ship u p q a l"
| "ledger_step a l (Adjust u p d r) = adjust u p d r a l"

text \<open>
  A sequence of independent requests: each is its own transaction, a failed request
  leaves the ledger as it was and the next request runs on it.
\<close>

fun serve_requests :: "ledger \<Rightarrow> (obj_id \<times> ledger_op) list \<Rightarrow> ledger" where
  "serve_requests l [] = l"
| "serve_requests l ((a, x) # rs) =
     serve_requests (case ledger_step a l x of Inl e \<Rightarrow> l | Inr l' \<Rightarrow> l') rs"

inductive ledger_reachable :: "(obj_id \<rightharpoonup> storage_unit) \<Rightarrow> ledger \<Rightarrow> bool" where
  init: "ledger_reachable us (init_ledger us)"
| step: "ledger_reachable us l \<Longrightarrow> ledger_step a l x = Inr l' \<Longrightarrow> ledger_reachable us l'"

section \<open>An operation's guard and effect as data\<close>

text \<open>
  The six operations share one shape: a guard that returns the error, if any, and a
  commit (\<open>post\<close>) of bucket deltas. \<open>op_guard\<close> and \<open>op_delta\<close> read the two parts
  off a request, so that the invariant and the commutation proofs below are stated once
  for all operations instead of six times; \<open>ledger_step_contract_eq\<close> shows that they
  take each operation apart exactly.
\<close>

fun op_guard :: "ledger \<Rightarrow> ledger_op \<Rightarrow> wms_error option" where
  "op_guard l (Reserve u p q) =
     (if layout l u = None then Some NotFound
      else if q < 0 then Some NegativeQuantity
      else if available (snapshot l u p) < q then Some InsufficientStock else None)"
| "op_guard l (Release u p q) =
     (if layout l u = None then Some NotFound
      else if q < 0 then Some NegativeQuantity
      else if reserved (snapshot l u p) < q then Some InsufficientStock else None)"
| "op_guard l (Commit_in_transit u p q) =
     (if layout l u = None then Some NotFound
      else if q < 0 then Some NegativeQuantity
      else if \<not> fits l u q then Some CapacityExceeded else None)"
| "op_guard l (Receive u p q t) =
     (if layout l u = None then Some NotFound
      else if q < 0 then Some NegativeQuantity
      else if t then (if in_transit (snapshot l u p) < q then Some InsufficientStock else None)
      else if \<not> fits l u q then Some CapacityExceeded else None)"
| "op_guard l (Ship u p q) =
     (if layout l u = None then Some NotFound
      else if q < 0 then Some NegativeQuantity
      else if reserved (snapshot l u p) < q then Some InsufficientStock else None)"
| "op_guard l (Adjust u p d r) =
     (if layout l u = None then Some NotFound
      else if available (snapshot l u p) + d < 0 then Some NegativeQuantity
      else if 0 < d \<and> \<not> fits l u d then Some CapacityExceeded else None)"

fun op_delta :: "ledger_op \<Rightarrow> int \<times> int \<times> int" where
  "op_delta (Reserve u p q) = (- q, q, 0)"
| "op_delta (Release u p q) = (q, - q, 0)"
| "op_delta (Commit_in_transit u p q) = (0, 0, q)"
| "op_delta (Receive u p q t) = (q, 0, if t then - q else 0)"
| "op_delta (Ship u p q) = (0, - q, 0)"
| "op_delta (Adjust u p d r) = (d, 0, 0)"

fun op_cause :: "ledger_op \<Rightarrow> movement_cause" where
  "op_cause (Reserve u p q) = Cause_reserve"
| "op_cause (Release u p q) = Cause_release"
| "op_cause (Commit_in_transit u p q) = Cause_commit_in_transit"
| "op_cause (Receive u p q t) = Cause_receive"
| "op_cause (Ship u p q) = Cause_ship"
| "op_cause (Adjust u p d r) = Cause_adjust r"

definition mv_total :: "movement \<Rightarrow> int" where
  "mv_total m = mv_available m + mv_reserved m + mv_in_transit m"

definition log_load :: "movement list \<Rightarrow> obj_id \<Rightarrow> int" where
  "log_load ms u = sum_list (map mv_total (filter (\<lambda>m. fst (mv_key m) = u) ms))"

definition within_capacity :: "ledger \<Rightarrow> bool" where
  "within_capacity l \<longleftrightarrow>
     (\<forall>u su m. layout l u = Some su \<longrightarrow> su_max_items su = Some m \<longrightarrow> unit_load l u \<le> max 0 m)"

definition ledger_inv :: "ledger \<Rightarrow> bool" where
  "ledger_inv l \<longleftrightarrow>
     entries l = replay (movements l) \<and>
     (\<forall>k e. entries l k = Some e \<longrightarrow> entry_ok e) \<and>
     map mv_time (movements l) = [0..<clock l] \<and>
     unit_load l = log_load (movements l) \<and>
     within_capacity l"

text \<open>A two-shelf layout used by the examples below: unit 1 holds at most ten items,
  unit 2 has no limit.\<close>

abbreviation example_layout :: "obj_id \<rightharpoonup> storage_unit" where
  "example_layout \<equiv>
     [1 \<mapsto> (new_storage_unit 1 ''Shelf A'' ''shelf'' ''A-1'' 0)\<lparr>su_max_items := Some 10\<rparr>,
      2 \<mapsto> new_storage_unit 1 ''Shelf B'' ''shelf'' ''B-1'' 0]"

section \<open>Lemmas\<close>

subsection \<open>Entries, loads and the log\<close>

lemma entry_ok_zero [simp]: "entry_ok zero_entry"
  by (simp add: entry_ok_def zero_entry_def)

lemma zero_entry_fields [simp]:
  "available zero_entry = 0" "reserved zero_entry = 0" "in_transit zero_entry = 0"
  by (simp_all add: zero_entry_def)

lemma shift_fields [simp]:
  "available (shift e da dr dt) = available e + da"
  "reserved (shift e da dr dt) = reserved e + dr"
  "in_transit (shift e da dr dt) = in_transit e + dt"
  by (simp_all add: shift_def)

lemma entry_in_apply_movement [simp]:
  "entry_in (apply_movement es m) k =
     (if k = mv_key m
      then shift (entry_in es k) (mv_available m) (mv_reserved m) (mv_in_transit m)
      else entry_in es k)"
  by (simp add: apply_movement_def entry_in_def)

lemma replay_snoc [simp]: "replay (ms @ [m]) = apply_movement (replay ms) m"
  by (simp add: replay_def)

lemma replay_Nil [simp]: "replay [] = Map.empty"
  by (simp add: replay_def)

lemma log_load_Nil [simp]: "log_load [] = (\<lambda>u. 0)"
  by (simp add: log_load_def fun_eq_iff)

lemma log_load_snoc [simp]:
  "log_load (ms @ [m]) = (log_load ms)(fst (mv_key m) := log_load ms (fst (mv_key m)) + mv_total m)"
  by (simp add: log_load_def fun_eq_iff)

lemma post_fields [ledger_simps]:
  "layout (post u p da dr dt c a l) = layout l"
  "entries (post u p da dr dt c a l) =
     apply_movement (entries l) \<lparr>mv_key = (u, p), mv_available = da, mv_reserved = dr,
       mv_in_transit = dt, mv_cause = c, mv_actor = a, mv_time = clock l\<rparr>"
  "movements (post u p da dr dt c a l) =
     movements l @ [\<lparr>mv_key = (u, p), mv_available = da, mv_reserved = dr,
       mv_in_transit = dt, mv_cause = c, mv_actor = a, mv_time = clock l\<rparr>]"
  "clock (post u p da dr dt c a l) = Suc (clock l)"
  "unit_load (post u p da dr dt c a l) = (unit_load l)(u := unit_load l u + da + dr + dt)"
  by (simp_all add: post_def Let_def)

lemma entries_post:
  "entries (post u p da dr dt c a l) = (entries l)((u, p) \<mapsto> shift (snapshot l u p) da dr dt)"
  by (simp add: post_fields apply_movement_def snapshot_def)

lemma snapshot_post [ledger_simps]:
  "snapshot (post u p da dr dt c a l) u' p' =
     (if (u', p') = (u, p) then shift (snapshot l u p) da dr dt else snapshot l u' p')"
  by (simp add: snapshot_def post_fields)

lemma snapshot_init [simp]: "snapshot (init_ledger us) u p = zero_entry"
  by (simp add: snapshot_def init_ledger_def entry_in_def)

lemma init_ledger_fields [simp]:
  "layout (init_ledger us) = us" "unit_load (init_ledger us) = (\<lambda>u. 0)"
  "movements (init_ledger us) = []" "clock (init_ledger us) = 0"
  by (simp_all add: init_ledger_def)

declare reserve_def [ledger_simps] release_def [ledger_simps] commit_in_transit_def [ledger_simps]
  receive_def [ledger_simps] ship_def [ledger_simps] adjust_def [ledger_simps]

subsection \<open>The operations implement their contract\<close>

lemma ledger_step_contract_eq:
  "ledger_step a l x =
     (case op_guard l x of
        Some err \<Rightarrow> Inl err
      | None \<Rightarrow> (case op_delta x of (da, dr, dt) \<Rightarrow>
                  Inr (post (fst (op_key x)) (snd (op_key x)) da dr dt (op_cause x) a l)))"
  by (cases x) (simp_all add: ledger_simps)

lemma ledger_step_Inr_post:
  assumes "ledger_step a l x = Inr l'"
  obtains da dr dt where "op_delta x = (da, dr, dt)" and "op_guard l x = None"
    and "l' = post (fst (op_key x)) (snd (op_key x)) da dr dt (op_cause x) a l"
  using assms by (auto simp: ledger_step_contract_eq split: option.splits prod.splits)

lemma ledger_step_guard_None:
  assumes "op_guard l x = None" and "op_delta x = (da, dr, dt)"
  shows "ledger_step a l x = Inr (post (fst (op_key x)) (snd (op_key x)) da dr dt (op_cause x) a l)"
  using assms by (simp add: ledger_step_contract_eq)

subsection \<open>Each guard keeps the invariant\<close>

lemma guard_keeps_entry_ok:
  assumes "entry_ok (snapshot l (fst (op_key x)) (snd (op_key x)))" and "op_guard l x = None"
    and "op_delta x = (da, dr, dt)"
  shows "entry_ok (shift (snapshot l (fst (op_key x)) (snd (op_key x))) da dr dt)"
  using assms by (cases x) (auto simp: entry_ok_def split: if_splits)

lemma guard_load_change:
  assumes "op_guard l x = None" and "op_delta x = (da, dr, dt)"
  shows "da + dr + dt \<le> 0 \<or> fits l (fst (op_key x)) (da + dr + dt)"
  using assms by (cases x) (auto split: if_splits)

lemma post_keeps_capacity:
  assumes cap: "within_capacity l" and ch: "da + dr + dt \<le> 0 \<or> fits l u (da + dr + dt)"
  shows "within_capacity (post u p da dr dt c a l)"
  using assms
  by (fastforce simp: within_capacity_def post_fields fits_def split: option.splits)

lemma snapshot_ok: "ledger_inv l \<Longrightarrow> entry_ok (snapshot l u p)"
  by (auto simp: ledger_inv_def snapshot_def entry_in_def split: option.splits)

lemma post_keeps_inv:
  assumes inv: "ledger_inv l"
    and ok: "entry_ok (shift (snapshot l u p) da dr dt)"
    and ch: "da + dr + dt \<le> 0 \<or> fits l u (da + dr + dt)"
  shows "ledger_inv (post u p da dr dt c a l)"
proof -
  have "entries (post u p da dr dt c a l) = replay (movements (post u p da dr dt c a l))"
    using inv by (simp add: ledger_inv_def post_fields)
  moreover have "\<forall>k e. entries (post u p da dr dt c a l) k = Some e \<longrightarrow> entry_ok e"
    using inv ok by (auto simp: ledger_inv_def post_fields apply_movement_def snapshot_def)
  moreover have "map mv_time (movements (post u p da dr dt c a l)) = [0..<clock (post u p da dr dt c a l)]"
    using inv by (simp add: ledger_inv_def post_fields)
  moreover have "unit_load (post u p da dr dt c a l) = log_load (movements (post u p da dr dt c a l))"
    using inv by (simp add: ledger_inv_def post_fields mv_total_def algebra_simps)
  moreover have "within_capacity (post u p da dr dt c a l)"
    using inv ch by (simp add: ledger_inv_def post_keeps_capacity)
  ultimately show ?thesis by (simp add: ledger_inv_def)
qed

lemma ledger_step_keeps_inv:
  assumes inv: "ledger_inv l" and st: "ledger_step a l x = Inr l'"
  shows "ledger_inv l'"
proof -
  obtain da dr dt where d: "op_delta x = (da, dr, dt)" and g: "op_guard l x = None"
    and l': "l' = post (fst (op_key x)) (snd (op_key x)) da dr dt (op_cause x) a l"
    using st by (rule ledger_step_Inr_post)
  have "entry_ok (shift (snapshot l (fst (op_key x)) (snd (op_key x))) da dr dt)"
    using guard_keeps_entry_ok [OF snapshot_ok [OF inv] g d] .
  moreover have "da + dr + dt \<le> 0 \<or> fits l (fst (op_key x)) (da + dr + dt)"
    using g d by (rule guard_load_change)
  ultimately show ?thesis
    using post_keeps_inv [OF inv] l' by blast
qed

lemma init_ledger_inv: "ledger_inv (init_ledger us)"
  by (simp add: ledger_inv_def init_ledger_def within_capacity_def fun_eq_iff)

lemma ledger_step_layout: "ledger_step a l x = Inr l' \<Longrightarrow> layout l' = layout l"
  by (auto elim: ledger_step_Inr_post simp: post_fields)

lemma ledger_reachable_ledger_inv: "ledger_reachable us l \<Longrightarrow> ledger_inv l \<and> layout l = us"
proof (induction rule: ledger_reachable.induct)
  case init
  show ?case by (simp add: init_ledger_inv)
next
  case (step us l a x l')
  then show ?case by (blast intro: ledger_step_keeps_inv dest: ledger_step_layout)
qed

lemma serve_requests_reachable:
  "ledger_reachable us l \<Longrightarrow> ledger_reachable us (serve_requests l rs)"
proof (induction rs arbitrary: l)
  case Nil
  then show ?case by simp
next
  case (Cons r rs)
  obtain a x where r: "r = (a, x)" by (cases r)
  have "ledger_reachable us (case ledger_step a l x of Inl e \<Rightarrow> l | Inr l' \<Rightarrow> l')"
    using Cons.prems by (auto intro: ledger_reachable.step split: sum.splits)
  then show ?case using Cons.IH r by simp
qed

subsection \<open>Frame\<close>

lemma ledger_step_frame:
  assumes "ledger_step a l x = Inr l'" and "u \<noteq> fst (op_key x)"
  shows "snapshot l' u p = snapshot l u p \<and> unit_load l' u = unit_load l u \<and> layout l' = layout l"
proof -
  obtain da dr dt where "l' = post (fst (op_key x)) (snd (op_key x)) da dr dt (op_cause x) a l"
    using assms(1) by (rule ledger_step_Inr_post)
  with assms(2) show ?thesis by (cases "op_key x") (auto simp: snapshot_post post_fields)
qed

lemma fits_local:
  "layout l' = layout l \<Longrightarrow> unit_load l' u = unit_load l u \<Longrightarrow> fits l' u q = fits l u q"
  by (simp add: fits_def split: option.splits)

lemma op_guard_local:
  "layout l' = layout l \<Longrightarrow>
   snapshot l' (fst (op_key x)) (snd (op_key x)) = snapshot l (fst (op_key x)) (snd (op_key x)) \<Longrightarrow>
   unit_load l' (fst (op_key x)) = unit_load l (fst (op_key x)) \<Longrightarrow>
   op_guard l' x = op_guard l x"
  by (cases x) (auto simp: fits_def split: option.splits)

lemma reachable_step_Inr:
  "ledger_reachable us l \<Longrightarrow> ledger_step a l x = Inr l' \<Longrightarrow> ledger_reachable us l'"
  by (rule ledger_reachable.step)

section \<open>Properties\<close>

text \<open>
  C1. Every ledger state reachable from an empty ledger over a layout of storage units,
  through successful operations, is consistent: each stored entry has non-negative
  \<open>available\<close>, \<open>reserved\<close> and \<open>in_transit\<close> buckets, the stored entries are
  exactly the fold of the movement log, and the log's timestamps are 0, 1, 2, ... in order.
\<close>

theorem reachable_ledger_consistent:
  assumes "ledger_reachable us l"
  shows "entries l = replay (movements l) \<and>
         (\<forall>k e. entries l k = Some e \<longrightarrow> 0 \<le> available e \<and> 0 \<le> reserved e \<and> 0 \<le> in_transit e) \<and>
         map mv_time (movements l) = [0..<clock l]"
  using ledger_reachable_ledger_inv [OF assms] by (simp add: ledger_inv_def entry_ok_def)

theorem reachable_ledger_consistent_witness:
  "ledger_reachable [1 \<mapsto> new_storage_unit 1 ''Shelf A'' ''shelf'' ''A-1'' 0]
     (post 1 2 5 0 0 Cause_receive 7 (init_ledger [1 \<mapsto> new_storage_unit 1 ''Shelf A'' ''shelf'' ''A-1'' 0])) \<and>
   map mv_time (movements (post 1 2 5 0 0 Cause_receive 7
     (init_ledger [1 \<mapsto> new_storage_unit 1 ''Shelf A'' ''shelf'' ''A-1'' 0]))) = [0..<1]"
proof -
  let ?us = "[1 \<mapsto> new_storage_unit 1 ''Shelf A'' ''shelf'' ''A-1'' 0]"
  have r: "ledger_reachable ?us (post 1 2 5 0 0 Cause_receive 7 (init_ledger ?us))"
    by (rule reachable_step_Inr [OF ledger_reachable.init, where a = 7 and x = "Receive 1 2 5 False"])
       (simp add: ledger_simps fits_def new_storage_unit_def)
  show ?thesis using reachable_ledger_consistent [OF r] r by (simp add: post_fields)
qed

lemma example_receive:
  "ledger_step 7 (init_ledger example_layout) (Receive 1 2 5 False) =
     Inr (post 1 2 5 0 0 Cause_receive 7 (init_ledger example_layout))"
  by (simp add: ledger_simps fits_def new_storage_unit_def)

lemma example_reachable:
  "ledger_reachable example_layout (post 1 2 5 0 0 Cause_receive 7 (init_ledger example_layout))"
  by (rule reachable_step_Inr [OF ledger_reachable.init example_receive])

text \<open>
  C27. Operations on different storage units commute (spec section 5: transactions on
  disjoint entries need no common lock): if one operation and then another on a different
  unit both succeed, the other order succeeds too and ends with the same stock entries and
  the same unit loads.
\<close>

theorem ledger_ops_commute:
  assumes units: "fst (op_key x1) \<noteq> fst (op_key x2)"
    and s1: "ledger_step a1 l x1 = Inr l1" and s12: "ledger_step a2 l1 x2 = Inr l12"
  shows "\<exists>l2 l21. ledger_step a2 l x2 = Inr l2 \<and> ledger_step a1 l2 x1 = Inr l21 \<and>
                  entries l21 = entries l12 \<and> unit_load l21 = unit_load l12"
proof -
  obtain u1 p1 u2 p2 where k1: "op_key x1 = (u1, p1)" and k2: "op_key x2 = (u2, p2)"
    by (cases "op_key x1", cases "op_key x2") auto
  have ne: "u1 \<noteq> u2" using units k1 k2 by simp
  obtain da1 dr1 dt1 where d1: "op_delta x1 = (da1, dr1, dt1)" and g1: "op_guard l x1 = None"
    and l1: "l1 = post u1 p1 da1 dr1 dt1 (op_cause x1) a1 l"
    using s1 k1 by (auto elim: ledger_step_Inr_post)
  obtain da2 dr2 dt2 where d2: "op_delta x2 = (da2, dr2, dt2)" and g2': "op_guard l1 x2 = None"
    and l12: "l12 = post u2 p2 da2 dr2 dt2 (op_cause x2) a2 l1"
    using s12 k2 by (auto elim: ledger_step_Inr_post)
  have fr1: "snapshot l1 u2 p2 = snapshot l u2 p2 \<and> unit_load l1 u2 = unit_load l u2 \<and> layout l1 = layout l"
    using ledger_step_frame [OF s1, of u2 p2] ne k1 by simp
  have g2: "op_guard l x2 = None"
    using g2' op_guard_local [of l1 l x2] fr1 k2 by simp
  define l2 where "l2 = post u2 p2 da2 dr2 dt2 (op_cause x2) a2 l"
  have s2: "ledger_step a2 l x2 = Inr l2"
    using ledger_step_guard_None [OF g2 d2, of a2] k2 by (simp add: l2_def)
  have fr2: "snapshot l2 u1 p1 = snapshot l u1 p1 \<and> unit_load l2 u1 = unit_load l u1 \<and> layout l2 = layout l"
    using ledger_step_frame [OF s2, of u1 p1] ne k2 by simp
  have g1': "op_guard l2 x1 = None"
    using g1 op_guard_local [of l2 l x1] fr2 k1 by simp
  define l21 where "l21 = post u1 p1 da1 dr1 dt1 (op_cause x1) a1 l2"
  have s21: "ledger_step a1 l2 x1 = Inr l21"
    using ledger_step_guard_None [OF g1' d1, of a1] k1 by (simp add: l21_def)
  have nek: "(u1, p1) \<noteq> (u2, p2)" using ne by simp
  have "entries l21 = entries l12"
    using fr1 fr2 by (simp add: l21_def l2_def l12 l1 entries_post fun_upd_twist [OF nek])
  moreover have "unit_load l21 = unit_load l12"
    using fr1 fr2 ne by (simp add: l21_def l2_def l12 l1 post_fields fun_upd_twist [OF ne])
  ultimately show ?thesis using s2 s21 by blast
qed

theorem ledger_ops_commute_witness:
  "fst (op_key (Receive 1 2 5 False)) \<noteq> fst (op_key (Receive 2 2 3 False)) \<and>
   ledger_step 7 (init_ledger example_layout) (Receive 1 2 5 False) =
     Inr (post 1 2 5 0 0 Cause_receive 7 (init_ledger example_layout)) \<and>
   ledger_step 8 (post 1 2 5 0 0 Cause_receive 7 (init_ledger example_layout)) (Receive 2 2 3 False) =
     Inr (post 2 2 3 0 0 Cause_receive 8 (post 1 2 5 0 0 Cause_receive 7 (init_ledger example_layout))) \<and>
   (\<exists>l2 l21. ledger_step 8 (init_ledger example_layout) (Receive 2 2 3 False) = Inr l2 \<and>
      ledger_step 7 l2 (Receive 1 2 5 False) = Inr l21 \<and>
      entries l21 = entries (post 2 2 3 0 0 Cause_receive 8
                     (post 1 2 5 0 0 Cause_receive 7 (init_ledger example_layout))))"
proof -
  have k: "fst (op_key (Receive 1 2 5 False)) \<noteq> fst (op_key (Receive 2 2 3 False))" by simp
  have s2: "ledger_step 8 (post 1 2 5 0 0 Cause_receive 7 (init_ledger example_layout)) (Receive 2 2 3 False) =
     Inr (post 2 2 3 0 0 Cause_receive 8 (post 1 2 5 0 0 Cause_receive 7 (init_ledger example_layout)))"
    by (simp add: ledger_simps post_fields fits_def new_storage_unit_def)
  show ?thesis
    using ledger_ops_commute [OF k example_receive s2] k example_receive s2 by blast
qed

text \<open>
  C4. In every reachable ledger, a storage unit whose \<open>max_items\<close> is set never holds
  more than that many items in total over all products (the sum of the movement deltas
  booked to the unit; a negative \<open>max_items\<close>, which the \<open>IntegerField\<close> admits,
  lets nothing in).
\<close>

theorem reachable_within_max_items:
  assumes "ledger_reachable us l" and "us u = Some su" and "su_max_items su = Some m"
  shows "log_load (movements l) u \<le> max 0 m"
proof -
  have "ledger_inv l" and "layout l = us" using ledger_reachable_ledger_inv [OF assms(1)] by simp_all
  then show ?thesis
    using assms(2,3) by (auto simp: ledger_inv_def within_capacity_def)
qed

theorem reachable_within_max_items_witness:
  "ledger_reachable example_layout (post 1 2 5 0 0 Cause_receive 7 (init_ledger example_layout)) \<and>
   example_layout 1 = Some ((new_storage_unit 1 ''Shelf A'' ''shelf'' ''A-1'' 0)\<lparr>su_max_items := Some 10\<rparr>) \<and>
   su_max_items ((new_storage_unit 1 ''Shelf A'' ''shelf'' ''A-1'' 0)\<lparr>su_max_items := Some 10\<rparr>) = Some 10 \<and>
   log_load (movements (post 1 2 5 0 0 Cause_receive 7 (init_ledger example_layout))) 1 = 5"
  using reachable_within_max_items [OF example_reachable, of 1 _ 10] example_reachable
  by (simp add: post_fields log_load_def mv_total_def)

end
