(* ===== verification/Companies.thy ===== *)
theory Companies
  imports Prelude
begin

text \<open>
  The tenant side of the schema: \<open>Company\<close> (src/backend/companies/models.py), the
  extended \<open>User\<close> (src/backend/users/models.py; the fields it inherits from Django's
  \<open>AbstractUser\<close> are represented by the \<open>username\<close> its \<open>__str__\<close> reads) and
  \<open>Marketplace\<close> with its type choices (src/backend/api/models.py). Three marketplace
  labels are Cyrillic; they are kept as their UTF-8 bytes.
\<close>

record company =
  co_name :: string
  co_short_name :: "string option"
  co_inn :: string
  co_kpp :: "string option"
  co_legal_address :: string
  co_actual_address :: "string option"
  co_bank_name :: "string option"
  co_bank_bik :: "string option"
  co_bank_account :: "string option"
  co_corr_account :: "string option"
  co_is_dropshipping_enabled :: bool
  co_contact_person :: "string option"
  co_contact_phone :: "string option"
  co_contact_email :: "string option"
  co_created_at :: datetime
  co_updated_at :: datetime

definition new_company :: "string \<Rightarrow> string \<Rightarrow> string \<Rightarrow> datetime \<Rightarrow> company" where
  "new_company name inn addr now =
     \<lparr>co_name = name, co_short_name = None, co_inn = inn, co_kpp = None, co_legal_address = addr,
      co_actual_address = None, co_bank_name = None, co_bank_bik = None, co_bank_account = None,
      co_corr_account = None, co_is_dropshipping_enabled = False, co_contact_person = None,
      co_contact_phone = None, co_contact_email = None, co_created_at = now, co_updated_at = now\<rparr>"

definition company_str :: "company \<Rightarrow> string" where
  "company_str c = co_name c"

text \<open>
  The length limits of the company's \<open>CharField\<close>s; \<open>contact_email\<close> is an
  \<open>EmailField\<close>, whose default \<open>max_length\<close> is 254 (the address syntax its
  \<open>EmailValidator\<close> also checks is not modelled).
\<close>

definition company_valid :: "company \<Rightarrow> bool" where
  "company_valid c \<longleftrightarrow>
     max_length_ok 255 (co_name c) \<and> max_length_ok 12 (co_inn c) \<and>
     (case co_short_name c of None \<Rightarrow> True | Some s \<Rightarrow> max_length_ok 100 s) \<and>
     (case co_kpp c of None \<Rightarrow> True | Some s \<Rightarrow> max_length_ok 9 s) \<and>
     (case co_bank_bik c of None \<Rightarrow> True | Some s \<Rightarrow> max_length_ok 9 s) \<and>
     (case co_bank_account c of None \<Rightarrow> True | Some s \<Rightarrow> max_length_ok 20 s) \<and>
     (case co_corr_account c of None \<Rightarrow> True | Some s \<Rightarrow> max_length_ok 20 s) \<and>
     (case co_bank_name c of None \<Rightarrow> True | Some s \<Rightarrow> max_length_ok 255 s) \<and>
     (case co_contact_person c of None \<Rightarrow> True | Some s \<Rightarrow> max_length_ok 255 s) \<and>
     (case co_contact_phone c of None \<Rightarrow> True | Some s \<Rightarrow> max_length_ok 20 s) \<and>
     (case co_contact_email c of None \<Rightarrow> True | Some s \<Rightarrow> max_length_ok 254 s)"

record user =
  usr_username :: string
  usr_email :: string
  usr_phone :: "string option"
  usr_position :: "string option"
  usr_company :: "obj_id option"
  usr_is_two_factor_enabled :: bool

definition user_str :: "user \<Rightarrow> string" where
  "user_str u = usr_username u"

definition utf8 :: "nat list \<Rightarrow> string" where
  "utf8 bs = map char_of bs"

definition MARKETPLACE_TYPES :: "(string \<times> string) list" where
  "MARKETPLACE_TYPES =
     [(''wildberries'', ''Wildberries''),
      (''ozon'', ''Ozon''),
      (''yandex_market'', utf8 [208, 175, 208, 189, 208, 180, 208, 181, 208, 186, 209, 129, 46,
                              208, 156, 208, 176, 209, 128, 208, 186, 208, 181, 209, 130]),
      (''aliexpress'', ''AliExpress''),
      (''sber_mega_market'', utf8 [208, 161, 208, 177, 208, 181, 209, 128, 208, 156, 208, 181,
                                 208, 179, 208, 176, 208, 156, 208, 176, 209, 128, 208, 186,
                                 208, 181, 209, 130]),
      (''other'', utf8 [208, 148, 209, 128, 209, 131, 208, 179, 208, 190, 208, 185])]"

record marketplace =
  mp_name :: string
  mp_type :: string
  mp_company :: obj_id
  mp_api_key :: "string option"
  mp_api_secret :: "string option"
  mp_client_id :: "string option"
  mp_is_fbs_enabled :: bool
  mp_is_connected :: bool
  mp_last_sync :: "datetime option"
  mp_products_count :: int
  mp_created_at :: datetime
  mp_updated_at :: datetime

definition new_marketplace :: "string \<Rightarrow> string \<Rightarrow> obj_id \<Rightarrow> datetime \<Rightarrow> marketplace" where
  "new_marketplace name ty co now =
     \<lparr>mp_name = name, mp_type = ty, mp_company = co, mp_api_key = None, mp_api_secret = None,
      mp_client_id = None, mp_is_fbs_enabled = False, mp_is_connected = False, mp_last_sync = None,
      mp_products_count = 0, mp_created_at = now, mp_updated_at = now\<rparr>"

definition marketplace_str :: "marketplace \<Rightarrow> string" where
  "marketplace_str m = mp_name m @ '' ('' @ choice_display MARKETPLACE_TYPES (mp_type m) @ '')''"

definition marketplace_valid :: "marketplace \<Rightarrow> bool" where
  "marketplace_valid m \<longleftrightarrow>
     max_length_ok 100 (mp_name m) \<and> max_length_ok 20 (mp_type m) \<and>
     mp_type m \<in> fst ` set MARKETPLACE_TYPES \<and> integer_field_ok (mp_products_count m) \<and>
     (case mp_api_key m of None \<Rightarrow> True | Some s \<Rightarrow> max_length_ok 255 s) \<and>
     (case mp_api_secret m of None \<Rightarrow> True | Some s \<Rightarrow> max_length_ok 255 s) \<and>
     (case mp_client_id m of None \<Rightarrow> True | Some s \<Rightarrow> max_length_ok 255 s)"

end
