(* ===== verification/Products.thy ===== *)
theory Products
  imports Prelude "HOL-Library.Multiset"
begin

text \<open>
  The \<open>products\<close> app (src/backend/products/models.py): \<open>Product\<close> (a company's
  article with a globally unique barcode and soft-delete flags), \<open>ProductImage\<close>
  (listed in the order of its \<open>order\<close> field, the model's \<open>Meta.ordering\<close>) and
  \<open>ProductMarketplace\<close>, the link of a product to its identity on a marketplace,
  unique per (product, marketplace).
\<close>

record product =
  prod_name :: string
  prod_article :: string
  prod_barcode :: string
  prod_description :: "string option"
  prod_company :: obj_id
  prod_brand :: "string option"
  prod_category :: "string option"
  prod_weight :: "decimal option"
  prod_width :: "decimal option"
  prod_height :: "decimal option"
  prod_depth :: "decimal option"
  prod_purchase_price :: "decimal option"
  prod_recommended_price :: "decimal option"
  prod_is_active :: bool
  prod_is_deleted :: bool
  prod_created_at :: datetime
  prod_updated_at :: datetime

definition new_product :: "string \<Rightarrow> string \<Rightarrow> string \<Rightarrow> obj_id \<Rightarrow> datetime \<Rightarrow> product" where
  "new_product name article barcode co now =
     \<lparr>prod_name = name, prod_article = article, prod_barcode = barcode, prod_description = None,
      prod_company = co, prod_brand = None, prod_category = None, prod_weight = None,
      prod_width = None, prod_height = None, prod_depth = None, prod_purchase_price = None,
      prod_recommended_price = None, prod_is_active = True, prod_is_deleted = False,
      prod_created_at = now, prod_updated_at = now\<rparr>"

definition product_str :: "product \<Rightarrow> string" where
  "product_str p = prod_name p @ '' ('' @ prod_article p @ '')''"

definition product_valid :: "product \<Rightarrow> bool" where
  "product_valid p \<longleftrightarrow>
     max_length_ok 255 (prod_name p) \<and> max_length_ok 100 (prod_article p) \<and>
     max_length_ok 100 (prod_barcode p) \<and>
     (case prod_brand p of None \<Rightarrow> True | Some s \<Rightarrow> max_length_ok 100 s) \<and>
     (case prod_category p of None \<Rightarrow> True | Some s \<Rightarrow> max_length_ok 100 s) \<and>
     (case prod_weight p of None \<Rightarrow> True | Some x \<Rightarrow> decimal_field_ok 10 x) \<and>
     (case prod_purchase_price p of None \<Rightarrow> True | Some x \<Rightarrow> decimal_field_ok 10 x) \<and>
     (case prod_recommended_price p of None \<Rightarrow> True | Some x \<Rightarrow> decimal_field_ok 10 x)"

record product_image =
  pi_product :: obj_id
  pi_image :: string
  pi_is_main :: bool
  pi_order :: int
  pi_created_at :: datetime

definition new_product_image :: "obj_id \<Rightarrow> string \<Rightarrow> datetime \<Rightarrow> product_image" where
  "new_product_image p path now =
     \<lparr>pi_product = p, pi_image = path, pi_is_main = False, pi_order = 0, pi_created_at = now\<rparr>"

definition product_image_str :: "string \<Rightarrow> string" where
  "product_image_str product_name = ''Image for '' @ product_name"

text \<open>\<open>Meta.ordering = ['order']\<close>: a queryset of images is sorted by \<open>order\<close>; rows
  with equal \<open>order\<close> keep the order the table gives them.\<close>

definition images_ordered :: "(obj_id \<times> product_image) list \<Rightarrow> (obj_id \<times> product_image) list" where
  "images_ordered rows = sort_key (\<lambda>r. pi_order (snd r)) rows"

record product_marketplace =
  pm_product :: obj_id
  pm_marketplace :: obj_id
  pm_external_id :: string
  pm_external_barcode :: "string option"
  pm_external_article :: "string option"
  pm_is_active :: bool
  pm_last_sync :: "datetime option"
  pm_created_at :: datetime
  pm_updated_at :: datetime

definition new_product_marketplace :: "obj_id \<Rightarrow> obj_id \<Rightarrow> string \<Rightarrow> datetime \<Rightarrow> product_marketplace" where
  "new_product_marketplace p m ext now =
     \<lparr>pm_product = p, pm_marketplace = m, pm_external_id = ext, pm_external_barcode = None,
      pm_external_article = None, pm_is_active = True, pm_last_sync = None,
      pm_created_at = now, pm_updated_at = now\<rparr>"

definition product_marketplace_str :: "string \<Rightarrow> string \<Rightarrow> string" where
  "product_marketplace_str product_name marketplace_name = product_name @ '' on '' @ marketplace_name"

end
