(* ===== verification/Orders.thy ===== *)
theory Orders
  imports Prelude
begin

text \<open>
  The \<open>orders\<close> app (src/backend/orders/models.py): the \<open>Order\<close> model with its status
  choice set, and \<open>OrderItem\<close>. A row is a record with one field per model field
  (foreign keys as the referenced primary key, nullable fields as options, decimals in
  hundredths); \<open>status\<close> is the stored \<open>CharField\<close> value. The enumeration
  \<open>order_status\<close> names the seven choices; \<open>order_status_value\<close> is the stored value
  of each and \<open>ORDER_STATUSES\<close> the source's choice tuple. \<open>new_order\<close> and
  \<open>new_order_item\<close> are \<open>objects.create\<close> with the declared defaults, \<open>order_str\<close>
  and \<open>order_item_str\<close> the \<open>__str__\<close> methods.
\<close>

datatype order_status =
    Order_new
  | Order_processing
  | Order_ready_to_ship
  | Order_shipped
  | Order_delivered
  | Order_cancelled
  | Order_returned

definition ORDER_STATUSES :: "(string \<times> string) list" where
  "ORDER_STATUSES =
     [(''new'', ''New''),
      (''processing'', ''Processing''),
      (''ready_to_ship'', ''Ready to ship''),
      (''shipped'', ''Shipped''),
      (''delivered'', ''Delivered''),
      (''cancelled'', ''Cancelled''),
      (''returned'', ''Returned'')]"

fun order_status_value :: "order_status \<Rightarrow> string" where
  "order_status_value Order_new = ''new''"
| "order_status_value Order_processing = ''processing''"
| "order_status_value Order_ready_to_ship = ''ready_to_ship''"
| "order_status_value Order_shipped = ''shipped''"
| "order_status_value Order_delivered = ''delivered''"
| "order_status_value Order_cancelled = ''cancelled''"
| "order_status_value Order_returned = ''returned''"

definition all_order_statuses :: "order_status list" where
  "all_order_statuses =
     [Order_new, Order_processing, Order_ready_to_ship, Order_shipped, Order_delivered,
      Order_cancelled, Order_returned]"

definition order_status_of :: "string \<Rightarrow> order_status option" where
  "order_status_of s = choice_of order_status_value all_order_statuses s"

record order =
  order_marketplace :: obj_id
  order_company :: obj_id
  order_external_id :: string
  order_status :: string
  order_shipping_warehouse :: "obj_id option"
  order_shipping_wave :: "string option"
  order_shipping_date :: "date option"
  order_total_price :: decimal
  order_fulfillment_cost :: "decimal option"
  order_weight :: "decimal option"
  order_created_at :: datetime
  order_updated_at :: datetime

definition new_order :: "obj_id \<Rightarrow> obj_id \<Rightarrow> string \<Rightarrow> decimal \<Rightarrow> datetime \<Rightarrow> order" where
  "new_order mp co ext price now =
     \<lparr>order_marketplace = mp, order_company = co, order_external_id = ext,
      order_status = ''new'', order_shipping_warehouse = None, order_shipping_wave = None,
      order_shipping_date = None, order_total_price = price, order_fulfillment_cost = None,
      order_weight = None, order_created_at = now, order_updated_at = now\<rparr>"

definition order_get_status_display :: "order \<Rightarrow> string" where
  "order_get_status_display r = choice_display ORDER_STATUSES (order_status r)"

definition order_str :: "order \<Rightarrow> string" where
  "order_str r = ''Order '' @ order_external_id r @ '' ('' @ order_get_status_display r @ '')''"

text \<open>Field validation of \<open>full_clean\<close> for an order row: the declared lengths, the
  choice set and the decimal precision.\<close>

definition order_valid :: "order \<Rightarrow> bool" where
  "order_valid r \<longleftrightarrow>
     max_length_ok 100 (order_external_id r) \<and>
     max_length_ok 20 (order_status r) \<and> order_status_of (order_status r) \<noteq> None \<and>
     (case order_shipping_wave r of None \<Rightarrow> True | Some w \<Rightarrow> max_length_ok 100 w) \<and>
     decimal_field_ok 10 (order_total_price r) \<and>
     (case order_fulfillment_cost r of None \<Rightarrow> True | Some c \<Rightarrow> decimal_field_ok 10 c) \<and>
     (case order_weight r of None \<Rightarrow> True | Some w \<Rightarrow> decimal_field_ok 10 w)"

record order_item =
  oi_order :: obj_id
  oi_product :: obj_id
  oi_quantity :: int
  oi_price :: decimal
  oi_is_processed :: bool
  oi_created_at :: datetime

definition new_order_item :: "obj_id \<Rightarrow> obj_id \<Rightarrow> int \<Rightarrow> decimal \<Rightarrow> datetime \<Rightarrow> order_item" where
  "new_order_item r p q price now =
     \<lparr>oi_order = r, oi_product = p, oi_quantity = q, oi_price = price,
      oi_is_processed = False, oi_created_at = now\<rparr>"

definition order_item_valid :: "order_item \<Rightarrow> bool" where
  "order_item_valid i \<longleftrightarrow> integer_field_ok (oi_quantity i) \<and> decimal_field_ok 10 (oi_price i)"

text \<open>\<open>OrderItem.__str__\<close> reads the product's name and the order's external id
  through the foreign keys; the model takes them as arguments.\<close>

definition order_item_str :: "string \<Rightarrow> string \<Rightarrow> order_item \<Rightarrow> string" where
  "order_item_str product_name order_external i =
     product_name @ '' x'' @ int_str (oi_quantity i) @ '' in Order '' @ order_external"

section \<open>Lemmas\<close>

lemma order_status_values_distinct: "distinct (map order_status_value all_order_statuses)"
  by (simp add: all_order_statuses_def)

lemma order_status_in_all: "s \<in> set all_order_statuses"
  by (cases s) (simp_all add: all_order_statuses_def)

lemma order_status_of_value [simp]: "order_status_of (order_status_value s) = Some s"
  by (simp add: order_status_of_def choice_of_val order_status_values_distinct order_status_in_all)

lemma order_status_of_Some: "order_status_of v = Some s \<Longrightarrow> order_status_value s = v"
  by (auto simp: order_status_of_def dest: choice_of_Some)

section \<open>Properties\<close>

text \<open>
  The order status enumeration is exactly the source's \<open>ORDER_STATUSES\<close>: the stored
  values of the seven statuses, in order, are the first components of the choice tuple;
  reading a stored value back gives the status it came from; the value is displayed with
  its label; and every value fits the field's \<open>max_length=20\<close>.
\<close>

theorem order_status_choices:
  "map order_status_value all_order_statuses = map fst ORDER_STATUSES \<and>
   order_status_of (order_status_value s) = Some s \<and>
   order_get_status_display (r\<lparr>order_status := order_status_value s\<rparr>) =
     the (map_of ORDER_STATUSES (order_status_value s)) \<and>
   max_length_ok 20 (order_status_value s)"
proof -
  have "order_status_of (order_status_value s) = Some s" by (rule order_status_of_value)
  moreover have "map order_status_value all_order_statuses = map fst ORDER_STATUSES"
    by (simp add: all_order_statuses_def ORDER_STATUSES_def)
  moreover have "order_get_status_display (r\<lparr>order_status := order_status_value s\<rparr>) =
     the (map_of ORDER_STATUSES (order_status_value s)) \<and> max_length_ok 20 (order_status_value s)"
    by (cases s) (simp_all add: ORDER_STATUSES_def order_get_status_display_def
        choice_display_def max_length_ok_def)
  ultimately show ?thesis by blast
qed

text \<open>
  An order created with the model's defaults is in status \<open>new\<close>, has no shipping
  warehouse, wave, date, fulfilment cost or weight, and prints as
  \<open>Order <external id> (New)\<close>; an order item created with its defaults is not processed.
\<close>

theorem new_order_defaults:
  "order_status_of (order_status (new_order mp co ext price now)) = Some Order_new \<and>
   order_shipping_warehouse (new_order mp co ext price now) = None \<and>
   order_str (new_order mp co ext price now) = ''Order '' @ ext @ '' (New)'' \<and>
   \<not> oi_is_processed (new_order_item oid pid q price now)"
proof -
  have "order_status_value Order_new = ''new''" by simp
  then have "order_status_of ''new'' = Some Order_new" using order_status_of_value by metis
  then show ?thesis
    by (simp add: new_order_def new_order_item_def order_str_def order_get_status_display_def
        choice_display_def ORDER_STATUSES_def)
qed

text \<open>
  C28. A freshly created order passes the field validation exactly when its external id
  has at most 100 characters and its total price has at most eight digits before the
  point (\<open>DecimalField(max_digits=10, decimal_places=2)\<close>): the largest accepted price is
  99,999,999.99.
\<close>

theorem new_order_valid_bounds:
  "order_valid (new_order mp co ext price now) \<longleftrightarrow>
     length ext \<le> 100 \<and> - 9999999999 \<le> price \<and> price \<le> 9999999999"
proof -
  have "order_status_of ''new'' = Some Order_new"
    using order_status_of_value [of Order_new] by simp
  then show ?thesis
    by (auto simp: order_valid_def new_order_def max_length_ok_def decimal_field_ok_def)
qed

end
