(* ===== verification/Supplies.thy ===== *)
theory Supplies
  imports Prelude
begin

text \<open>
  The \<open>supplies\<close> app (src/backend/supplies/models.py): \<open>Supply\<close>, a movement of stock
  from a source to a destination warehouse with its status choices, \<open>SupplyItem\<close> with
  the planned \<open>quantity\<close> and the \<open>quantity_received\<close> so far, and
  \<open>SupplyDocument\<close>. \<open>Supply.__str__\<close> prints the primary key, so \<open>supply_str\<close>
  takes it as an argument (\<open>None\<close> before the first save).
\<close>

datatype supply_status =
    Supply_draft
  | Supply_pending
  | Supply_approved
  | Supply_in_transit
  | Supply_received
  | Supply_cancelled

definition SUPPLY_STATUSES :: "(string \<times> string) list" where
  "SUPPLY_STATUSES =
     [(''draft'', ''Draft''), (''pending'', ''Pending''), (''approved'', ''Approved''),
      (''in_transit'', ''In transit''), (''received'', ''Received''), (''cancelled'', ''Cancelled'')]"

fun supply_status_value :: "supply_status \<Rightarrow> string" where
  "supply_status_value Supply_draft = ''draft''"
| "supply_status_value Supply_pending = ''pending''"
| "supply_status_value Supply_approved = ''approved''"
| "supply_status_value Supply_in_transit = ''in_transit''"
| "supply_status_value Supply_received = ''received''"
| "supply_status_value Supply_cancelled = ''cancelled''"

definition all_supply_statuses :: "supply_status list" where
  "all_supply_statuses =
     [Supply_draft, Supply_pending, Supply_approved, Supply_in_transit, Supply_received,
      Supply_cancelled]"

definition supply_status_of :: "string \<Rightarrow> supply_status option" where
  "supply_status_of s = choice_of supply_status_value all_supply_statuses s"

record supply_rec =
  sup_company :: obj_id
  sup_source_warehouse :: obj_id
  sup_destination_warehouse :: obj_id
  sup_status :: string
  sup_supply_date :: date
  sup_supply_time_slot :: string
  sup_pallets_count :: int
  sup_boxes_count :: int
  sup_pickup_required :: bool
  sup_comment :: "string option"
  sup_created_at :: datetime
  sup_updated_at :: datetime

definition new_supply :: "obj_id \<Rightarrow> obj_id \<Rightarrow> obj_id \<Rightarrow> date \<Rightarrow> string \<Rightarrow> datetime \<Rightarrow> supply_rec" where
  "new_supply co src dst d slot now =
     \<lparr>sup_company = co, sup_source_warehouse = src, sup_destination_warehouse = dst,
      sup_status = ''draft'', sup_supply_date = d, sup_supply_time_slot = slot,
      sup_pallets_count = 0, sup_boxes_count = 0, sup_pickup_required = False,
      sup_comment = None, sup_created_at = now, sup_updated_at = now\<rparr>"

definition supply_str :: "obj_id option \<Rightarrow> supply_rec \<Rightarrow> string" where
  "supply_str sid s =
     ''Supply #'' @ pk_str sid @ '' ('' @ choice_display SUPPLY_STATUSES (sup_status s) @ '')''"

definition supply_valid :: "supply_rec \<Rightarrow> bool" where
  "supply_valid s \<longleftrightarrow>
     max_length_ok 20 (sup_status s) \<and> supply_status_of (sup_status s) \<noteq> None \<and>
     max_length_ok 20 (sup_supply_time_slot s) \<and>
     integer_field_ok (sup_pallets_count s) \<and> integer_field_ok (sup_boxes_count s)"

record supply_item =
  si_supply :: obj_id
  si_product :: obj_id
  si_quantity :: int
  si_quantity_received :: int
  si_is_processed :: bool
  si_created_at :: datetime

definition new_supply_item :: "obj_id \<Rightarrow> obj_id \<Rightarrow> int \<Rightarrow> datetime \<Rightarrow> supply_item" where
  "new_supply_item s p q now =
     \<lparr>si_supply = s, si_product = p, si_quantity = q, si_quantity_received = 0,
      si_is_processed = False, si_created_at = now\<rparr>"

definition supply_item_valid :: "supply_item \<Rightarrow> bool" where
  "supply_item_valid i \<longleftrightarrow>
     integer_field_ok (si_quantity i) \<and> integer_field_ok (si_quantity_received i)"

definition supply_item_str :: "string \<Rightarrow> obj_id \<Rightarrow> supply_item \<Rightarrow> string" where
  "supply_item_str product_name sid i =
     product_name @ '' x'' @ int_str (si_quantity i) @ '' in Supply #'' @ int_str (int sid)"

record supply_document =
  sd_supply :: obj_id
  sd_name :: string
  sd_file :: string
  sd_created_at :: datetime

definition supply_document_str :: "obj_id \<Rightarrow> supply_document \<Rightarrow> string" where
  "supply_document_str sid d = sd_name d @ '' for Supply #'' @ int_str (int sid)"

section \<open>Lemmas\<close>

lemma supply_status_of_value [simp]: "supply_status_of (supply_status_value s) = Some s"
  by (cases s) (simp_all add: supply_status_of_def all_supply_statuses_def choice_of_def)

end
