(* ===== verification/Shipments.thy ===== *)
theory Shipments
  imports Prelude
begin

text \<open>
  The \<open>shipments\<close> app (src/backend/shipments/models.py): \<open>Shipment\<close> with its status
  choices, the junction \<open>ShipmentOrder\<close> (unique per (shipment, order): the only
  constraint the schema puts on the link) and \<open>ShipmentDocument\<close>.
\<close>

datatype shipment_status =
    Shipment_draft
  | Shipment_pending
  | Shipment_approved
  | Shipment_shipped
  | Shipment_delivered
  | Shipment_cancelled

definition SHIPMENT_STATUSES :: "(string \<times> string) list" where
  "SHIPMENT_STATUSES =
     [(''draft'', ''Draft''), (''pending'', ''Pending''), (''approved'', ''Approved''),
      (''shipped'', ''Shipped''), (''delivered'', ''Delivered''), (''cancelled'', ''Cancelled'')]"

fun shipment_status_value :: "shipment_status \<Rightarrow> string" where
  "shipment_status_value Shipment_draft = ''draft''"
| "shipment_status_value Shipment_pending = ''pending''"
| "shipment_status_value Shipment_approved = ''approved''"
| "shipment_status_value Shipment_shipped = ''shipped''"
| "shipment_status_value Shipment_delivered = ''delivered''"
| "shipment_status_value Shipment_cancelled = ''cancelled''"

definition all_shipment_statuses :: "shipment_status list" where
  "all_shipment_statuses =
     [Shipment_draft, Shipment_pending, Shipment_approved, Shipment_shipped, Shipment_delivered,
      Shipment_cancelled]"

definition shipment_status_of :: "string \<Rightarrow> shipment_status option" where
  "shipment_status_of s = choice_of shipment_status_value all_shipment_statuses s"

record shipment =
  shp_company :: obj_id
  shp_warehouse :: obj_id
  shp_status :: string
  shp_shipment_date :: date
  shp_transport_company :: "string option"
  shp_tracking_number :: "string option"
  shp_pallets_count :: int
  shp_boxes_count :: int
  shp_total_weight :: decimal
  shp_comment :: "string option"
  shp_created_at :: datetime
  shp_updated_at :: datetime

definition new_shipment :: "obj_id \<Rightarrow> obj_id \<Rightarrow> date \<Rightarrow> datetime \<Rightarrow> shipment" where
  "new_shipment co w d now =
     \<lparr>shp_company = co, shp_warehouse = w, shp_status = ''draft'', shp_shipment_date = d,
      shp_transport_company = None, shp_tracking_number = None, shp_pallets_count = 0,
      shp_boxes_count = 0, shp_total_weight = 0, shp_comment = None,
      shp_created_at = now, shp_updated_at = now\<rparr>"

definition shipment_str :: "obj_id option \<Rightarrow> shipment \<Rightarrow> string" where
  "shipment_str sid s =
     ''Shipment #'' @ pk_str sid @ '' ('' @ choice_display SHIPMENT_STATUSES (shp_status s) @ '')''"

definition shipment_valid :: "shipment \<Rightarrow> bool" where
  "shipment_valid s \<longleftrightarrow>
     max_length_ok 20 (shp_status s) \<and> shipment_status_of (shp_status s) \<noteq> None \<and>
     (case shp_transport_company s of None \<Rightarrow> True | Some t \<Rightarrow> max_length_ok 255 t) \<and>
     (case shp_tracking_number s of None \<Rightarrow> True | Some t \<Rightarrow> max_length_ok 100 t) \<and>
     integer_field_ok (shp_pallets_count s) \<and> integer_field_ok (shp_boxes_count s) \<and>
     decimal_field_ok 10 (shp_total_weight s)"

record shipment_order =
  so_shipment :: obj_id
  so_order :: obj_id
  so_created_at :: datetime

definition shipment_order_str :: "string \<Rightarrow> obj_id \<Rightarrow> string" where
  "shipment_order_str order_external sid = ''Order '' @ order_external @ '' in Shipment #'' @ int_str (int sid)"

record shipment_document =
  sdoc_shipment :: obj_id
  sdoc_name :: string
  sdoc_file :: string
  sdoc_created_at :: datetime

definition shipment_document_str :: "obj_id \<Rightarrow> shipment_document \<Rightarrow> string" where
  "shipment_document_str sid d = sdoc_name d @ '' for Shipment #'' @ int_str (int sid)"

section \<open>Lemmas\<close>

lemma shipment_status_of_value [simp]: "shipment_status_of (shipment_status_value s) = Some s"
  by (cases s) (simp_all add: shipment_status_of_def all_shipment_statuses_def choice_of_def)

end
