(* ===== verification/Services.thy ===== *)
theory Services
  imports Prelude
begin

text \<open>
  The \<open>services\<close> app (src/backend/services/models.py): \<open>Service\<close> (an add-on a company
  offers, with type and price-type choices), \<open>ServiceRequest\<close> (an order of a service
  at a warehouse, with status choices) and \<open>ServiceRequestItem\<close> (the products it is
  applied to, with the quantity processed so far).
\<close>

definition SERVICE_TYPES :: "(string \<times> string) list" where
  "SERVICE_TYPES =
     [(''packaging'', ''Packaging''), (''labeling'', ''Labeling''), (''photo'', ''Photography''),
      (''inspection'', ''Inspection''), (''repair'', ''Repair''), (''other'', ''Other'')]"

definition PRICE_TYPES :: "(string \<times> string) list" where
  "PRICE_TYPES = [(''fixed'', ''Fixed''), (''per_item'', ''Per item''), (''per_hour'', ''Per hour'')]"

record service =
  svc_name :: string
  svc_type :: string
  svc_description :: "string option"
  svc_company :: obj_id
  svc_price :: decimal
  svc_price_type :: string
  svc_is_active :: bool
  svc_created_at :: datetime
  svc_updated_at :: datetime

definition new_service :: "string \<Rightarrow> string \<Rightarrow> obj_id \<Rightarrow> decimal \<Rightarrow> datetime \<Rightarrow> service" where
  "new_service name ty co price now =
     \<lparr>svc_name = name, svc_type = ty, svc_description = None, svc_company = co, svc_price = price,
      svc_price_type = ''fixed'', svc_is_active = True, svc_created_at = now, svc_updated_at = now\<rparr>"

definition service_str :: "service \<Rightarrow> string" where
  "service_str s = svc_name s @ '' ('' @ choice_display SERVICE_TYPES (svc_type s) @ '')''"

definition service_valid :: "service \<Rightarrow> bool" where
  "service_valid s \<longleftrightarrow>
     max_length_ok 255 (svc_name s) \<and> max_length_ok 20 (svc_type s) \<and>
     svc_type s \<in> fst ` set SERVICE_TYPES \<and> decimal_field_ok 10 (svc_price s) \<and>
     max_length_ok 10 (svc_price_type s) \<and> svc_price_type s \<in> fst ` set PRICE_TYPES"

definition REQUEST_STATUSES :: "(string \<times> string) list" where
  "REQUEST_STATUSES =
     [(''new'', ''New''), (''in_progress'', ''In progress''), (''completed'', ''Completed''),
      (''cancelled'', ''Cancelled'')]"

record service_request =
  sr_service :: obj_id
  sr_company :: obj_id
  sr_warehouse :: obj_id
  sr_status :: string
  sr_quantity :: int
  sr_planned_date :: date
  sr_completed_date :: "date option"
  sr_total_cost :: decimal
  sr_comment :: "string option"
  sr_created_at :: datetime
  sr_updated_at :: datetime

definition new_service_request :: "obj_id \<Rightarrow> obj_id \<Rightarrow> obj_id \<Rightarrow> date \<Rightarrow> decimal \<Rightarrow> datetime \<Rightarrow> service_request" where
  "new_service_request s co w d cost now =
     \<lparr>sr_service = s, sr_company = co, sr_warehouse = w, sr_status = ''new'', sr_quantity = 1,
      sr_planned_date = d, sr_completed_date = None, sr_total_cost = cost, sr_comment = None,
      sr_created_at = now, sr_updated_at = now\<rparr>"

definition service_request_str :: "string \<Rightarrow> obj_id option \<Rightarrow> service_request \<Rightarrow> string" where
  "service_request_str service_name rid r =
     service_name @ '' request #'' @ pk_str rid @ '' ('' @
     choice_display REQUEST_STATUSES (sr_status r) @ '')''"

record service_request_item =
  sri_service_request :: obj_id
  sri_product :: obj_id
  sri_quantity :: int
  sri_quantity_processed :: int
  sri_is_completed :: bool
  sri_created_at :: datetime

definition service_request_item_str :: "string \<Rightarrow> obj_id \<Rightarrow> service_request_item \<Rightarrow> string" where
  "service_request_item_str product_name rid i =
     product_name @ '' x'' @ int_str (sri_quantity i) @ '' in Service request #'' @ int_str (int rid)"

end
