(* ===== verification/Reports.thy ===== *)
theory Reports
  imports Prelude
begin

text \<open>
  The \<open>reports\<close> app (src/backend/reports/models.py): \<open>Report\<close> with its type and
  format choices, \<open>Inventory\<close> (a stock-count session over a warehouse, with status
  choices) and \<open>InventoryItem\<close> (a product's expected and counted quantity, the
  \<open>is_checked\<close> flag and the stored \<open>has_discrepancy\<close> flag).
\<close>

definition REPORT_TYPES :: "(string \<times> string) list" where
  "REPORT_TYPES =
     [(''inventory'', ''Inventory''), (''sales'', ''Sales''), (''orders'', ''Orders''),
      (''supplies'', ''Supplies''), (''shipments'', ''Shipments''), (''services'', ''Services''),
      (''financial'', ''Financial''), (''custom'', ''Custom'')]"

definition REPORT_FORMATS :: "(string \<times> string) list" where
  "REPORT_FORMATS = [(''pdf'', ''PDF''), (''excel'', ''Excel''), (''csv'', ''CSV'')]"

record report =
  rep_name :: string
  rep_type :: string
  rep_format :: string
  rep_company :: obj_id
  rep_parameters :: "string option"
  rep_file :: "string option"
  rep_is_generated :: bool
  rep_generation_date :: "datetime option"
  rep_created_at :: datetime
  rep_updated_at :: datetime

definition report_str :: "report \<Rightarrow> string" where
  "report_str r = rep_name r @ '' ('' @ choice_display REPORT_TYPES (rep_type r) @ '')''"

definition report_valid :: "report \<Rightarrow> bool" where
  "report_valid r \<longleftrightarrow>
     max_length_ok 255 (rep_name r) \<and> max_length_ok 20 (rep_type r) \<and>
     rep_type r \<in> fst ` set REPORT_TYPES \<and>
     max_length_ok 10 (rep_format r) \<and> rep_format r \<in> fst ` set REPORT_FORMATS"

datatype inventory_status = Inv_draft | Inv_in_progress | Inv_completed | Inv_cancelled

definition INVENTORY_STATUSES :: "(string \<times> string) list" where
  "INVENTORY_STATUSES =
     [(''draft'', ''Draft''), (''in_progress'', ''In progress''), (''completed'', ''Completed''),
      (''cancelled'', ''Cancelled'')]"

fun inventory_status_value :: "inventory_status \<Rightarrow> string" where
  "inventory_status_value Inv_draft = ''draft''"
| "inventory_status_value Inv_in_progress = ''in_progress''"
| "inventory_status_value Inv_completed = ''completed''"
| "inventory_status_value Inv_cancelled = ''cancelled''"

definition all_inventory_statuses :: "inventory_status list" where
  "all_inventory_statuses = [Inv_draft, Inv_in_progress, Inv_completed, Inv_cancelled]"

definition inventory_status_of :: "string \<Rightarrow> inventory_status option" where
  "inventory_status_of s = choice_of inventory_status_value all_inventory_statuses s"

record inventory =
  inv_company :: obj_id
  inv_warehouse :: obj_id
  inv_name :: string
  inv_status :: string
  inv_start_date :: date
  inv_end_date :: "date option"
  inv_comment :: "string option"
  inv_created_at :: datetime
  inv_updated_at :: datetime

definition new_inventory :: "obj_id \<Rightarrow> obj_id \<Rightarrow> string \<Rightarrow> date \<Rightarrow> datetime \<Rightarrow> inventory" where
  "new_inventory co w name d now =
     \<lparr>inv_company = co, inv_warehouse = w, inv_name = name, inv_status = ''draft'',
      inv_start_date = d, inv_end_date = None, inv_comment = None,
      inv_created_at = now, inv_updated_at = now\<rparr>"

definition inventory_str :: "inventory \<Rightarrow> string" where
  "inventory_str i = inv_name i @ '' ('' @ choice_display INVENTORY_STATUSES (inv_status i) @ '')''"

record inventory_item =
  ii_inventory :: obj_id
  ii_product :: obj_id
  ii_expected_quantity :: int
  ii_actual_quantity :: "int option"
  ii_is_checked :: bool
  ii_has_discrepancy :: bool
  ii_discrepancy_reason :: "string option"
  ii_created_at :: datetime
  ii_updated_at :: datetime

definition new_inventory_item :: "obj_id \<Rightarrow> obj_id \<Rightarrow> int \<Rightarrow> datetime \<Rightarrow> inventory_item" where
  "new_inventory_item i p expected now =
     \<lparr>ii_inventory = i, ii_product = p, ii_expected_quantity = expected, ii_actual_quantity = None,
      ii_is_checked = False, ii_has_discrepancy = False, ii_discrepancy_reason = None,
      ii_created_at = now, ii_updated_at = now\<rparr>"

definition inventory_item_str :: "string \<Rightarrow> string \<Rightarrow> string" where
  "inventory_item_str product_name inventory_name = product_name @ '' in Inventory '' @ inventory_name"

section \<open>Lemmas\<close>

lemma inventory_status_of_value [simp]: "inventory_status_of (inventory_status_value s) = Some s"
  by (cases s) (simp_all add: inventory_status_of_def all_inventory_statuses_def choice_of_def)

end
