(* ===== verification/Store.thy ===== *)
theory Store
  imports Companies Warehouses Products Orders Supplies Shipments Services Reports
begin

text \<open>
  The database the Django models declare, with the semantics the ORM gives the
  declarations: one table per model (rows keyed by primary key), the foreign keys that
  must point at an existing row, the \<open>unique\<close> and \<open>unique_together\<close> constraints that
  an insert violating them trips (an \<open>IntegrityError\<close>), and the \<open>on_delete\<close> rules
  that deleting a row applies to the rows referring to it: \<open>CASCADE\<close> deletes them,
  transitively, \<open>SET_NULL\<close> (only \<open>Order.shipping_warehouse\<close>) clears the reference.
  Primary keys come from one counter \<open>next_id\<close> (Django keeps one sequence per table;
  a shared counter also gives keys unique per table).

  \<open>StorageUnit.parent_unit\<close> refers to the same table, so the storage units a deletion
  reaches are a closure: \<open>unit_closure\<close> iterates one step of it as many times as the
  table has rows, which is enough to reach a fixpoint even when the parent links form a
  cycle, which the schema does not forbid.
\<close>

record db =
  companies :: "company table"
  users :: "user table"
  marketplaces :: "marketplace table"
  warehouses :: "warehouse table"
  storage_units :: "storage_unit table"
  products :: "product table"
  product_images :: "product_image table"
  product_marketplaces :: "product_marketplace table"
  orders :: "order table"
  order_items :: "order_item table"
  supplies :: "supply_rec table"
  supply_items :: "supply_item table"
  supply_documents :: "supply_document table"
  shipments :: "shipment table"
  shipment_orders :: "shipment_order table"
  shipment_documents :: "shipment_document table"
  services :: "service table"
  service_requests :: "service_request table"
  service_request_items :: "service_request_item table"
  reports :: "report table"
  inventories :: "inventory table"
  inventory_items :: "inventory_item table"
  next_id :: obj_id

section \<open>Foreign keys\<close>

definition opt_ref :: "'a table \<Rightarrow> obj_id option \<Rightarrow> bool" where
  "opt_ref t r = (case r of None \<Rightarrow> True | Some i \<Rightarrow> has_row t i)"

definition fk_users :: "db \<Rightarrow> bool" where
  "fk_users d \<longleftrightarrow> (\<forall>(i, u) \<in> set (users d). opt_ref (companies d) (usr_company u))"

definition fk_marketplaces :: "db \<Rightarrow> bool" where
  "fk_marketplaces d \<longleftrightarrow> (\<forall>(i, m) \<in> set (marketplaces d). has_row (companies d) (mp_company m))"

definition fk_warehouses :: "db \<Rightarrow> bool" where
  "fk_warehouses d \<longleftrightarrow> (\<forall>(i, w) \<in> set (warehouses d). has_row (companies d) (wh_company w))"

definition fk_storage_units :: "db \<Rightarrow> bool" where
  "fk_storage_units d \<longleftrightarrow>
     (\<forall>(i, u) \<in> set (storage_units d).
        has_row (warehouses d) (su_warehouse u) \<and> opt_ref (storage_units d) (su_parent_unit u))"

definition fk_products :: "db \<Rightarrow> bool" where
  "fk_products d \<longleftrightarrow> (\<forall>(i, p) \<in> set (products d). has_row (companies d) (prod_company p))"

definition fk_product_images :: "db \<Rightarrow> bool" where
  "fk_product_images d \<longleftrightarrow> (\<forall>(i, x) \<in> set (product_images d). has_row (products d) (pi_product x))"

definition fk_product_marketplaces :: "db \<Rightarrow> bool" where
  "fk_product_marketplaces d \<longleftrightarrow>
     (\<forall>(i, x) \<in> set (product_marketplaces d).
        has_row (products d) (pm_product x) \<and> has_row (marketplaces d) (pm_marketplace x))"

definition fk_orders :: "db \<Rightarrow> bool" where
  "fk_orders d \<longleftrightarrow>
     (\<forall>(i, r) \<in> set (orders d).
        has_row (marketplaces d) (order_marketplace r) \<and> has_row (companies d) (order_company r) \<and>
        opt_ref (warehouses d) (order_shipping_warehouse r))"

definition fk_order_items :: "db \<Rightarrow> bool" where
  "fk_order_items d \<longleftrightarrow>
     (\<forall>(i, x) \<in> set (order_items d). has_row (orders d) (oi_order x) \<and> has_row (products d) (oi_product x))"

definition fk_supplies :: "db \<Rightarrow> bool" where
  "fk_supplies d \<longleftrightarrow>
     (\<forall>(i, s) \<in> set (supplies d).
        has_row (companies d) (sup_company s) \<and> has_row (warehouses d) (sup_source_warehouse s) \<and>
        has_row (warehouses d) (sup_destination_warehouse s))"

definition fk_supply_items :: "db \<Rightarrow> bool" where
  "fk_supply_items d \<longleftrightarrow>
     (\<forall>(i, x) \<in> set (supply_items d). has_row (supplies d) (si_supply x) \<and> has_row (products d) (si_product x))"

definition fk_supply_documents :: "db \<Rightarrow> bool" where
  "fk_supply_documents d \<longleftrightarrow> (\<forall>(i, x) \<in> set (supply_documents d). has_row (supplies d) (sd_supply x))"

definition fk_shipments :: "db \<Rightarrow> bool" where
  "fk_shipments d \<longleftrightarrow>
     (\<forall>(i, s) \<in> set (shipments d). has_row (companies d) (shp_company s) \<and> has_row (warehouses d) (shp_warehouse s))"

definition fk_shipment_orders :: "db \<Rightarrow> bool" where
  "fk_shipment_orders d \<longleftrightarrow>
     (\<forall>(i, x) \<in> set (shipment_orders d). has_row (shipments d) (so_shipment x) \<and> has_row (orders d) (so_order x))"

definition fk_shipment_documents :: "db \<Rightarrow> bool" where
  "fk_shipment_documents d \<longleftrightarrow> (\<forall>(i, x) \<in> set (shipment_documents d). has_row (shipments d) (sdoc_shipment x))"

definition fk_services :: "db \<Rightarrow> bool" where
  "fk_services d \<longleftrightarrow> (\<forall>(i, s) \<in> set (services d). has_row (companies d) (svc_company s))"

definition fk_service_requests :: "db \<Rightarrow> bool" where
  "fk_service_requests d \<longleftrightarrow>
     (\<forall>(i, r) \<in> set (service_requests d).
        has_row (services d) (sr_service r) \<and> has_row (companies d) (sr_company r) \<and>
        has_row (warehouses d) (sr_warehouse r))"

definition fk_service_request_items :: "db \<Rightarrow> bool" where
  "fk_service_request_items d \<longleftrightarrow>
     (\<forall>(i, x) \<in> set (service_request_items d).
        has_row (service_requests d) (sri_service_request x) \<and> has_row (products d) (sri_product x))"

definition fk_reports :: "db \<Rightarrow> bool" where
  "fk_reports d \<longleftrightarrow> (\<forall>(i, r) \<in> set (reports d). has_row (companies d) (rep_company r))"

definition fk_inventories :: "db \<Rightarrow> bool" where
  "fk_inventories d \<longleftrightarrow>
     (\<forall>(i, v) \<in> set (inventories d). has_row (companies d) (inv_company v) \<and> has_row (warehouses d) (inv_warehouse v))"

definition fk_inventory_items :: "db \<Rightarrow> bool" where
  "fk_inventory_items d \<longleftrightarrow>
     (\<forall>(i, x) \<in> set (inventory_items d).
        has_row (inventories d) (ii_inventory x) \<and> has_row (products d) (ii_product x))"

definition fk_ok :: "db \<Rightarrow> bool" where
  "fk_ok d \<longleftrightarrow>
     fk_users d \<and> fk_marketplaces d \<and> fk_warehouses d \<and> fk_storage_units d \<and> fk_products d \<and>
     fk_product_images d \<and> fk_product_marketplaces d \<and> fk_orders d \<and> fk_order_items d \<and>
     fk_supplies d \<and> fk_supply_items d \<and> fk_supply_documents d \<and> fk_shipments d \<and>
     fk_shipment_orders d \<and> fk_shipment_documents d \<and> fk_services d \<and> fk_service_requests d \<and>
     fk_service_request_items d \<and> fk_reports d \<and> fk_inventories d \<and> fk_inventory_items d"

section \<open>The storage-unit closure\<close>

definition unit_step :: "storage_unit table \<Rightarrow> (obj_id \<Rightarrow> bool) \<Rightarrow> obj_id \<Rightarrow> bool" where
  "unit_step us D i \<longleftrightarrow>
     D i \<or> list_ex (\<lambda>(j, u). j = i \<and> (case su_parent_unit u of None \<Rightarrow> False | Some p \<Rightarrow> D p)) us"

fun unit_closure :: "nat \<Rightarrow> storage_unit table \<Rightarrow> (obj_id \<Rightarrow> bool) \<Rightarrow> obj_id \<Rightarrow> bool" where
  "unit_closure 0 us D = D"
| "unit_closure (Suc n) us D = unit_closure n us (unit_step us D)"

definition parent_closed :: "storage_unit table \<Rightarrow> (obj_id \<Rightarrow> bool) \<Rightarrow> bool" where
  "parent_closed us R \<longleftrightarrow>
     (\<forall>(i, u) \<in> set us. case su_parent_unit u of None \<Rightarrow> True | Some p \<Rightarrow> R p \<longrightarrow> R i)"

text \<open>The keys the closure has reached after \<open>k\<close> steps (used to bound the fuel).\<close>

definition reached :: "storage_unit table \<Rightarrow> (obj_id \<Rightarrow> bool) \<Rightarrow> nat \<Rightarrow> obj_id set" where
  "reached us D k = {i \<in> fst ` set us. (unit_step us ^^ k) D i}"

section \<open>Deletion\<close>

text \<open>The object a deletion starts from: a row of any of the 22 models (\<open>obj.delete()\<close>).\<close>

datatype del_target =
    Del_company obj_id
  | Del_marketplace obj_id
  | Del_warehouse obj_id
  | Del_storage_unit obj_id
  | Del_product obj_id
  | Del_order obj_id
  | Del_supply obj_id
  | Del_shipment obj_id
  | Del_service obj_id
  | Del_service_request obj_id
  | Del_inventory obj_id
  | Del_user obj_id
  | Del_product_image obj_id
  | Del_product_marketplace obj_id
  | Del_order_item obj_id
  | Del_supply_item obj_id
  | Del_supply_document obj_id
  | Del_shipment_order obj_id
  | Del_shipment_document obj_id
  | Del_service_request_item obj_id
  | Del_report obj_id
  | Del_inventory_item obj_id

text \<open>
  For each table, the rows the deletion of \<open>t\<close> removes: the target itself, and the rows
  whose \<open>CASCADE\<close> foreign key points at a removed row of the referenced table.
\<close>

definition gone_company :: "del_target \<Rightarrow> obj_id \<Rightarrow> company \<Rightarrow> bool" where
  "gone_company t i c \<longleftrightarrow> t = Del_company i"

definition dead_company :: "del_target \<Rightarrow> db \<Rightarrow> obj_id \<Rightarrow> bool" where
  "dead_company t d = doomed_in (gone_company t) (companies d)"

definition gone_user :: "del_target \<Rightarrow> db \<Rightarrow> obj_id \<Rightarrow> user \<Rightarrow> bool" where
  "gone_user t d i u \<longleftrightarrow>
     t = Del_user i \<or> (case usr_company u of None \<Rightarrow> False | Some c \<Rightarrow> dead_company t d c)"

definition gone_marketplace :: "del_target \<Rightarrow> db \<Rightarrow> obj_id \<Rightarrow> marketplace \<Rightarrow> bool" where
  "gone_marketplace t d i m \<longleftrightarrow> t = Del_marketplace i \<or> dead_company t d (mp_company m)"

definition dead_marketplace :: "del_target \<Rightarrow> db \<Rightarrow> obj_id \<Rightarrow> bool" where
  "dead_marketplace t d = doomed_in (gone_marketplace t d) (marketplaces d)"

definition gone_warehouse :: "del_target \<Rightarrow> db \<Rightarrow> obj_id \<Rightarrow> warehouse \<Rightarrow> bool" where
  "gone_warehouse t d i w \<longleftrightarrow> t = Del_warehouse i \<or> dead_company t d (wh_company w)"

definition dead_warehouse :: "del_target \<Rightarrow> db \<Rightarrow> obj_id \<Rightarrow> bool" where
  "dead_warehouse t d = doomed_in (gone_warehouse t d) (warehouses d)"

definition unit_roots :: "del_target \<Rightarrow> db \<Rightarrow> obj_id \<Rightarrow> bool" where
  "unit_roots t d i \<longleftrightarrow>
     t = Del_storage_unit i \<or>
     doomed_in (\<lambda>j u. dead_warehouse t d (su_warehouse u)) (storage_units d) i"

definition dead_unit :: "del_target \<Rightarrow> db \<Rightarrow> obj_id \<Rightarrow> bool" where
  "dead_unit t d = unit_closure (length (storage_units d)) (storage_units d) (unit_roots t d)"

definition gone_product :: "del_target \<Rightarrow> db \<Rightarrow> obj_id \<Rightarrow> product \<Rightarrow> bool" where
  "gone_product t d i p \<longleftrightarrow> t = Del_product i \<or> dead_company t d (prod_company p)"

definition dead_product :: "del_target \<Rightarrow> db \<Rightarrow> obj_id \<Rightarrow> bool" where
  "dead_product t d = doomed_in (gone_product t d) (products d)"

definition gone_order :: "del_target \<Rightarrow> db \<Rightarrow> obj_id \<Rightarrow> order \<Rightarrow> bool" where
  "gone_order t d i r \<longleftrightarrow>
     t = Del_order i \<or> dead_marketplace t d (order_marketplace r) \<or> dead_company t d (order_company r)"

definition dead_order :: "del_target \<Rightarrow> db \<Rightarrow> obj_id \<Rightarrow> bool" where
  "dead_order t d = doomed_in (gone_order t d) (orders d)"

definition gone_supply :: "del_target \<Rightarrow> db \<Rightarrow> obj_id \<Rightarrow> supply_rec \<Rightarrow> bool" where
  "gone_supply t d i s \<longleftrightarrow>
     t = Del_supply i \<or> dead_company t d (sup_company s) \<or>
     dead_warehouse t d (sup_source_warehouse s) \<or> dead_warehouse t d (sup_destination_warehouse s)"

definition dead_supply :: "del_target \<Rightarrow> db \<Rightarrow> obj_id \<Rightarrow> bool" where
  "dead_supply t d = doomed_in (gone_supply t d) (supplies d)"

definition gone_shipment :: "del_target \<Rightarrow> db \<Rightarrow> obj_id \<Rightarrow> shipment \<Rightarrow> bool" where
  "gone_shipment t d i s \<longleftrightarrow>
     t = Del_shipment i \<or> dead_company t d (shp_company s) \<or> dead_warehouse t d (shp_warehouse s)"

definition dead_shipment :: "del_target \<Rightarrow> db \<Rightarrow> obj_id \<Rightarrow> bool" where
  "dead_shipment t d = doomed_in (gone_shipment t d) (shipments d)"

definition gone_service :: "del_target \<Rightarrow> db \<Rightarrow> obj_id \<Rightarrow> service \<Rightarrow> bool" where
  "gone_service t d i s \<longleftrightarrow> t = Del_service i \<or> dead_company t d (svc_company s)"

definition dead_service :: "del_target \<Rightarrow> db \<Rightarrow> obj_id \<Rightarrow> bool" where
  "dead_service t d = doomed_in (gone_service t d) (services d)"

definition gone_service_request :: "del_target \<Rightarrow> db \<Rightarrow> obj_id \<Rightarrow> service_request \<Rightarrow> bool" where
  "gone_service_request t d i r \<longleftrightarrow>
     t = Del_service_request i \<or> dead_service t d (sr_service r) \<or> dead_company t d (sr_company r) \<or>
     dead_warehouse t d (sr_warehouse r)"

definition dead_service_request :: "del_target \<Rightarrow> db \<Rightarrow> obj_id \<Rightarrow> bool" where
  "dead_service_request t d = doomed_in (gone_service_request t d) (service_requests d)"

definition gone_inventory :: "del_target \<Rightarrow> db \<Rightarrow> obj_id \<Rightarrow> inventory \<Rightarrow> bool" where
  "gone_inventory t d i v \<longleftrightarrow>
     t = Del_inventory i \<or> dead_company t d (inv_company v) \<or> dead_warehouse t d (inv_warehouse v)"

definition dead_inventory :: "del_target \<Rightarrow> db \<Rightarrow> obj_id \<Rightarrow> bool" where
  "dead_inventory t d = doomed_in (gone_inventory t d) (inventories d)"

text \<open>\<open>SET_NULL\<close>: a surviving order whose shipping warehouse is removed keeps no warehouse.\<close>

definition null_shipping_warehouse :: "del_target \<Rightarrow> db \<Rightarrow> order \<Rightarrow> order" where
  "null_shipping_warehouse t d r =
     (case order_shipping_warehouse r of
        Some w \<Rightarrow> if dead_warehouse t d w then r\<lparr>order_shipping_warehouse := None\<rparr> else r
      | None \<Rightarrow> r)"

definition delete_obj :: "del_target \<Rightarrow> db \<Rightarrow> db" where
  "delete_obj t d =
     d\<lparr>companies := keep_rows (gone_company t) (companies d),
       users := keep_rows (gone_user t d) (users d),
       marketplaces := keep_rows (gone_marketplace t d) (marketplaces d),
       warehouses := keep_rows (gone_warehouse t d) (warehouses d),
       storage_units := keep_rows (\<lambda>i u. dead_unit t d i) (storage_units d),
       products := keep_rows (gone_product t d) (products d),
       product_images :=
         keep_rows (\<lambda>i x. t = Del_product_image i \<or> dead_product t d (pi_product x)) (product_images d),
       product_marketplaces :=
         keep_rows (\<lambda>i x. t = Del_product_marketplace i \<or> dead_product t d (pm_product x) \<or>
           dead_marketplace t d (pm_marketplace x)) (product_marketplaces d),
       orders := map (\<lambda>(i, r). (i, null_shipping_warehouse t d r)) (keep_rows (gone_order t d) (orders d)),
       order_items :=
         keep_rows (\<lambda>i x. t = Del_order_item i \<or> dead_order t d (oi_order x) \<or>
           dead_product t d (oi_product x)) (order_items d),
       supplies := keep_rows (gone_supply t d) (supplies d),
       supply_items :=
         keep_rows (\<lambda>i x. t = Del_supply_item i \<or> dead_supply t d (si_supply x) \<or>
           dead_product t d (si_product x)) (supply_items d),
       supply_documents :=
         keep_rows (\<lambda>i x. t = Del_supply_document i \<or> dead_supply t d (sd_supply x)) (supply_documents d),
       shipments := keep_rows (gone_shipment t d) (shipments d),
       shipment_orders :=
         keep_rows (\<lambda>i x. t = Del_shipment_order i \<or> dead_shipment t d (so_shipment x) \<or>
           dead_order t d (so_order x)) (shipment_orders d),
       shipment_documents :=
         keep_rows (\<lambda>i x. t = Del_shipment_document i \<or> dead_shipment t d (sdoc_shipment x))
           (shipment_documents d),
       services := keep_rows (gone_service t d) (services d),
       service_requests := keep_rows (gone_service_request t d) (service_requests d),
       service_request_items :=
         keep_rows (\<lambda>i x. t = Del_service_request_item i \<or> dead_service_request t d (sri_service_request x) \<or>
           dead_product t d (sri_product x)) (service_request_items d),
       reports := keep_rows (\<lambda>i r. t = Del_report i \<or> dead_company t d (rep_company r)) (reports d),
       inventories := keep_rows (gone_inventory t d) (inventories d),
       inventory_items :=
         keep_rows (\<lambda>i x. t = Del_inventory_item i \<or> dead_inventory t d (ii_inventory x) \<or>
           dead_product t d (ii_product x)) (inventory_items d)\<rparr>"

text \<open>
  The reference meaning of the storage-unit cascade: a unit is removed when it is a root
  of the deletion or a child (through \<open>parent_unit\<close>) of a removed unit.
\<close>

inductive below_root :: "storage_unit table \<Rightarrow> (obj_id \<Rightarrow> bool) \<Rightarrow> obj_id \<Rightarrow> bool"
  for us D where
  root: "D i \<Longrightarrow> below_root us D i"
| child: "(i, u) \<in> set us \<Longrightarrow> su_parent_unit u = Some p \<Longrightarrow> below_root us D p \<Longrightarrow> below_root us D i"

section \<open>Keys and unique constraints\<close>

text \<open>The primary keys of all tables, in table order.\<close>

definition all_ids :: "db \<Rightarrow> obj_id list" where
  "all_ids d =
     map fst (companies d) @ map fst (users d) @ map fst (marketplaces d) @ map fst (warehouses d) @
     map fst (storage_units d) @ map fst (products d) @ map fst (product_images d) @
     map fst (product_marketplaces d) @ map fst (orders d) @ map fst (order_items d) @
     map fst (supplies d) @ map fst (supply_items d) @ map fst (supply_documents d) @
     map fst (shipments d) @ map fst (shipment_orders d) @ map fst (shipment_documents d) @
     map fst (services d) @ map fst (service_requests d) @ map fst (service_request_items d) @
     map fst (reports d) @ map fst (inventories d) @ map fst (inventory_items d)"

definition pk_ok :: "db \<Rightarrow> bool" where
  "pk_ok d \<longleftrightarrow> distinct (all_ids d) \<and> (\<forall>i \<in> set (all_ids d). i < next_id d)"

text \<open>
  The \<open>unique=True\<close> fields (\<open>Company.inn\<close>, \<open>User.email\<close>, \<open>Product.barcode\<close>,
  \<open>StorageUnit.code\<close>) and the \<open>unique_together\<close> pairs (\<open>Order\<close>,
  \<open>ProductMarketplace\<close>, \<open>ShipmentOrder\<close>).
\<close>

definition uq_companies :: "db \<Rightarrow> bool" where
  "uq_companies d \<longleftrightarrow> distinct (map (\<lambda>(i, c). co_inn c) (companies d))"

definition uq_users :: "db \<Rightarrow> bool" where
  "uq_users d \<longleftrightarrow> distinct (map (\<lambda>(i, u). usr_email u) (users d))"

definition uq_products :: "db \<Rightarrow> bool" where
  "uq_products d \<longleftrightarrow> distinct (map (\<lambda>(i, p). prod_barcode p) (products d))"

definition uq_storage_units :: "db \<Rightarrow> bool" where
  "uq_storage_units d \<longleftrightarrow> distinct (map (\<lambda>(i, u). su_code u) (storage_units d))"

definition uq_orders :: "db \<Rightarrow> bool" where
  "uq_orders d \<longleftrightarrow> distinct (map (\<lambda>(i, r). (order_marketplace r, order_external_id r)) (orders d))"

definition uq_product_marketplaces :: "db \<Rightarrow> bool" where
  "uq_product_marketplaces d \<longleftrightarrow>
     distinct (map (\<lambda>(i, x). (pm_product x, pm_marketplace x)) (product_marketplaces d))"

definition uq_shipment_orders :: "db \<Rightarrow> bool" where
  "uq_shipment_orders d \<longleftrightarrow> distinct (map (\<lambda>(i, x). (so_shipment x, so_order x)) (shipment_orders d))"

definition unique_ok :: "db \<Rightarrow> bool" where
  "unique_ok d \<longleftrightarrow>
     uq_companies d \<and> uq_users d \<and> uq_products d \<and> uq_storage_units d \<and> uq_orders d \<and>
     uq_product_marketplaces d \<and> uq_shipment_orders d"

definition db_ok :: "db \<Rightarrow> bool" where
  "db_ok d \<longleftrightarrow> pk_ok d \<and> fk_ok d \<and> unique_ok d"

section \<open>Inserts and updates through the ORM\<close>

text \<open>
  \<open>Order.objects.create(...)\<close>: the database refuses a dangling foreign key or a second
  order with the same \<open>(marketplace, external_id)\<close> with an \<open>IntegrityError\<close>; otherwise
  the row is appended under the next key, which is returned.
\<close>

definition create_order ::
  "obj_id \<Rightarrow> obj_id \<Rightarrow> string \<Rightarrow> decimal \<Rightarrow> datetime \<Rightarrow> db \<Rightarrow> wms_error + obj_id \<times> db" where
  "create_order mp co ext price now d =
     (if \<not> has_row (marketplaces d) mp \<or> \<not> has_row (companies d) co then Inl IntegrityError
      else if list_ex (\<lambda>(i, r). order_marketplace r = mp \<and> order_external_id r = ext) (orders d)
      then Inl IntegrityError
      else Inr (next_id d,
                d\<lparr>orders := orders d @ [(next_id d, new_order mp co ext price now)],
                  next_id := Suc (next_id d)\<rparr>))"

text \<open>\<open>ShipmentOrder.objects.create(shipment=s, order=r)\<close>.\<close>

definition add_shipment_order :: "obj_id \<Rightarrow> obj_id \<Rightarrow> datetime \<Rightarrow> db \<Rightarrow> wms_error + obj_id \<times> db" where
  "add_shipment_order s r now d =
     (if \<not> has_row (shipments d) s \<or> \<not> has_row (orders d) r then Inl IntegrityError
      else if list_ex (\<lambda>(i, x). so_shipment x = s \<and> so_order x = r) (shipment_orders d)
      then Inl IntegrityError
      else Inr (next_id d,
                d\<lparr>shipment_orders := shipment_orders d @
                     [(next_id d, \<lparr>so_shipment = s, so_order = r, so_created_at = now\<rparr>)],
                  next_id := Suc (next_id d)\<rparr>))"

text \<open>
  \<open>unit.parent_unit = p; unit.save()\<close>: \<open>StorageUnit.objects.get\<close> raises
  \<open>DoesNotExist\<close> for a missing unit; the database refuses a dangling parent. Nothing
  in the model checks that the new parent is not below the unit.
\<close>

definition set_parent_unit :: "obj_id \<Rightarrow> obj_id option \<Rightarrow> datetime \<Rightarrow> db \<Rightarrow> wms_error + db" where
  "set_parent_unit u p now d =
     (if \<not> has_row (storage_units d) u then Inl NotFound
      else if \<not> opt_ref (storage_units d) p then Inl IntegrityError
      else Inr (d\<lparr>storage_units :=
                   map (\<lambda>(i, x). (i, if i = u then x\<lparr>su_parent_unit := p, su_updated_at := now\<rparr> else x))
                     (storage_units d)\<rparr>))"

section \<open>Example database\<close>

definition empty_db :: db where
  "empty_db =
     \<lparr>companies = [], users = [], marketplaces = [], warehouses = [], storage_units = [],
      products = [], product_images = [], product_marketplaces = [], orders = [], order_items = [],
      supplies = [], supply_items = [], supply_documents = [], shipments = [], shipment_orders = [],
      shipment_documents = [], services = [], service_requests = [], service_request_items = [],
      reports = [], inventories = [], inventory_items = [], next_id = 1\<rparr>"

text \<open>
  One company (1) with a marketplace (2), a warehouse (3) holding a rack (4) with a shelf
  (5) inside it, an order (6) shipped from the warehouse, and two draft shipments (7, 8)
  leaving from it.
\<close>

abbreviation example_db :: db where
  "example_db \<equiv>
     empty_db\<lparr>companies := [(1, new_company ''Acme'' ''7701000000'' ''Moscow'' 0)],
       marketplaces := [(2, new_marketplace ''WB shop'' ''wildberries'' 1 0)],
       warehouses := [(3, new_warehouse ''Main'' ''fulfillment'' ''Moscow'' 1 0)],
       storage_units := [(4, new_storage_unit 3 ''Rack'' ''rack'' ''R-1'' 0),
                         (5, (new_storage_unit 3 ''Shelf'' ''shelf'' ''R-1-1'' 0)\<lparr>su_parent_unit := Some 4\<rparr>)],
       orders := [(6, (new_order 2 1 ''A-100'' 150000 0)\<lparr>order_shipping_warehouse := Some 3\<rparr>)],
       shipments := [(7, new_shipment 1 3 20 0), (8, new_shipment 1 3 21 0)],
       next_id := 9\<rparr>"

section \<open>Lemmas\<close>

subsection \<open>The storage-unit closure reaches a fixpoint\<close>

lemma unit_closure_funpow: "unit_closure n us D = (unit_step us ^^ n) D"
proof (induction n arbitrary: D)
  case 0
  then show ?case by simp
next
  case (Suc n)
  have "(unit_step us ^^ Suc n) D = (unit_step us ^^ n) (unit_step us D)"
    by (simp only: funpow_Suc_right comp_apply)
  then show ?case using Suc.IH by simp
qed

lemma unit_step_incr: "D i \<Longrightarrow> unit_step us D i"
  by (simp add: unit_step_def)

lemma unit_step_new_key: "unit_step us D i \<Longrightarrow> \<not> D i \<Longrightarrow> i \<in> fst ` set us"
  by (force simp: unit_step_def list_ex_iff)

lemma funpow_unit_step_incr: "D i \<Longrightarrow> (unit_step us ^^ k) D i"
  by (induction k) (simp_all add: unit_step_incr)

lemma unit_step_fixpoint_closed: "unit_step us R = R \<Longrightarrow> parent_closed us R"
  by (fastforce simp: parent_closed_def unit_step_def list_ex_iff fun_eq_iff split: option.splits)

lemma funpow_stable:
  assumes "(unit_step us ^^ Suc k) D = (unit_step us ^^ k) D" and "k \<le> m"
  shows "(unit_step us ^^ m) D = (unit_step us ^^ k) D"
  using assms(2)
proof (induction m)
  case 0
  then show ?case by simp
next
  case (Suc m)
  show ?case
  proof (cases "k \<le> m")
    case True
    then have "(unit_step us ^^ m) D = (unit_step us ^^ k) D" by (rule Suc.IH)
    then have "(unit_step us ^^ Suc m) D = (unit_step us ^^ Suc k) D" by simp
    with assms(1) show ?thesis by simp
  next
    case False
    with Suc.prems have "k = Suc m" by simp
    then show ?thesis by simp
  qed
qed

lemma reached_grows:
  assumes "(unit_step us ^^ Suc k) D \<noteq> (unit_step us ^^ k) D"
  shows "reached us D k \<subset> reached us D (Suc k)"
proof -
  have sub: "reached us D k \<subseteq> reached us D (Suc k)"
    by (auto simp: reached_def unit_step_incr)
  from assms obtain i where "(unit_step us ^^ Suc k) D i \<noteq> (unit_step us ^^ k) D i"
    by (auto simp: fun_eq_iff)
  then have new: "unit_step us ((unit_step us ^^ k) D) i" and old: "\<not> (unit_step us ^^ k) D i"
    by (auto simp: unit_step_incr)
  then have "i \<in> fst ` set us" by (rule unit_step_new_key)
  with new old have "i \<in> reached us D (Suc k) - reached us D k"
    by (simp add: reached_def)
  with sub show ?thesis by blast
qed

lemma reached_card:
  assumes "\<forall>j<k. (unit_step us ^^ Suc j) D \<noteq> (unit_step us ^^ j) D"
  shows "k \<le> card (reached us D k)"
  using assms
proof (induction k)
  case 0
  then show ?case by simp
next
  case (Suc k)
  then have "k \<le> card (reached us D k)" by simp
  moreover have "reached us D k \<subset> reached us D (Suc k)"
    using Suc.prems by (simp add: reached_grows)
  moreover have "finite (reached us D (Suc k))" by (simp add: reached_def)
  ultimately have "card (reached us D k) < card (reached us D (Suc k))"
    using psubset_card_mono by blast
  with \<open>k \<le> card (reached us D k)\<close> show ?case by simp
qed

lemma unit_closure_enough_fuel:
  "unit_step us (unit_closure (length us) us D) = unit_closure (length us) us D"
proof (rule ccontr)
  let ?n = "length us"
  assume ne: "unit_step us (unit_closure ?n us D) \<noteq> unit_closure ?n us D"
  have all: "\<forall>j<Suc ?n. (unit_step us ^^ Suc j) D \<noteq> (unit_step us ^^ j) D"
  proof (intro allI impI)
    fix j assume "j < Suc ?n"
    show "(unit_step us ^^ Suc j) D \<noteq> (unit_step us ^^ j) D"
    proof
      assume st: "(unit_step us ^^ Suc j) D = (unit_step us ^^ j) D"
      have "(unit_step us ^^ Suc ?n) D = (unit_step us ^^ j) D"
        using funpow_stable [OF st, of "Suc ?n"] \<open>j < Suc ?n\<close> by simp
      moreover have "(unit_step us ^^ ?n) D = (unit_step us ^^ j) D"
        using funpow_stable [OF st, of ?n] \<open>j < Suc ?n\<close> by simp
      ultimately show False using ne by (simp add: unit_closure_funpow)
    qed
  qed
  then have "Suc ?n \<le> card (reached us D (Suc ?n))" by (rule reached_card)
  moreover have "card (reached us D (Suc ?n)) \<le> card (fst ` set us)"
    by (rule card_mono) (auto simp: reached_def)
  moreover have "card (fst ` set us) \<le> ?n"
    using card_image_le [OF finite_set, of fst us] card_length [of us] by simp
  ultimately show False by simp
qed

lemma unit_closure_incr: "D i \<Longrightarrow> unit_closure n us D i"
  by (simp add: unit_closure_funpow funpow_unit_step_incr)

lemma unit_closure_closed: "parent_closed us (unit_closure (length us) us D)"
  by (rule unit_step_fixpoint_closed) (rule unit_closure_enough_fuel)

subsection \<open>What a deletion keeps\<close>

lemma delete_obj_fields:
  "companies (delete_obj t d) = keep_rows (gone_company t) (companies d)"
  "users (delete_obj t d) = keep_rows (gone_user t d) (users d)"
  "marketplaces (delete_obj t d) = keep_rows (gone_marketplace t d) (marketplaces d)"
  "warehouses (delete_obj t d) = keep_rows (gone_warehouse t d) (warehouses d)"
  "storage_units (delete_obj t d) = keep_rows (\<lambda>i u. dead_unit t d i) (storage_units d)"
  "products (delete_obj t d) = keep_rows (gone_product t d) (products d)"
  "product_images (delete_obj t d) = keep_rows (\<lambda>i x. t = Del_product_image i \<or> dead_product t d (pi_product x)) (product_images d)"
  "product_marketplaces (delete_obj t d) =
     keep_rows (\<lambda>i x. t = Del_product_marketplace i \<or> dead_product t d (pm_product x) \<or> dead_marketplace t d (pm_marketplace x))
       (product_marketplaces d)"
  "orders (delete_obj t d) =
     map (\<lambda>(i, r). (i, null_shipping_warehouse t d r)) (keep_rows (gone_order t d) (orders d))"
  "order_items (delete_obj t d) =
     keep_rows (\<lambda>i x. t = Del_order_item i \<or> dead_order t d (oi_order x) \<or> dead_product t d (oi_product x)) (order_items d)"
  "supplies (delete_obj t d) = keep_rows (gone_supply t d) (supplies d)"
  "supply_items (delete_obj t d) =
     keep_rows (\<lambda>i x. t = Del_supply_item i \<or> dead_supply t d (si_supply x) \<or> dead_product t d (si_product x)) (supply_items d)"
  "supply_documents (delete_obj t d) = keep_rows (\<lambda>i x. t = Del_supply_document i \<or> dead_supply t d (sd_supply x)) (supply_documents d)"
  "shipments (delete_obj t d) = keep_rows (gone_shipment t d) (shipments d)"
  "shipment_orders (delete_obj t d) =
     keep_rows (\<lambda>i x. t = Del_shipment_order i \<or> dead_shipment t d (so_shipment x) \<or> dead_order t d (so_order x)) (shipment_orders d)"
  "shipment_documents (delete_obj t d) =
     keep_rows (\<lambda>i x. t = Del_shipment_document i \<or> dead_shipment t d (sdoc_shipment x)) (shipment_documents d)"
  "services (delete_obj t d) = keep_rows (gone_service t d) (services d)"
  "service_requests (delete_obj t d) = keep_rows (gone_service_request t d) (service_requests d)"
  "service_request_items (delete_obj t d) =
     keep_rows (\<lambda>i x. t = Del_service_request_item i \<or> dead_service_request t d (sri_service_request x) \<or> dead_product t d (sri_product x))
       (service_request_items d)"
  "reports (delete_obj t d) = keep_rows (\<lambda>i r. t = Del_report i \<or> dead_company t d (rep_company r)) (reports d)"
  "inventories (delete_obj t d) = keep_rows (gone_inventory t d) (inventories d)"
  "inventory_items (delete_obj t d) =
     keep_rows (\<lambda>i x. t = Del_inventory_item i \<or> dead_inventory t d (ii_inventory x) \<or> dead_product t d (ii_product x))
       (inventory_items d)"
  by (simp_all add: delete_obj_def)

text \<open>A referenced row that the deletion does not remove is still there.\<close>

lemma survives_companies:
  "has_row (companies d) c \<Longrightarrow> \<not> dead_company t d c \<Longrightarrow>
   has_row (keep_rows (gone_company t) (companies d)) c"
  by (simp add: dead_company_def has_row_keep_rows)

lemma survives_marketplaces:
  "has_row (marketplaces d) m \<Longrightarrow> \<not> dead_marketplace t d m \<Longrightarrow>
   has_row (keep_rows (gone_marketplace t d) (marketplaces d)) m"
  by (simp add: dead_marketplace_def has_row_keep_rows)

lemma survives_warehouses:
  "has_row (warehouses d) w \<Longrightarrow> \<not> dead_warehouse t d w \<Longrightarrow>
   has_row (keep_rows (gone_warehouse t d) (warehouses d)) w"
  by (simp add: dead_warehouse_def has_row_keep_rows)

lemma survives_units:
  "has_row (storage_units d) u \<Longrightarrow> \<not> dead_unit t d u \<Longrightarrow>
   has_row (keep_rows (\<lambda>i u. dead_unit t d i) (storage_units d)) u"
  by (auto simp: has_row_iff)

lemma survives_products:
  "has_row (products d) p \<Longrightarrow> \<not> dead_product t d p \<Longrightarrow>
   has_row (keep_rows (gone_product t d) (products d)) p"
  by (simp add: dead_product_def has_row_keep_rows)

lemma survives_orders:
  "has_row (orders d) r \<Longrightarrow> \<not> dead_order t d r \<Longrightarrow>
   has_row (keep_rows (gone_order t d) (orders d)) r"
  by (simp add: dead_order_def has_row_keep_rows)

lemma survives_supplies:
  "has_row (supplies d) s \<Longrightarrow> \<not> dead_supply t d s \<Longrightarrow>
   has_row (keep_rows (gone_supply t d) (supplies d)) s"
  by (simp add: dead_supply_def has_row_keep_rows)

lemma survives_shipments:
  "has_row (shipments d) s \<Longrightarrow> \<not> dead_shipment t d s \<Longrightarrow>
   has_row (keep_rows (gone_shipment t d) (shipments d)) s"
  by (simp add: dead_shipment_def has_row_keep_rows)

lemma survives_services:
  "has_row (services d) s \<Longrightarrow> \<not> dead_service t d s \<Longrightarrow>
   has_row (keep_rows (gone_service t d) (services d)) s"
  by (simp add: dead_service_def has_row_keep_rows)

lemma survives_service_requests:
  "has_row (service_requests d) s \<Longrightarrow> \<not> dead_service_request t d s \<Longrightarrow>
   has_row (keep_rows (gone_service_request t d) (service_requests d)) s"
  by (simp add: dead_service_request_def has_row_keep_rows)

lemma survives_inventories:
  "has_row (inventories d) v \<Longrightarrow> \<not> dead_inventory t d v \<Longrightarrow>
   has_row (keep_rows (gone_inventory t d) (inventories d)) v"
  by (simp add: dead_inventory_def has_row_keep_rows)

lemmas survives =
  survives_companies survives_marketplaces survives_warehouses survives_units survives_products
  survives_orders survives_supplies survives_shipments survives_services survives_service_requests
  survives_inventories

subsection \<open>Deletion keeps every foreign key valid\<close>

lemma fk_users_delete: "fk_users d \<Longrightarrow> fk_users (delete_obj t d)"
  by (fastforce simp: fk_users_def delete_obj_fields gone_user_def opt_ref_def
      intro: survives split: option.splits)

lemma fk_marketplaces_delete: "fk_marketplaces d \<Longrightarrow> fk_marketplaces (delete_obj t d)"
  by (fastforce simp: fk_marketplaces_def delete_obj_fields gone_marketplace_def intro: survives)

lemma fk_warehouses_delete: "fk_warehouses d \<Longrightarrow> fk_warehouses (delete_obj t d)"
  by (fastforce simp: fk_warehouses_def delete_obj_fields gone_warehouse_def intro: survives)

lemma fk_products_delete: "fk_products d \<Longrightarrow> fk_products (delete_obj t d)"
  by (fastforce simp: fk_products_def delete_obj_fields gone_product_def intro: survives)

lemma fk_product_images_delete: "fk_product_images d \<Longrightarrow> fk_product_images (delete_obj t d)"
  by (fastforce simp: fk_product_images_def delete_obj_fields  intro: survives)

lemma fk_product_marketplaces_delete: "fk_product_marketplaces d \<Longrightarrow> fk_product_marketplaces (delete_obj t d)"
  by (fastforce simp: fk_product_marketplaces_def delete_obj_fields  intro: survives)

lemma fk_order_items_delete: "fk_order_items d \<Longrightarrow> fk_order_items (delete_obj t d)"
  by (fastforce simp: fk_order_items_def delete_obj_fields  intro: survives)

lemma fk_supplies_delete: "fk_supplies d \<Longrightarrow> fk_supplies (delete_obj t d)"
  by (fastforce simp: fk_supplies_def delete_obj_fields gone_supply_def intro: survives)

lemma fk_supply_items_delete: "fk_supply_items d \<Longrightarrow> fk_supply_items (delete_obj t d)"
  by (fastforce simp: fk_supply_items_def delete_obj_fields  intro: survives)

lemma fk_supply_documents_delete: "fk_supply_documents d \<Longrightarrow> fk_supply_documents (delete_obj t d)"
  by (fastforce simp: fk_supply_documents_def delete_obj_fields  intro: survives)

lemma fk_shipments_delete: "fk_shipments d \<Longrightarrow> fk_shipments (delete_obj t d)"
  by (fastforce simp: fk_shipments_def delete_obj_fields gone_shipment_def intro: survives)

lemma fk_shipment_orders_delete: "fk_shipment_orders d \<Longrightarrow> fk_shipment_orders (delete_obj t d)"
  by (fastforce simp: fk_shipment_orders_def delete_obj_fields  intro: survives)

lemma fk_shipment_documents_delete: "fk_shipment_documents d \<Longrightarrow> fk_shipment_documents (delete_obj t d)"
  by (fastforce simp: fk_shipment_documents_def delete_obj_fields  intro: survives)

lemma fk_services_delete: "fk_services d \<Longrightarrow> fk_services (delete_obj t d)"
  by (fastforce simp: fk_services_def delete_obj_fields gone_service_def intro: survives)

lemma fk_service_requests_delete: "fk_service_requests d \<Longrightarrow> fk_service_requests (delete_obj t d)"
  by (fastforce simp: fk_service_requests_def delete_obj_fields gone_service_request_def intro: survives)

lemma fk_service_request_items_delete: "fk_service_request_items d \<Longrightarrow> fk_service_request_items (delete_obj t d)"
  by (fastforce simp: fk_service_request_items_def delete_obj_fields  intro: survives)

lemma fk_reports_delete: "fk_reports d \<Longrightarrow> fk_reports (delete_obj t d)"
  by (fastforce simp: fk_reports_def delete_obj_fields  intro: survives)

lemma fk_inventories_delete: "fk_inventories d \<Longrightarrow> fk_inventories (delete_obj t d)"
  by (fastforce simp: fk_inventories_def delete_obj_fields gone_inventory_def intro: survives)

lemma fk_inventory_items_delete: "fk_inventory_items d \<Longrightarrow> fk_inventory_items (delete_obj t d)"
  by (fastforce simp: fk_inventory_items_def delete_obj_fields  intro: survives)

lemma dead_unit_of_warehouse:
  "(i, u) \<in> set (storage_units d) \<Longrightarrow> dead_warehouse t d (su_warehouse u) \<Longrightarrow> dead_unit t d i"
  unfolding dead_unit_def by (rule unit_closure_incr) (auto simp: unit_roots_def intro: doomed_in_row)

lemma dead_unit_of_parent:
  assumes "(i, u) \<in> set (storage_units d)" and "su_parent_unit u = Some p" and "dead_unit t d p"
  shows "dead_unit t d i"
proof -
  have "parent_closed (storage_units d) (dead_unit t d)"
    unfolding dead_unit_def by (rule unit_closure_closed)
  with assms show ?thesis by (fastforce simp: parent_closed_def)
qed

lemma fk_storage_units_delete: "fk_storage_units d \<Longrightarrow> fk_storage_units (delete_obj t d)"
  unfolding fk_storage_units_def delete_obj_fields
  by (fastforce simp: opt_ref_def split: option.splits
      intro: survives dest: dead_unit_of_warehouse dead_unit_of_parent)

lemma null_shipping_warehouse_keeps [simp]:
  "order_marketplace (null_shipping_warehouse t d r) = order_marketplace r"
  "order_company (null_shipping_warehouse t d r) = order_company r"
  "order_external_id (null_shipping_warehouse t d r) = order_external_id r"
  by (simp_all add: null_shipping_warehouse_def split: option.splits)

lemma null_shipping_warehouse_ref:
  "opt_ref (warehouses d) (order_shipping_warehouse r) \<Longrightarrow>
   opt_ref (keep_rows (gone_warehouse t d) (warehouses d))
     (order_shipping_warehouse (null_shipping_warehouse t d r))"
  by (auto simp: null_shipping_warehouse_def opt_ref_def intro: survives split: option.splits)

lemma fk_orders_delete: "fk_orders d \<Longrightarrow> fk_orders (delete_obj t d)"
  unfolding fk_orders_def delete_obj_fields
  by (fastforce simp: gone_order_def intro: survives null_shipping_warehouse_ref)

lemmas fk_delete =
  fk_users_delete fk_marketplaces_delete fk_warehouses_delete fk_storage_units_delete
  fk_products_delete fk_product_images_delete fk_product_marketplaces_delete fk_orders_delete
  fk_order_items_delete fk_supplies_delete fk_supply_items_delete fk_supply_documents_delete
  fk_shipments_delete fk_shipment_orders_delete fk_shipment_documents_delete fk_services_delete
  fk_service_requests_delete fk_service_request_items_delete fk_reports_delete fk_inventories_delete
  fk_inventory_items_delete

lemmas fk_defs =
  fk_ok_def fk_users_def fk_marketplaces_def fk_warehouses_def fk_storage_units_def fk_products_def
  fk_product_images_def fk_product_marketplaces_def fk_orders_def fk_order_items_def fk_supplies_def
  fk_supply_items_def fk_supply_documents_def fk_shipments_def fk_shipment_orders_def
  fk_shipment_documents_def fk_services_def fk_service_requests_def fk_service_request_items_def
  fk_reports_def fk_inventories_def fk_inventory_items_def opt_ref_def has_row_def

lemmas uq_defs =
  unique_ok_def uq_companies_def uq_users_def uq_products_def uq_storage_units_def uq_orders_def
  uq_product_marketplaces_def uq_shipment_orders_def

subsection \<open>Deletion keeps keys and unique constraints\<close>

lemma all_ids_delete: "subseq (all_ids (delete_obj t d)) (all_ids d)"
  unfolding all_ids_def delete_obj_fields
  by (intro list_emb_append_mono) (simp_all add: subseq_map_fst_keep_rows comp_def split_def)

lemma pk_delete: "pk_ok d \<Longrightarrow> pk_ok (delete_obj t d)"
  using all_ids_delete [of t d] unfolding pk_ok_def
  by (auto dest: subseq_distinct list_emb_set simp: delete_obj_def)

lemma unique_delete: "unique_ok d \<Longrightarrow> unique_ok (delete_obj t d)"
  unfolding uq_defs delete_obj_fields
  by (simp add: distinct_map_keep_rows comp_def split_def)

subsection \<open>Inserts keep keys, foreign keys and unique constraints\<close>

lemma pk_insert:
  assumes "pk_ok d" "set (all_ids d') = insert (next_id d) (set (all_ids d))"
    "length (all_ids d') = Suc (length (all_ids d))" "next_id d' = Suc (next_id d)"
  shows "pk_ok d'"
  using assms distinct_by_count [of "all_ids d" "next_id d" "all_ids d'"]
  by (auto simp: pk_ok_def less_SucI)

lemma create_order_Inr:
  assumes "create_order mp co ext price now d = Inr (i, d')"
  shows "has_row (marketplaces d) mp" "has_row (companies d) co"
    "\<not> list_ex (\<lambda>(i, r). order_marketplace r = mp \<and> order_external_id r = ext) (orders d)"
    "i = next_id d"
    "d' = d\<lparr>orders := orders d @ [(next_id d, new_order mp co ext price now)], next_id := Suc (next_id d)\<rparr>"
  using assms by (auto simp: create_order_def split: if_splits)

lemma create_order_db_ok:
  assumes ok: "db_ok d" and c: "create_order mp co ext price now d = Inr (i, d')"
  shows "db_ok d'"
proof -
  note facts = create_order_Inr [OF c]
  have "pk_ok d'"
  proof (rule pk_insert)
    show "pk_ok d" using ok by (simp add: db_ok_def)
  qed (auto simp: facts(5) all_ids_def)
  moreover have "fk_ok d'"
    using ok facts(1,2) by (auto simp: facts(5) fk_defs db_ok_def new_order_def)
  moreover have "unique_ok d'"
    using ok facts(3) by (auto simp: facts(5) uq_defs db_ok_def new_order_def list_ex_iff)
  ultimately show ?thesis by (simp add: db_ok_def)
qed

lemma add_shipment_order_Inr:
  assumes "add_shipment_order s r now d = Inr (i, d')"
  shows "has_row (shipments d) s" "has_row (orders d) r"
    "\<not> list_ex (\<lambda>(i, x). so_shipment x = s \<and> so_order x = r) (shipment_orders d)"
    "i = next_id d"
    "d' = d\<lparr>shipment_orders := shipment_orders d @
                [(next_id d, \<lparr>so_shipment = s, so_order = r, so_created_at = now\<rparr>)],
             next_id := Suc (next_id d)\<rparr>"
  using assms by (auto simp: add_shipment_order_def split: if_splits)

lemma set_parent_unit_Inr:
  assumes "set_parent_unit u p now d = Inr d'"
  shows "has_row (storage_units d) u" "opt_ref (storage_units d) p"
    "d' = d\<lparr>storage_units :=
             map (\<lambda>(i, x). (i, if i = u then x\<lparr>su_parent_unit := p, su_updated_at := now\<rparr> else x))
               (storage_units d)\<rparr>"
  using assms by (auto simp: set_parent_unit_def split: if_splits)

lemma set_parent_unit_pk:
  assumes ok: "db_ok d" and c: "set_parent_unit u p now d = Inr d'"
  shows "pk_ok d'"
proof -
  note facts = set_parent_unit_Inr [OF c]
  have "all_ids d' = all_ids d"
    by (simp add: facts(3) all_ids_def comp_def split_def)
  with ok show ?thesis by (simp add: db_ok_def pk_ok_def facts(3))
qed

lemma set_parent_unit_fk:
  assumes ok: "db_ok d" and c: "set_parent_unit u p now d = Inr d'"
  shows "fk_ok d'"
proof -
  note facts = set_parent_unit_Inr [OF c]
  have "fk_storage_units d'"
    using ok facts(2)
    by (auto simp: facts(3) fk_storage_units_def db_ok_def fk_ok_def opt_ref_def
        split: option.splits if_splits)
  with ok show ?thesis
    unfolding db_ok_def fk_ok_def
    by (simp add: facts(3) fk_users_def fk_marketplaces_def fk_warehouses_def fk_products_def
      fk_product_images_def fk_product_marketplaces_def fk_orders_def fk_order_items_def fk_supplies_def
      fk_supply_items_def fk_supply_documents_def fk_shipments_def fk_shipment_orders_def
      fk_shipment_documents_def fk_services_def fk_service_requests_def fk_service_request_items_def
      fk_reports_def fk_inventories_def fk_inventory_items_def)
qed

lemma set_parent_unit_unique:
  assumes ok: "db_ok d" and c: "set_parent_unit u p now d = Inr d'"
  shows "unique_ok d'"
proof -
  note facts = set_parent_unit_Inr [OF c]
  have eq: "map (\<lambda>(i, x). su_code x) (storage_units d') = map (\<lambda>(i, x). su_code x) (storage_units d)"
    unfolding facts(3) by (induction "storage_units d") auto
  from ok show ?thesis
    unfolding uq_defs db_ok_def by (simp only: eq) (simp add: facts(3))
qed

lemma add_shipment_order_db_ok:
  assumes ok: "db_ok d" and c: "add_shipment_order s r now d = Inr (i, d')"
  shows "db_ok d' \<and> (i, \<lparr>so_shipment = s, so_order = r, so_created_at = now\<rparr>) \<in> set (shipment_orders d')"
proof -
  note facts = add_shipment_order_Inr [OF c]
  have "pk_ok d'"
  proof (rule pk_insert)
    show "pk_ok d" using ok by (simp add: db_ok_def)
  qed (auto simp: facts(5) all_ids_def)
  moreover have "fk_ok d'"
    using ok facts(1,2) by (auto simp: facts(5) fk_defs db_ok_def)
  moreover have "unique_ok d'"
    using ok facts(3) by (auto simp: facts(5) uq_defs db_ok_def list_ex_iff)
  ultimately show ?thesis by (simp add: db_ok_def facts(4,5))
qed

subsection \<open>The closure is the cascade\<close>

lemma unit_closure_below_root:
  "(\<And>j. E j \<Longrightarrow> below_root us D j) \<Longrightarrow> unit_closure n us E i \<Longrightarrow> below_root us D i"
proof (induction n arbitrary: E)
  case 0
  then show ?case by simp
next
  case (Suc n)
  have "below_root us D j" if "unit_step us E j" for j
    using that Suc.prems(1)
    by (auto simp: unit_step_def list_ex_iff split: option.splits intro: below_root.child)
  with Suc.prems(2) show ?case by (auto intro: Suc.IH)
qed

lemma below_root_unit_closure: "below_root us D i \<Longrightarrow> unit_closure (length us) us D i"
proof (induction rule: below_root.induct)
  case (root i)
  then show ?case by (rule unit_closure_incr)
next
  case (child i u p)
  then show ?case
    using unit_closure_closed [of us D] by (fastforce simp: parent_closed_def)
qed

lemma example_db_ok: "db_ok example_db"
  by (simp add: db_ok_def pk_ok_def all_ids_def fk_defs uq_defs empty_db_def new_marketplace_def
      new_warehouse_def new_storage_unit_def new_order_def new_shipment_def)

lemma dead_company_target:
  "dead_company (Del_company c) d x \<longleftrightarrow> x = c \<and> has_row (companies d) c"
  by (auto simp: dead_company_def doomed_in_iff gone_company_def has_row_iff)

lemma dead_company_other:
  "(\<And>c. t \<noteq> Del_company c) \<Longrightarrow> \<not> dead_company t d x"
  by (auto simp: dead_company_def doomed_in_iff gone_company_def)

lemma dead_product_target:
  "dead_product (Del_product p) d x \<longleftrightarrow> x = p \<and> has_row (products d) p"
  by (auto simp: dead_product_def doomed_in_iff gone_product_def dead_company_other has_row_iff)

lemma dead_warehouse_product: "\<not> dead_warehouse (Del_product p) d w"
  by (simp add: dead_warehouse_def doomed_in_iff gone_warehouse_def dead_company_other)

lemma dead_marketplace_product: "\<not> dead_marketplace (Del_product p) d m"
  by (simp add: dead_marketplace_def doomed_in_iff gone_marketplace_def dead_company_other)

lemma map_keyed_id: "(\<And>i r. (i, r) \<in> set t \<Longrightarrow> f r = r) \<Longrightarrow> map (\<lambda>(i, r). (i, f r)) t = t"
  by (induction t) auto

section \<open>Properties\<close>

text \<open>
  C2. Deleting any object, with the cascades and the \<open>SET_NULL\<close> the models declare,
  keeps the database consistent: primary keys stay distinct and below the key counter,
  every foreign key still points at an existing row, and every unique constraint holds.
\<close>

theorem delete_keeps_db_ok: "db_ok d \<Longrightarrow> db_ok (delete_obj t d)"
  by (simp add: db_ok_def fk_ok_def fk_delete pk_delete unique_delete)

theorem delete_keeps_db_ok_witness:
  "db_ok example_db \<and> db_ok (delete_obj (Del_warehouse 3) example_db)"
proof -
  show ?thesis using delete_keeps_db_ok [OF example_db_ok] example_db_ok by simp
qed

text \<open>
  C5. The bounded iteration \<open>unit_closure\<close>, run as many times as the table has rows,
  computes exactly the storage units the recursive \<open>CASCADE\<close> on \<open>parent_unit\<close> reaches,
  whether or not the parent links form a cycle.
\<close>

theorem unit_closure_is_cascade: "unit_closure (length us) us D i \<longleftrightarrow> below_root us D i"
proof
  show "unit_closure (length us) us D i \<Longrightarrow> below_root us D i"
    by (rule unit_closure_below_root) (rule below_root.root)
  show "below_root us D i \<Longrightarrow> unit_closure (length us) us D i"
    by (rule below_root_unit_closure)
qed

text \<open>
  C17. Deleting a warehouse deletes no order: each order whose shipping warehouse it was
  keeps every other field and has no shipping warehouse afterwards (\<open>SET_NULL\<close>).
\<close>

theorem delete_warehouse_orders:
  "orders (delete_obj (Del_warehouse w) d) =
     map (\<lambda>(i, r). (i, if order_shipping_warehouse r = Some w \<and> has_row (warehouses d) w
                       then r\<lparr>order_shipping_warehouse := None\<rparr> else r)) (orders d)"
proof -
  have nc: "\<not> dead_company (Del_warehouse w) d c" for c
    by (simp add: dead_company_def doomed_in_iff gone_company_def)
  have nm: "\<not> dead_marketplace (Del_warehouse w) d m" for m
    by (simp add: dead_marketplace_def doomed_in_iff gone_marketplace_def nc)
  have dw: "dead_warehouse (Del_warehouse w) d x \<longleftrightarrow> x = w \<and> has_row (warehouses d) w" for x
    by (auto simp: dead_warehouse_def doomed_in_iff gone_warehouse_def nc has_row_iff)
  show ?thesis
    by (auto simp: delete_obj_fields keep_rows_def gone_order_def nc nm dw
        null_shipping_warehouse_def split: option.splits)
qed

text \<open>
  C7. Once an order is created, every later attempt to create an order with the same
  marketplace and external id is refused with an \<open>IntegrityError\<close>, whatever its
  company, price or time.
\<close>

theorem create_order_rejects_duplicate:
  "create_order mp co ext price now d = Inr (i, d') \<Longrightarrow>
   create_order mp co' ext price' now' d' = Inl IntegrityError"
  by (auto simp: create_order_def new_order_def list_ex_iff split: if_splits)

theorem create_order_rejects_duplicate_witness:
  "\<exists>d'. create_order 2 1 ''A-101'' 9900 5 example_db = Inr (9, d') \<and>
        create_order 2 1 ''A-101'' 100 9 d' = Inl IntegrityError"
proof -
  obtain d' where c: "create_order 2 1 ''A-101'' 9900 5 example_db = Inr (9, d')"
    by (simp add: create_order_def empty_db_def new_order_def has_row_def)
  have "create_order 2 1 ''A-101'' 100 9 d' = Inl IntegrityError"
    by (rule create_order_rejects_duplicate [OF c])
  with c show ?thesis by (intro exI [of _ d'] conjI)
qed

text \<open>
  C22. Re-parenting a storage unit through the ORM keeps the database consistent:
  keys, foreign keys (the new parent exists) and the unique unit codes.
\<close>

theorem set_parent_unit_keeps_db_ok:
  assumes "db_ok d" and "set_parent_unit u p now d = Inr d'"
  shows "db_ok d'"
  unfolding db_ok_def
  using set_parent_unit_pk [OF assms] set_parent_unit_fk [OF assms] set_parent_unit_unique [OF assms]
  by (intro conjI)

theorem set_parent_unit_keeps_db_ok_witness:
  "\<exists>d'. set_parent_unit 5 None 1 example_db = Inr d' \<and> db_ok d'"
proof -
  obtain d' where c: "set_parent_unit 5 None 1 example_db = Inr d'"
    by (simp add: set_parent_unit_def empty_db_def has_row_def opt_ref_def)
  have "db_ok d'" by (rule set_parent_unit_keeps_db_ok [OF example_db_ok c])
  with c show ?thesis by (intro exI [of _ d'] conjI)
qed

text \<open>
  C19. Deleting a company removes every row that belongs to it: the company, its users,
  marketplaces, warehouses, products, orders, supplies, shipments, services, service
  requests, reports and inventories.
\<close>

theorem delete_company_purges:
  assumes "has_row (companies d) c"
  shows "\<not> has_row (companies (delete_obj (Del_company c) d)) c \<and>
    (\<forall>(i, x) \<in> set (users (delete_obj (Del_company c) d)). usr_company x \<noteq> Some c) \<and>
    (\<forall>(i, x) \<in> set (marketplaces (delete_obj (Del_company c) d)). mp_company x \<noteq> c) \<and>
    (\<forall>(i, x) \<in> set (warehouses (delete_obj (Del_company c) d)). wh_company x \<noteq> c) \<and>
    (\<forall>(i, x) \<in> set (products (delete_obj (Del_company c) d)). prod_company x \<noteq> c) \<and>
    (\<forall>(i, x) \<in> set (orders (delete_obj (Del_company c) d)). order_company x \<noteq> c) \<and>
    (\<forall>(i, x) \<in> set (supplies (delete_obj (Del_company c) d)). sup_company x \<noteq> c) \<and>
    (\<forall>(i, x) \<in> set (shipments (delete_obj (Del_company c) d)). shp_company x \<noteq> c) \<and>
    (\<forall>(i, x) \<in> set (services (delete_obj (Del_company c) d)). svc_company x \<noteq> c) \<and>
    (\<forall>(i, x) \<in> set (service_requests (delete_obj (Del_company c) d)). sr_company x \<noteq> c) \<and>
    (\<forall>(i, x) \<in> set (reports (delete_obj (Del_company c) d)). rep_company x \<noteq> c) \<and>
    (\<forall>(i, x) \<in> set (inventories (delete_obj (Del_company c) d)). inv_company x \<noteq> c)"
  using assms
  by (auto simp: delete_obj_fields has_row_iff gone_company_def dead_company_target gone_user_def
      gone_marketplace_def gone_warehouse_def gone_product_def gone_order_def gone_supply_def
      gone_shipment_def gone_service_def gone_service_request_def gone_inventory_def)

theorem delete_company_purges_witness:
  "\<not> has_row (companies (delete_obj (Del_company 1) example_db)) 1 \<and>
   list_all (\<lambda>(i, x). order_company x \<noteq> 1) (orders (delete_obj (Del_company 1) example_db))"
  using delete_company_purges [of example_db 1] by (simp add: has_row_def empty_db_def list_all_iff)

text \<open>
  C21. Deleting a product deletes every row that refers to it -- the order, supply,
  inventory and service-request lines, the images and the marketplace listings -- and
  keeps every order, supply and inventory those lines belonged to (\<open>on_delete=CASCADE\<close>
  on the product keys; the spec asks for a soft delete instead).
\<close>

theorem delete_product_cascades:
  assumes "has_row (products d) p"
  shows "\<not> has_row (products (delete_obj (Del_product p) d)) p \<and>
    (\<forall>(i, x) \<in> set (order_items (delete_obj (Del_product p) d)). oi_product x \<noteq> p) \<and>
    (\<forall>(i, x) \<in> set (supply_items (delete_obj (Del_product p) d)). si_product x \<noteq> p) \<and>
    (\<forall>(i, x) \<in> set (inventory_items (delete_obj (Del_product p) d)). ii_product x \<noteq> p) \<and>
    (\<forall>(i, x) \<in> set (service_request_items (delete_obj (Del_product p) d)). sri_product x \<noteq> p) \<and>
    (\<forall>(i, x) \<in> set (product_images (delete_obj (Del_product p) d)). pi_product x \<noteq> p) \<and>
    (\<forall>(i, x) \<in> set (product_marketplaces (delete_obj (Del_product p) d)). pm_product x \<noteq> p) \<and>
    orders (delete_obj (Del_product p) d) = orders d \<and>
    supplies (delete_obj (Del_product p) d) = supplies d \<and>
    inventories (delete_obj (Del_product p) d) = inventories d"
proof -
  have "orders (delete_obj (Del_product p) d) = orders d"
    by (simp add: delete_obj_fields keep_rows_def gone_order_def dead_marketplace_product
        dead_company_other null_shipping_warehouse_def dead_warehouse_product map_keyed_id
        split: option.splits)
  moreover have "supplies (delete_obj (Del_product p) d) = supplies d \<and>
      inventories (delete_obj (Del_product p) d) = inventories d"
    by (simp add: delete_obj_fields keep_rows_def gone_supply_def gone_inventory_def
        dead_company_other dead_warehouse_product)
  moreover have "\<not> has_row (products (delete_obj (Del_product p) d)) p"
    by (auto simp: delete_obj_fields has_row_iff gone_product_def)
  ultimately show ?thesis
    using assms by (auto simp: delete_obj_fields dead_product_target)
qed

theorem delete_product_cascades_witness:
  "orders (delete_obj (Del_product 2) (example_db\<lparr>products := [(2, new_product ''Mug'' ''M-1'' ''4600000000001'' 1 0)]\<rparr>)) =
     orders example_db"
  using delete_product_cascades [of "example_db\<lparr>products := [(2, new_product ''Mug'' ''M-1'' ''4600000000001'' 1 0)]\<rparr>" 2]
  by (simp add: has_row_def)

end
