(* ===== verification/Integrity.thy ===== *)
theory Integrity
  imports Store
begin

text \<open>
  Further properties of the database model of \<open>Store\<close>: the status fields stay within
  their declared \<open>choices\<close> under the ORM operations (used by \<open>Inserts\<close>); creating an
  order and deleting it again gives back the database; deleting an order or a
  marketplace removes exactly the rows that its cascade reaches and nothing else; and two
  places where the schema admits what the spec forbids: an order linked to two shipments,
  and a cycle of storage units.
\<close>

section \<open>Status fields within their choices\<close>

text \<open>
  The five \<open>status\<close> \<open>CharField\<close>s with \<open>choices=\<close> (\<open>Order\<close>, \<open>Supply\<close>, \<open>Shipment\<close>,
  \<open>ServiceRequest\<close>, \<open>Inventory\<close>) hold one of the declared values. The database does not
  enforce \<open>choices\<close>; it is a property of the rows the ORM writes.
\<close>

definition status_ok :: "db \<Rightarrow> bool" where
  "status_ok d \<longleftrightarrow>
     list_all (\<lambda>(i, r). order_status r \<in> set (map fst ORDER_STATUSES)) (orders d) \<and>
     list_all (\<lambda>(i, s). sup_status s \<in> set (map fst SUPPLY_STATUSES)) (supplies d) \<and>
     list_all (\<lambda>(i, s). shp_status s \<in> set (map fst SHIPMENT_STATUSES)) (shipments d) \<and>
     list_all (\<lambda>(i, r). sr_status r \<in> set (map fst REQUEST_STATUSES)) (service_requests d) \<and>
     list_all (\<lambda>(i, v). inv_status v \<in> set (map fst INVENTORY_STATUSES)) (inventories d)"

section \<open>Lemmas\<close>

lemma list_all_keep_rows: "list_all P t \<Longrightarrow> list_all P (keep_rows Q t)"
  by (simp add: keep_rows_def list_all_iff)

lemma null_shipping_warehouse_status [simp]:
  "order_status (null_shipping_warehouse t d r) = order_status r"
  by (simp add: null_shipping_warehouse_def split: option.splits)

lemma status_ok_delete: "status_ok d \<Longrightarrow> status_ok (delete_obj t d)"
  by (auto simp: status_ok_def delete_obj_fields list_all_iff)

subsection \<open>Deleting with an order as the target\<close>

lemma not_dead_for_order:
  "\<not> dead_marketplace (Del_order k) d m" "\<not> dead_warehouse (Del_order k) d w"
  "\<not> dead_product (Del_order k) d p" "\<not> dead_supply (Del_order k) d s"
  "\<not> dead_shipment (Del_order k) d s" "\<not> dead_service (Del_order k) d s"
  "\<not> dead_service_request (Del_order k) d s" "\<not> dead_inventory (Del_order k) d v"
  by (simp_all add: dead_marketplace_def dead_warehouse_def dead_product_def dead_supply_def
      dead_shipment_def dead_service_def dead_service_request_def dead_inventory_def doomed_in_iff
      gone_marketplace_def gone_warehouse_def gone_product_def gone_supply_def gone_shipment_def
      gone_service_def gone_service_request_def gone_inventory_def dead_company_other)

lemma unit_closure_fixed: "unit_step us R = R \<Longrightarrow> unit_closure n us R = R"
  by (induction n) simp_all

lemma unit_closure_none: "unit_closure n us (\<lambda>i. False) = (\<lambda>i. False)"
  by (rule unit_closure_fixed) (auto simp: unit_step_def fun_eq_iff list_ex_iff split: option.splits)

lemma not_dead_unit_for_order: "\<not> dead_unit (Del_order k) d u"
proof -
  have "unit_roots (Del_order k) d = (\<lambda>i. False)"
    by (simp add: unit_roots_def fun_eq_iff doomed_in_iff not_dead_for_order)
  then show ?thesis by (simp add: dead_unit_def unit_closure_none)
qed

lemma dead_order_for_order: "dead_order (Del_order k) d j \<longleftrightarrow> j = k \<and> has_row (orders d) k"
  by (auto simp: dead_order_def doomed_in_iff gone_order_def not_dead_for_order has_row_iff
      dead_company_other)

lemma next_id_delete [simp]: "next_id (delete_obj t d) = next_id d"
  by (simp add: delete_obj_def)

lemma keep_rows_keeps: "(\<And>i r. (i, r) \<in> set t \<Longrightarrow> \<not> P i r) \<Longrightarrow> keep_rows P t = t"
  by (auto simp: keep_rows_def filter_id_conv)

text \<open>Deleting an order that nothing refers to removes its row and nothing else.\<close>

lemma delete_fresh_order:
  assumes ok: "db_ok d"
  shows "delete_obj (Del_order (next_id d))
           (d\<lparr>orders := orders d @ [(next_id d, x)], next_id := Suc (next_id d)\<rparr>) =
         d\<lparr>next_id := Suc (next_id d)\<rparr>"
    (is "delete_obj ?t ?d' = _")
proof -
  have below: "i < next_id d" if "i \<in> set (all_ids d)" for i
    using ok that by (auto simp: db_ok_def pk_ok_def)
  have ids: "fst ` set (orders d) \<subseteq> set (all_ids d)" by (auto simp: all_ids_def)
  have fresh: "(next_id d, r) \<notin> set (orders d)" for r
    using ids below [of "next_id d"] by force
  have no_ref: "j \<noteq> next_id d" if "has_row (orders d) j" for j
    using that ids below by (force simp: has_row_iff)
  have fk: "fk_order_items d" "fk_shipment_orders d" using ok by (simp_all add: db_ok_def fk_ok_def)
  have oi: "oi_order y \<noteq> next_id d" if "(j, y) \<in> set (order_items d)" for j y
    using fk(1) that no_ref by (fastforce simp: fk_order_items_def)
  have so: "so_order y \<noteq> next_id d" if "(j, y) \<in> set (shipment_orders d)" for j y
    using fk(2) that no_ref by (fastforce simp: fk_shipment_orders_def)
  have kr: "keep_rows (gone_order ?t ?d') (orders d @ [(next_id d, x)]) = orders d"
    using fresh by (auto simp: keep_rows_def gone_order_def not_dead_for_order filter_id_conv
        dead_company_other)
  have nsw: "null_shipping_warehouse ?t ?d' r = r" for r
    by (simp add: null_shipping_warehouse_def not_dead_for_order split: option.splits)
  show ?thesis
  proof (rule db.equality)
  qed (simp_all add: kr nsw next_id_delete delete_obj_fields keep_rows_keeps gone_company_def gone_user_def
      gone_marketplace_def gone_warehouse_def gone_product_def gone_supply_def gone_shipment_def
      gone_service_def gone_service_request_def gone_inventory_def dead_company_other
      not_dead_for_order not_dead_unit_for_order dead_order_for_order oi so split: option.splits)
qed

subsection \<open>Deleting a marketplace\<close>

lemma not_dead_for_marketplace:
  "\<not> dead_warehouse (Del_marketplace m) d w" "\<not> dead_product (Del_marketplace m) d p"
  "\<not> dead_supply (Del_marketplace m) d s" "\<not> dead_shipment (Del_marketplace m) d s"
  "\<not> dead_service (Del_marketplace m) d s" "\<not> dead_service_request (Del_marketplace m) d s"
  "\<not> dead_inventory (Del_marketplace m) d v"
  by (simp_all add: dead_warehouse_def dead_product_def dead_supply_def dead_shipment_def
      dead_service_def dead_service_request_def dead_inventory_def doomed_in_iff gone_warehouse_def
      gone_product_def gone_supply_def gone_shipment_def gone_service_def gone_service_request_def
      gone_inventory_def dead_company_other)

lemma not_dead_unit_for_marketplace: "\<not> dead_unit (Del_marketplace m) d u"
proof -
  have "unit_roots (Del_marketplace m) d = (\<lambda>i. False)"
    by (simp add: unit_roots_def fun_eq_iff doomed_in_iff not_dead_for_marketplace)
  then show ?thesis by (simp add: dead_unit_def unit_closure_none)
qed

lemma dead_marketplace_target:
  "dead_marketplace (Del_marketplace m) d x \<longleftrightarrow> x = m \<and> has_row (marketplaces d) m"
  by (auto simp: dead_marketplace_def doomed_in_iff gone_marketplace_def dead_company_other has_row_iff)

lemma dead_order_for_marketplace:
  assumes "has_row (marketplaces d) m"
  shows "dead_order (Del_marketplace m) d j \<longleftrightarrow>
           list_ex (\<lambda>(i, r). i = j \<and> order_marketplace r = m) (orders d)"
  using assms by (auto simp: dead_order_def doomed_in_iff gone_order_def dead_marketplace_target
      dead_company_other list_ex_iff)

section \<open>Properties\<close>

text \<open>
  C13. Creating an order and deleting it again gives back the database the creation
  started from, except for the key counter, which never goes back: nothing refers to a
  freshly created order, so its deletion cascades to nothing else.
\<close>

theorem create_then_delete_order:
  assumes "db_ok d" and "create_order mp co ext price now d = Inr (k, d')"
  shows "delete_obj (Del_order k) d' = d\<lparr>next_id := Suc (next_id d)\<rparr>"
  using delete_fresh_order [OF assms(1)] create_order_Inr(4,5) [OF assms(2)] by simp

theorem create_then_delete_order_witness:
  "\<exists>d'. create_order 2 1 ''A-101'' 9900 5 example_db = Inr (9, d') \<and>
        delete_obj (Del_order 9) d' = example_db\<lparr>next_id := 10\<rparr>"
proof -
  obtain d' where c: "create_order 2 1 ''A-101'' 9900 5 example_db = Inr (9, d')"
    by (simp add: create_order_def empty_db_def new_order_def has_row_def)
  have "delete_obj (Del_order 9) d' = example_db\<lparr>next_id := Suc (next_id example_db)\<rparr>"
    by (rule create_then_delete_order [OF example_db_ok c])
  with c show ?thesis by (intro exI [of _ d'] conjI) simp_all
qed

text \<open>
  C14. Deleting an order removes exactly the order, its \<open>OrderItem\<close>s and the
  \<open>ShipmentOrder\<close> links to it (both \<open>CASCADE\<close>); every other row of every table,
  the shipments and the products included, stays as it was.
\<close>

theorem delete_order_cascades:
  assumes k: "has_row (orders d) k"
  shows "delete_obj (Del_order k) d =
         d\<lparr>orders := filter (\<lambda>(i, r). i \<noteq> k) (orders d),
           order_items := filter (\<lambda>(i, x). oi_order x \<noteq> k) (order_items d),
           shipment_orders := filter (\<lambda>(i, x). so_order x \<noteq> k) (shipment_orders d)\<rparr>"
    (is "_ = ?r")
proof -
  have nsw: "null_shipping_warehouse (Del_order k) d r = r" for r
    by (simp add: null_shipping_warehouse_def not_dead_for_order split: option.splits)
  have go: "gone_order (Del_order k) d i r \<longleftrightarrow> i = k" for i r
    by (auto simp: gone_order_def not_dead_for_order dead_company_other)
  show ?thesis
  proof (rule db.equality)
    show "orders (delete_obj (Del_order k) d) = orders ?r"
      by (simp add: delete_obj_fields keep_rows_def nsw go map_keyed_id)
  qed (simp_all add: delete_obj_fields keep_rows_def nsw gone_company_def gone_user_def
      gone_marketplace_def gone_warehouse_def gone_product_def gone_order_def gone_supply_def
      gone_shipment_def gone_service_def gone_service_request_def gone_inventory_def dead_company_other
      not_dead_for_order not_dead_unit_for_order dead_order_for_order k case_prod_unfold
      split: option.splits)
qed

theorem delete_order_cascades_witness:
  "has_row (orders example_db) 6 \<and> orders (delete_obj (Del_order 6) example_db) = [] \<and>
   shipments (delete_obj (Del_order 6) example_db) = shipments example_db \<and>
   warehouses (delete_obj (Del_order 6) example_db) = warehouses example_db"
proof -
  have k: "has_row (orders example_db) 6" by (simp add: has_row_def empty_db_def)
  show ?thesis using delete_order_cascades [OF k] k by (simp add: empty_db_def)
qed

text \<open>
  C15. Deleting a marketplace removes exactly the marketplace, its product listings
  (\<open>ProductMarketplace\<close>), its orders, and the items and shipment links of those orders
  -- a cascade two levels deep; the products, the shipments, the company and the other
  marketplaces' orders stay as they were.
\<close>

theorem delete_marketplace_cascades:
  assumes m: "has_row (marketplaces d) m"
  shows "delete_obj (Del_marketplace m) d =
    d\<lparr>marketplaces := filter (\<lambda>(i, x). i \<noteq> m) (marketplaces d),
      product_marketplaces := filter (\<lambda>(i, x). pm_marketplace x \<noteq> m) (product_marketplaces d),
      orders := filter (\<lambda>(i, r). order_marketplace r \<noteq> m) (orders d),
      order_items := filter (\<lambda>(i, x). \<not> list_ex (\<lambda>(j, r). j = oi_order x \<and> order_marketplace r = m) (orders d))
                       (order_items d),
      shipment_orders := filter (\<lambda>(i, x). \<not> list_ex (\<lambda>(j, r). j = so_order x \<and> order_marketplace r = m) (orders d))
                           (shipment_orders d)\<rparr>" (is "_ = ?r")
proof -
  have nsw: "null_shipping_warehouse (Del_marketplace m) d r = r" for r
    by (simp add: null_shipping_warehouse_def not_dead_for_marketplace split: option.splits)
  have gm: "gone_marketplace (Del_marketplace m) d i x \<longleftrightarrow> i = m" for i x
    by (auto simp: gone_marketplace_def dead_company_other)
  have go: "gone_order (Del_marketplace m) d i r \<longleftrightarrow> order_marketplace r = m" for i r
    using m by (auto simp: gone_order_def dead_marketplace_target dead_company_other)
  have dm: "dead_marketplace (Del_marketplace m) d x \<longleftrightarrow> x = m" for x
    using m by (simp add: dead_marketplace_target)
  have do: "dead_order (Del_marketplace m) d j \<longleftrightarrow>
              list_ex (\<lambda>(i, r). i = j \<and> order_marketplace r = m) (orders d)" for j
    by (rule dead_order_for_marketplace [OF m])
  show ?thesis
  proof (rule db.equality)
    show "orders (delete_obj (Del_marketplace m) d) = orders ?r"
      by (simp add: delete_obj_fields keep_rows_def nsw go map_keyed_id case_prod_unfold)
    show "marketplaces (delete_obj (Del_marketplace m) d) = marketplaces ?r"
      by (simp add: delete_obj_fields keep_rows_def gm case_prod_unfold)
  qed (simp_all add: delete_obj_fields keep_rows_def gone_company_def gone_user_def
      gone_warehouse_def gone_product_def gone_supply_def
      gone_shipment_def gone_service_def gone_service_request_def gone_inventory_def dead_company_other
      not_dead_for_marketplace not_dead_unit_for_marketplace dm do case_prod_unfold
      split: option.splits)
qed

theorem delete_marketplace_cascades_witness:
  "has_row (marketplaces example_db) 2 \<and> orders (delete_obj (Del_marketplace 2) example_db) = [] \<and>
   marketplaces (delete_obj (Del_marketplace 2) example_db) = [] \<and>
   companies (delete_obj (Del_marketplace 2) example_db) = companies example_db \<and>
   shipments (delete_obj (Del_marketplace 2) example_db) = shipments example_db"
proof -
  have m: "has_row (marketplaces example_db) 2" by (simp add: has_row_def empty_db_def)
  show ?thesis using delete_marketplace_cascades [OF m] m by (simp add: empty_db_def new_order_def)
qed

text \<open>
  C25. \<open>ShipmentOrder.Meta.unique_together = ('shipment', 'order')\<close> does not make an
  order's link unique, as spec section 4.4 requires (\<open>the ShipmentOrder link (unique per
  order)\<close>): on any consistent database, an order in no shipment can be linked to two
  different shipments, both creates succeed, every constraint still holds, and the order
  then has two links.
\<close>

theorem order_in_two_shipments:
  assumes ok: "db_ok d" and r: "has_row (orders d) r"
    and s1: "has_row (shipments d) s1" and s2: "has_row (shipments d) s2" and ne: "s1 \<noteq> s2"
    and free: "\<not> list_ex (\<lambda>(i, x). so_order x = r) (shipment_orders d)"
  shows "\<exists>d1 d2. add_shipment_order s1 r t1 d = Inr (next_id d, d1) \<and>
           add_shipment_order s2 r t2 d1 = Inr (Suc (next_id d), d2) \<and> db_ok d2 \<and>
           length (filter (\<lambda>(i, x). so_order x = r) (shipment_orders d2)) = 2"
proof -
  define d1 where "d1 = d\<lparr>shipment_orders := shipment_orders d @
                     [(next_id d, \<lparr>so_shipment = s1, so_order = r, so_created_at = t1\<rparr>)],
                   next_id := Suc (next_id d)\<rparr>"
  define d2 where "d2 = d1\<lparr>shipment_orders := shipment_orders d1 @
                     [(next_id d1, \<lparr>so_shipment = s2, so_order = r, so_created_at = t2\<rparr>)],
                   next_id := Suc (next_id d1)\<rparr>"
  have free': "\<not> list_ex (\<lambda>(i, x). so_shipment x = s \<and> so_order x = r) (shipment_orders d)" for s
    using free by (auto simp: list_ex_iff)
  have c1: "add_shipment_order s1 r t1 d = Inr (next_id d, d1)"
    using s1 r free' by (simp add: add_shipment_order_def d1_def)
  have c2: "add_shipment_order s2 r t2 d1 = Inr (Suc (next_id d), d2)"
    using s2 r free' ne by (simp add: add_shipment_order_def d1_def d2_def)
  have "db_ok d1" using add_shipment_order_db_ok [OF ok c1] by (rule conjunct1)
  then have "db_ok d2" using add_shipment_order_db_ok [OF _ c2] by blast
  moreover have "filter (\<lambda>(i, x). so_order x = r) (shipment_orders d) = []"
    using free by (auto simp: filter_empty_conv list_ex_iff)
  then have "length (filter (\<lambda>(i, x). so_order x = r) (shipment_orders d2)) = 2"
    by (simp add: d1_def d2_def)
  ultimately show ?thesis using c1 c2 by blast
qed


theorem order_in_two_shipments_witness:
  "\<exists>d1 d2. add_shipment_order 7 6 30 example_db = Inr (9, d1) \<and>
     add_shipment_order 8 6 31 d1 = Inr (10, d2) \<and> db_ok d2 \<and>
     length (filter (\<lambda>(i, x). so_order x = 6) (shipment_orders d2)) = 2"
  using order_in_two_shipments [OF example_db_ok, of 6 7 8 30 31]
  by (simp add: has_row_def empty_db_def)

text \<open>
  C26. \<open>StorageUnit.parent_unit\<close> admits cycles, where spec section 9 requires a strictly
  acyclic tree that rejects any parent assignment closing a cycle: on any consistent
  database, a unit can be re-parented under its own child; the save succeeds, every
  constraint still holds, and the two units are each other's parent.
\<close>

theorem parent_cycle_admitted:
  assumes ok: "db_ok d" and child: "(v, y) \<in> set (storage_units d)" and par: "su_parent_unit y = Some u"
  shows "\<exists>d'. set_parent_unit u (Some v) now d = Inr d' \<and> db_ok d' \<and>
           (\<exists>x. (u, x) \<in> set (storage_units d') \<and> su_parent_unit x = Some v) \<and>
           (\<exists>y'. (v, y') \<in> set (storage_units d') \<and> su_parent_unit y' = Some u)"
proof -
  have "opt_ref (storage_units d) (su_parent_unit y)"
    using ok child by (auto simp: db_ok_def fk_ok_def fk_storage_units_def)
  then obtain x0 where x0: "(u, x0) \<in> set (storage_units d)"
    using par by (auto simp: opt_ref_def has_row_iff)
  define d' where "d' = d\<lparr>storage_units :=
                   map (\<lambda>(i, x). (i, if i = u then x\<lparr>su_parent_unit := Some v, su_updated_at := now\<rparr> else x))
                     (storage_units d)\<rparr>"
  have c: "set_parent_unit u (Some v) now d = Inr d'"
    using x0 child by (auto simp: set_parent_unit_def opt_ref_def has_row_iff d'_def)
  have "db_ok d'"
    unfolding db_ok_def
    using set_parent_unit_pk [OF ok c] set_parent_unit_fk [OF ok c] set_parent_unit_unique [OF ok c]
    by (intro conjI)
  moreover have "(u, x0\<lparr>su_parent_unit := Some v, su_updated_at := now\<rparr>) \<in> set (storage_units d')"
    using x0 by (force simp: d'_def)
  moreover have "\<exists>y'. (v, y') \<in> set (storage_units d') \<and> su_parent_unit y' = Some u"
  proof (cases "v = u")
    case True
    then show ?thesis using x0 by (force simp: d'_def)
  next
    case False
    then show ?thesis using child par by (force simp: d'_def)
  qed
  ultimately show ?thesis using c by auto
qed


theorem parent_cycle_admitted_witness:
  "\<exists>d'. set_parent_unit 4 (Some 5) 40 example_db = Inr d' \<and> db_ok d' \<and>
     (\<exists>x. (4, x) \<in> set (storage_units d') \<and> su_parent_unit x = Some 5) \<and>
     (\<exists>y'. (5, y') \<in> set (storage_units d') \<and> su_parent_unit y' = Some 4)"
proof -
  have "(5, (new_storage_unit 3 ''Shelf'' ''shelf'' ''R-1-1'' 0)\<lparr>su_parent_unit := Some 4\<rparr>) \<in> set (storage_units example_db)"
    by (simp add: empty_db_def)
  from parent_cycle_admitted [OF example_db_ok this] show ?thesis by simp
qed

end
