(* ===== verification/Inserts.thy ===== *)
theory Inserts
  imports Integrity
begin

text \<open>
  \<open>Model.objects.create(...)\<close> for every model of the sources: each call checks
  the foreign keys and the \<open>unique\<close> fields the database enforces (an \<open>IntegrityError\<close>
  otherwise) and appends the row with the model's defaults under the next key. The
  operations form a command type, \<open>create_cmd\<close>, and together with deletion and
  re-parenting they define the databases the ORM can build from an empty one.
\<close>

section \<open>The create operations\<close>

definition create_company :: "string \<Rightarrow> string \<Rightarrow> string \<Rightarrow> datetime \<Rightarrow> db \<Rightarrow> wms_error + obj_id \<times> db" where
  "create_company name inn addr now d =
     (if list_ex (\<lambda>(i, c). co_inn c = inn) (companies d) then Inl IntegrityError
      else Inr (next_id d, d\<lparr>companies := companies d @ [(next_id d, new_company name inn addr now)],
                             next_id := Suc (next_id d)\<rparr>))"

definition create_marketplace :: "string \<Rightarrow> string \<Rightarrow> obj_id \<Rightarrow> datetime \<Rightarrow> db \<Rightarrow> wms_error + obj_id \<times> db" where
  "create_marketplace name ty co now d =
     (if \<not> has_row (companies d) co then Inl IntegrityError
      else Inr (next_id d, d\<lparr>marketplaces := marketplaces d @ [(next_id d, new_marketplace name ty co now)],
                             next_id := Suc (next_id d)\<rparr>))"

definition create_warehouse ::
  "string \<Rightarrow> string \<Rightarrow> string \<Rightarrow> obj_id \<Rightarrow> datetime \<Rightarrow> db \<Rightarrow> wms_error + obj_id \<times> db" where
  "create_warehouse name ty addr co now d =
     (if \<not> has_row (companies d) co then Inl IntegrityError
      else Inr (next_id d, d\<lparr>warehouses := warehouses d @ [(next_id d, new_warehouse name ty addr co now)],
                             next_id := Suc (next_id d)\<rparr>))"

definition create_storage_unit ::
  "obj_id \<Rightarrow> string \<Rightarrow> string \<Rightarrow> string \<Rightarrow> obj_id option \<Rightarrow> datetime \<Rightarrow> db \<Rightarrow> wms_error + obj_id \<times> db" where
  "create_storage_unit w name ty code p now d =
     (if \<not> has_row (warehouses d) w \<or> \<not> opt_ref (storage_units d) p then Inl IntegrityError
      else if list_ex (\<lambda>(i, u). su_code u = code) (storage_units d) then Inl IntegrityError
      else Inr (next_id d, d\<lparr>storage_units := storage_units d @
                               [(next_id d, (new_storage_unit w name ty code now)\<lparr>su_parent_unit := p\<rparr>)],
                             next_id := Suc (next_id d)\<rparr>))"

definition create_product ::
  "string \<Rightarrow> string \<Rightarrow> string \<Rightarrow> obj_id \<Rightarrow> datetime \<Rightarrow> db \<Rightarrow> wms_error + obj_id \<times> db" where
  "create_product name article barcode co now d =
     (if \<not> has_row (companies d) co then Inl IntegrityError
      else if list_ex (\<lambda>(i, p). prod_barcode p = barcode) (products d) then Inl IntegrityError
      else Inr (next_id d, d\<lparr>products := products d @ [(next_id d, new_product name article barcode co now)],
                             next_id := Suc (next_id d)\<rparr>))"

definition create_order_item ::
  "obj_id \<Rightarrow> obj_id \<Rightarrow> int \<Rightarrow> decimal \<Rightarrow> datetime \<Rightarrow> db \<Rightarrow> wms_error + obj_id \<times> db" where
  "create_order_item r p q price now d =
     (if \<not> has_row (orders d) r \<or> \<not> has_row (products d) p then Inl IntegrityError
      else Inr (next_id d, d\<lparr>order_items := order_items d @ [(next_id d, new_order_item r p q price now)],
                             next_id := Suc (next_id d)\<rparr>))"

definition create_supply ::
  "obj_id \<Rightarrow> obj_id \<Rightarrow> obj_id \<Rightarrow> date \<Rightarrow> string \<Rightarrow> datetime \<Rightarrow> db \<Rightarrow> wms_error + obj_id \<times> db" where
  "create_supply co src dst day slot now d =
     (if \<not> has_row (companies d) co \<or> \<not> has_row (warehouses d) src \<or> \<not> has_row (warehouses d) dst
      then Inl IntegrityError
      else Inr (next_id d, d\<lparr>supplies := supplies d @ [(next_id d, new_supply co src dst day slot now)],
                             next_id := Suc (next_id d)\<rparr>))"

definition create_supply_item :: "obj_id \<Rightarrow> obj_id \<Rightarrow> int \<Rightarrow> datetime \<Rightarrow> db \<Rightarrow> wms_error + obj_id \<times> db" where
  "create_supply_item s p q now d =
     (if \<not> has_row (supplies d) s \<or> \<not> has_row (products d) p then Inl IntegrityError
      else Inr (next_id d, d\<lparr>supply_items := supply_items d @ [(next_id d, new_supply_item s p q now)],
                             next_id := Suc (next_id d)\<rparr>))"

definition create_shipment :: "obj_id \<Rightarrow> obj_id \<Rightarrow> date \<Rightarrow> datetime \<Rightarrow> db \<Rightarrow> wms_error + obj_id \<times> db" where
  "create_shipment co w day now d =
     (if \<not> has_row (companies d) co \<or> \<not> has_row (warehouses d) w then Inl IntegrityError
      else Inr (next_id d, d\<lparr>shipments := shipments d @ [(next_id d, new_shipment co w day now)],
                             next_id := Suc (next_id d)\<rparr>))"

definition create_user :: "user \<Rightarrow> db \<Rightarrow> wms_error + obj_id \<times> db" where
  "create_user u d =
     (if \<not> opt_ref (companies d) (usr_company u) then Inl IntegrityError
      else if list_ex (\<lambda>(i, v). usr_email v = usr_email u) (users d) then Inl IntegrityError
      else Inr (next_id d, d\<lparr>users := users d @ [(next_id d, u)], next_id := Suc (next_id d)\<rparr>))"

definition create_product_image :: "obj_id \<Rightarrow> string \<Rightarrow> datetime \<Rightarrow> db \<Rightarrow> wms_error + obj_id \<times> db" where
  "create_product_image p path now d =
     (if \<not> has_row (products d) p then Inl IntegrityError
      else Inr (next_id d, d\<lparr>product_images := product_images d @ [(next_id d, new_product_image p path now)],
                             next_id := Suc (next_id d)\<rparr>))"

definition create_product_marketplace ::
  "obj_id \<Rightarrow> obj_id \<Rightarrow> string \<Rightarrow> datetime \<Rightarrow> db \<Rightarrow> wms_error + obj_id \<times> db" where
  "create_product_marketplace p m ext now d =
     (if \<not> has_row (products d) p \<or> \<not> has_row (marketplaces d) m then Inl IntegrityError
      else if list_ex (\<lambda>(i, x). pm_product x = p \<and> pm_marketplace x = m) (product_marketplaces d)
      then Inl IntegrityError
      else Inr (next_id d, d\<lparr>product_marketplaces := product_marketplaces d @
                               [(next_id d, new_product_marketplace p m ext now)],
                             next_id := Suc (next_id d)\<rparr>))"

definition create_supply_document :: "supply_document \<Rightarrow> db \<Rightarrow> wms_error + obj_id \<times> db" where
  "create_supply_document x d =
     (if \<not> has_row (supplies d) (sd_supply x) then Inl IntegrityError
      else Inr (next_id d, d\<lparr>supply_documents := supply_documents d @ [(next_id d, x)],
                             next_id := Suc (next_id d)\<rparr>))"

definition create_shipment_document :: "shipment_document \<Rightarrow> db \<Rightarrow> wms_error + obj_id \<times> db" where
  "create_shipment_document x d =
     (if \<not> has_row (shipments d) (sdoc_shipment x) then Inl IntegrityError
      else Inr (next_id d, d\<lparr>shipment_documents := shipment_documents d @ [(next_id d, x)],
                             next_id := Suc (next_id d)\<rparr>))"

definition create_service ::
  "string \<Rightarrow> string \<Rightarrow> obj_id \<Rightarrow> decimal \<Rightarrow> datetime \<Rightarrow> db \<Rightarrow> wms_error + obj_id \<times> db" where
  "create_service name ty co price now d =
     (if \<not> has_row (companies d) co then Inl IntegrityError
      else Inr (next_id d, d\<lparr>services := services d @ [(next_id d, new_service name ty co price now)],
                             next_id := Suc (next_id d)\<rparr>))"

definition create_service_request ::
  "obj_id \<Rightarrow> obj_id \<Rightarrow> obj_id \<Rightarrow> date \<Rightarrow> decimal \<Rightarrow> datetime \<Rightarrow> db \<Rightarrow> wms_error + obj_id \<times> db" where
  "create_service_request sv co w day cost now d =
     (if \<not> has_row (services d) sv \<or> \<not> has_row (companies d) co \<or> \<not> has_row (warehouses d) w
      then Inl IntegrityError
      else Inr (next_id d, d\<lparr>service_requests := service_requests d @
                               [(next_id d, new_service_request sv co w day cost now)],
                             next_id := Suc (next_id d)\<rparr>))"

definition create_service_request_item :: "service_request_item \<Rightarrow> db \<Rightarrow> wms_error + obj_id \<times> db" where
  "create_service_request_item x d =
     (if \<not> has_row (service_requests d) (sri_service_request x) \<or> \<not> has_row (products d) (sri_product x)
      then Inl IntegrityError
      else Inr (next_id d, d\<lparr>service_request_items := service_request_items d @ [(next_id d, x)],
                             next_id := Suc (next_id d)\<rparr>))"

definition create_report :: "report \<Rightarrow> db \<Rightarrow> wms_error + obj_id \<times> db" where
  "create_report x d =
     (if \<not> has_row (companies d) (rep_company x) then Inl IntegrityError
      else Inr (next_id d, d\<lparr>reports := reports d @ [(next_id d, x)], next_id := Suc (next_id d)\<rparr>))"

definition create_inventory ::
  "obj_id \<Rightarrow> obj_id \<Rightarrow> string \<Rightarrow> date \<Rightarrow> datetime \<Rightarrow> db \<Rightarrow> wms_error + obj_id \<times> db" where
  "create_inventory co w name day now d =
     (if \<not> has_row (companies d) co \<or> \<not> has_row (warehouses d) w then Inl IntegrityError
      else Inr (next_id d, d\<lparr>inventories := inventories d @ [(next_id d, new_inventory co w name day now)],
                             next_id := Suc (next_id d)\<rparr>))"

definition create_inventory_item ::
  "obj_id \<Rightarrow> obj_id \<Rightarrow> int \<Rightarrow> datetime \<Rightarrow> db \<Rightarrow> wms_error + obj_id \<times> db" where
  "create_inventory_item v p q now d =
     (if \<not> has_row (inventories d) v \<or> \<not> has_row (products d) p then Inl IntegrityError
      else Inr (next_id d, d\<lparr>inventory_items := inventory_items d @ [(next_id d, new_inventory_item v p q now)],
                             next_id := Suc (next_id d)\<rparr>))"

text \<open>The create calls as commands, each with the time of the call.\<close>

datatype create_cmd =
    Create_company string string string
  | Create_marketplace string string obj_id
  | Create_warehouse string string string obj_id
  | Create_storage_unit obj_id string string string "obj_id option"
  | Create_product string string string obj_id
  | Create_order obj_id obj_id string decimal
  | Create_order_item obj_id obj_id int decimal
  | Create_supply obj_id obj_id obj_id date string
  | Create_supply_item obj_id obj_id int
  | Create_shipment obj_id obj_id date
  | Create_shipment_order obj_id obj_id
  | Create_user user
  | Create_product_image obj_id string
  | Create_product_marketplace obj_id obj_id string
  | Create_supply_document supply_document
  | Create_shipment_document shipment_document
  | Create_service string string obj_id decimal
  | Create_service_request obj_id obj_id obj_id date decimal
  | Create_service_request_item service_request_item
  | Create_report report
  | Create_inventory obj_id obj_id string date
  | Create_inventory_item obj_id obj_id int

fun orm_create :: "create_cmd \<Rightarrow> datetime \<Rightarrow> db \<Rightarrow> wms_error + obj_id \<times> db" where
  "orm_create (Create_company name inn addr) now d = create_company name inn addr now d"
| "orm_create (Create_marketplace name ty co) now d = create_marketplace name ty co now d"
| "orm_create (Create_warehouse name ty addr co) now d = create_warehouse name ty addr co now d"
| "orm_create (Create_storage_unit w name ty code p) now d = create_storage_unit w name ty code p now d"
| "orm_create (Create_product name article barcode co) now d = create_product name article barcode co now d"
| "orm_create (Create_order mp co ext price) now d = create_order mp co ext price now d"
| "orm_create (Create_order_item r p q price) now d = create_order_item r p q price now d"
| "orm_create (Create_supply co src dst day slot) now d = create_supply co src dst day slot now d"
| "orm_create (Create_supply_item s p q) now d = create_supply_item s p q now d"
| "orm_create (Create_shipment co w day) now d = create_shipment co w day now d"
| "orm_create (Create_shipment_order s r) now d = add_shipment_order s r now d"
| "orm_create (Create_user u) now d = create_user u d"
| "orm_create (Create_product_image p path) now d = create_product_image p path now d"
| "orm_create (Create_product_marketplace p m ext) now d = create_product_marketplace p m ext now d"
| "orm_create (Create_supply_document x) now d = create_supply_document x d"
| "orm_create (Create_shipment_document x) now d = create_shipment_document x d"
| "orm_create (Create_service name ty co price) now d = create_service name ty co price now d"
| "orm_create (Create_service_request sv co w day cost) now d = create_service_request sv co w day cost now d"
| "orm_create (Create_service_request_item x) now d = create_service_request_item x d"
| "orm_create (Create_report x) now d = create_report x d"
| "orm_create (Create_inventory co w name day) now d = create_inventory co w name day now d"
| "orm_create (Create_inventory_item v p q) now d = create_inventory_item v p q now d"

text \<open>The databases the ORM builds from an empty one by creating, deleting and re-parenting.\<close>

inductive db_reachable :: "db \<Rightarrow> bool" where
  empty: "db_reachable empty_db"
| create: "db_reachable d \<Longrightarrow> orm_create c now d = Inr (i, d') \<Longrightarrow> db_reachable d'"
| delete: "db_reachable d \<Longrightarrow> db_reachable (delete_obj t d)"
| reparent: "db_reachable d \<Longrightarrow> set_parent_unit u p now d = Inr d' \<Longrightarrow> db_reachable d'"

lemmas create_defs =
  create_company_def create_marketplace_def create_warehouse_def create_storage_unit_def
  create_product_def create_order_def create_order_item_def create_supply_def create_supply_item_def
  create_shipment_def add_shipment_order_def create_user_def create_product_image_def
  create_product_marketplace_def create_supply_document_def create_shipment_document_def
  create_service_def create_service_request_def create_service_request_item_def create_report_def
  create_inventory_def create_inventory_item_def

section \<open>Lemmas\<close>

lemma orm_create_Inr:
  assumes "orm_create c now d = Inr (i, d')"
  shows "i = next_id d \<and> next_id d' = Suc (next_id d) \<and>
         set (all_ids d') = insert (next_id d) (set (all_ids d)) \<and>
         length (all_ids d') = Suc (length (all_ids d))"
  using assms
  by (cases c; simp add: create_defs split: if_splits; elim conjE; hypsubst; simp add: all_ids_def)

lemma orm_create_pk: "pk_ok d \<Longrightarrow> orm_create c now d = Inr (i, d') \<Longrightarrow> pk_ok d'"
  using orm_create_Inr [of c now d i d'] pk_insert [of d d'] by blast

lemma opt_ref_append: "opt_ref t p \<Longrightarrow> opt_ref (t @ ys) p"
  by (simp add: opt_ref_def split: option.splits)

lemmas fk_parts =
  fk_users_def fk_marketplaces_def fk_warehouses_def fk_storage_units_def fk_products_def
  fk_product_images_def fk_product_marketplaces_def fk_orders_def fk_order_items_def fk_supplies_def
  fk_supply_items_def fk_supply_documents_def fk_shipments_def fk_shipment_orders_def
  fk_shipment_documents_def fk_services_def fk_service_requests_def fk_service_request_items_def
  fk_reports_def fk_inventories_def fk_inventory_items_def

lemma fk_append_companies:
  "fk_ok d \<Longrightarrow> fk_ok (d\<lparr>companies := companies d @ [(n, x)], next_id := m\<rparr>)"
  unfolding fk_ok_def by (simp add: fk_parts; auto intro: opt_ref_append)

lemma fk_append_marketplaces:
  "fk_ok d \<Longrightarrow> has_row (companies d) (mp_company x) \<Longrightarrow>
   fk_ok (d\<lparr>marketplaces := marketplaces d @ [(n, x)], next_id := m\<rparr>)"
  unfolding fk_ok_def by (simp add: fk_parts; auto intro: opt_ref_append)

lemma fk_append_warehouses:
  "fk_ok d \<Longrightarrow> has_row (companies d) (wh_company x) \<Longrightarrow>
   fk_ok (d\<lparr>warehouses := warehouses d @ [(n, x)], next_id := m\<rparr>)"
  unfolding fk_ok_def by (simp add: fk_parts; auto intro: opt_ref_append)

lemma fk_append_storage_units:
  "fk_ok d \<Longrightarrow> has_row (warehouses d) (su_warehouse x) \<and> opt_ref (storage_units d) (su_parent_unit x) \<Longrightarrow>
   fk_ok (d\<lparr>storage_units := storage_units d @ [(n, x)], next_id := m\<rparr>)"
  unfolding fk_ok_def by (simp add: fk_parts; auto intro: opt_ref_append)

lemma fk_append_products:
  "fk_ok d \<Longrightarrow> has_row (companies d) (prod_company x) \<Longrightarrow>
   fk_ok (d\<lparr>products := products d @ [(n, x)], next_id := m\<rparr>)"
  unfolding fk_ok_def by (simp add: fk_parts; auto intro: opt_ref_append)

lemma fk_append_orders:
  "fk_ok d \<Longrightarrow> has_row (marketplaces d) (order_marketplace x) \<and> has_row (companies d) (order_company x) \<and>
     opt_ref (warehouses d) (order_shipping_warehouse x) \<Longrightarrow>
   fk_ok (d\<lparr>orders := orders d @ [(n, x)], next_id := m\<rparr>)"
  unfolding fk_ok_def by (simp add: fk_parts; auto intro: opt_ref_append)

lemma fk_append_order_items:
  "fk_ok d \<Longrightarrow> has_row (orders d) (oi_order x) \<and> has_row (products d) (oi_product x) \<Longrightarrow>
   fk_ok (d\<lparr>order_items := order_items d @ [(n, x)], next_id := m\<rparr>)"
  unfolding fk_ok_def by (simp add: fk_parts; auto intro: opt_ref_append)

lemma fk_append_supplies:
  "fk_ok d \<Longrightarrow> has_row (companies d) (sup_company x) \<and> has_row (warehouses d) (sup_source_warehouse x) \<and>
     has_row (warehouses d) (sup_destination_warehouse x) \<Longrightarrow>
   fk_ok (d\<lparr>supplies := supplies d @ [(n, x)], next_id := m\<rparr>)"
  unfolding fk_ok_def by (simp add: fk_parts; auto intro: opt_ref_append)

lemma fk_append_supply_items:
  "fk_ok d \<Longrightarrow> has_row (supplies d) (si_supply x) \<and> has_row (products d) (si_product x) \<Longrightarrow>
   fk_ok (d\<lparr>supply_items := supply_items d @ [(n, x)], next_id := m\<rparr>)"
  unfolding fk_ok_def by (simp add: fk_parts; auto intro: opt_ref_append)

lemma fk_append_shipments:
  "fk_ok d \<Longrightarrow> has_row (companies d) (shp_company x) \<and> has_row (warehouses d) (shp_warehouse x) \<Longrightarrow>
   fk_ok (d\<lparr>shipments := shipments d @ [(n, x)], next_id := m\<rparr>)"
  unfolding fk_ok_def by (simp add: fk_parts; auto intro: opt_ref_append)

lemma fk_append_shipment_orders:
  "fk_ok d \<Longrightarrow> has_row (shipments d) (so_shipment x) \<and> has_row (orders d) (so_order x) \<Longrightarrow>
   fk_ok (d\<lparr>shipment_orders := shipment_orders d @ [(n, x)], next_id := m\<rparr>)"
  unfolding fk_ok_def by (simp add: fk_parts; auto intro: opt_ref_append)

lemma fk_append_users:
  "fk_ok d \<Longrightarrow> opt_ref (companies d) (usr_company x) \<Longrightarrow>
   fk_ok (d\<lparr>users := users d @ [(n, x)], next_id := m\<rparr>)"
  unfolding fk_ok_def by (simp add: fk_parts; auto intro: opt_ref_append)

lemma fk_append_product_images:
  "fk_ok d \<Longrightarrow> has_row (products d) (pi_product x) \<Longrightarrow>
   fk_ok (d\<lparr>product_images := product_images d @ [(n, x)], next_id := m\<rparr>)"
  unfolding fk_ok_def by (simp add: fk_parts; auto intro: opt_ref_append)

lemma fk_append_product_marketplaces:
  "fk_ok d \<Longrightarrow> has_row (products d) (pm_product x) \<and> has_row (marketplaces d) (pm_marketplace x) \<Longrightarrow>
   fk_ok (d\<lparr>product_marketplaces := product_marketplaces d @ [(n, x)], next_id := m\<rparr>)"
  unfolding fk_ok_def by (simp add: fk_parts; auto intro: opt_ref_append)

lemma fk_append_supply_documents:
  "fk_ok d \<Longrightarrow> has_row (supplies d) (sd_supply x) \<Longrightarrow>
   fk_ok (d\<lparr>supply_documents := supply_documents d @ [(n, x)], next_id := m\<rparr>)"
  unfolding fk_ok_def by (simp add: fk_parts; auto intro: opt_ref_append)

lemma fk_append_shipment_documents:
  "fk_ok d \<Longrightarrow> has_row (shipments d) (sdoc_shipment x) \<Longrightarrow>
   fk_ok (d\<lparr>shipment_documents := shipment_documents d @ [(n, x)], next_id := m\<rparr>)"
  unfolding fk_ok_def by (simp add: fk_parts; auto intro: opt_ref_append)

lemma fk_append_services:
  "fk_ok d \<Longrightarrow> has_row (companies d) (svc_company x) \<Longrightarrow>
   fk_ok (d\<lparr>services := services d @ [(n, x)], next_id := m\<rparr>)"
  unfolding fk_ok_def by (simp add: fk_parts; auto intro: opt_ref_append)

lemma fk_append_service_requests:
  "fk_ok d \<Longrightarrow> has_row (services d) (sr_service x) \<and> has_row (companies d) (sr_company x) \<and>
     has_row (warehouses d) (sr_warehouse x) \<Longrightarrow>
   fk_ok (d\<lparr>service_requests := service_requests d @ [(n, x)], next_id := m\<rparr>)"
  unfolding fk_ok_def by (simp add: fk_parts; auto intro: opt_ref_append)

lemma fk_append_service_request_items:
  "fk_ok d \<Longrightarrow> has_row (service_requests d) (sri_service_request x) \<and> has_row (products d) (sri_product x) \<Longrightarrow>
   fk_ok (d\<lparr>service_request_items := service_request_items d @ [(n, x)], next_id := m\<rparr>)"
  unfolding fk_ok_def by (simp add: fk_parts; auto intro: opt_ref_append)

lemma fk_append_reports:
  "fk_ok d \<Longrightarrow> has_row (companies d) (rep_company x) \<Longrightarrow>
   fk_ok (d\<lparr>reports := reports d @ [(n, x)], next_id := m\<rparr>)"
  unfolding fk_ok_def by (simp add: fk_parts; auto intro: opt_ref_append)

lemma fk_append_inventories:
  "fk_ok d \<Longrightarrow> has_row (companies d) (inv_company x) \<and> has_row (warehouses d) (inv_warehouse x) \<Longrightarrow>
   fk_ok (d\<lparr>inventories := inventories d @ [(n, x)], next_id := m\<rparr>)"
  unfolding fk_ok_def by (simp add: fk_parts; auto intro: opt_ref_append)

lemma fk_append_inventory_items:
  "fk_ok d \<Longrightarrow> has_row (inventories d) (ii_inventory x) \<and> has_row (products d) (ii_product x) \<Longrightarrow>
   fk_ok (d\<lparr>inventory_items := inventory_items d @ [(n, x)], next_id := m\<rparr>)"
  unfolding fk_ok_def by (simp add: fk_parts; auto intro: opt_ref_append)

lemmas fk_append =
  fk_append_companies fk_append_marketplaces fk_append_warehouses fk_append_storage_units
  fk_append_products fk_append_orders fk_append_order_items fk_append_supplies fk_append_supply_items
  fk_append_shipments fk_append_shipment_orders fk_append_users fk_append_product_images
  fk_append_product_marketplaces fk_append_supply_documents fk_append_shipment_documents
  fk_append_services fk_append_service_requests fk_append_service_request_items fk_append_reports
  fk_append_inventories fk_append_inventory_items

lemmas new_rows =
  new_company_def new_marketplace_def new_warehouse_def new_storage_unit_def new_product_def
  new_order_def new_order_item_def new_supply_def new_supply_item_def new_shipment_def
  new_product_image_def new_product_marketplace_def new_service_def new_service_request_def
  new_inventory_def new_inventory_item_def

lemma orm_create_fk: "fk_ok d \<Longrightarrow> orm_create c now d = Inr (i, d') \<Longrightarrow> fk_ok d'"
  by (cases c; simp add: create_defs split: if_splits; elim conjE; hypsubst;
      simp add: fk_append new_rows opt_ref_def)

text \<open>How appending a row to one table changes the unique constraints.\<close>

lemma unique_append_companies:
  "unique_ok (d\<lparr>companies := companies d @ [(n, x)], next_id := m\<rparr>) \<longleftrightarrow>
   unique_ok d \<and> \<not> list_ex (\<lambda>(i, r). co_inn r = co_inn x) (companies d)"
  by (auto simp: uq_defs list_ex_iff intro: rev_image_eqI)

lemma unique_append_users:
  "unique_ok (d\<lparr>users := users d @ [(n, x)], next_id := m\<rparr>) \<longleftrightarrow>
   unique_ok d \<and> \<not> list_ex (\<lambda>(i, r). usr_email r = usr_email x) (users d)"
  by (auto simp: uq_defs list_ex_iff intro: rev_image_eqI)

lemma unique_append_marketplaces:
  "unique_ok (d\<lparr>marketplaces := marketplaces d @ [(n, x)], next_id := m\<rparr>) \<longleftrightarrow> unique_ok d"
  by (simp add: uq_defs)

lemma unique_append_warehouses:
  "unique_ok (d\<lparr>warehouses := warehouses d @ [(n, x)], next_id := m\<rparr>) \<longleftrightarrow> unique_ok d"
  by (simp add: uq_defs)

lemma unique_append_storage_units:
  "unique_ok (d\<lparr>storage_units := storage_units d @ [(n, x)], next_id := m\<rparr>) \<longleftrightarrow>
   unique_ok d \<and> \<not> list_ex (\<lambda>(i, r). su_code r = su_code x) (storage_units d)"
  by (auto simp: uq_defs list_ex_iff intro: rev_image_eqI)

lemma unique_append_products:
  "unique_ok (d\<lparr>products := products d @ [(n, x)], next_id := m\<rparr>) \<longleftrightarrow>
   unique_ok d \<and> \<not> list_ex (\<lambda>(i, r). prod_barcode r = prod_barcode x) (products d)"
  by (auto simp: uq_defs list_ex_iff intro: rev_image_eqI)

lemma unique_append_product_images:
  "unique_ok (d\<lparr>product_images := product_images d @ [(n, x)], next_id := m\<rparr>) \<longleftrightarrow> unique_ok d"
  by (simp add: uq_defs)

lemma unique_append_product_marketplaces:
  "unique_ok (d\<lparr>product_marketplaces := product_marketplaces d @ [(n, x)], next_id := m\<rparr>) \<longleftrightarrow>
   unique_ok d \<and> \<not> list_ex (\<lambda>(i, r). (pm_product r, pm_marketplace r) = (pm_product x, pm_marketplace x)) (product_marketplaces d)"
  by (auto simp: uq_defs list_ex_iff intro: rev_image_eqI)

lemma unique_append_orders:
  "unique_ok (d\<lparr>orders := orders d @ [(n, x)], next_id := m\<rparr>) \<longleftrightarrow>
   unique_ok d \<and> \<not> list_ex (\<lambda>(i, r). (order_marketplace r, order_external_id r) = (order_marketplace x, order_external_id x)) (orders d)"
  by (auto simp: uq_defs list_ex_iff intro: rev_image_eqI)

lemma unique_append_order_items:
  "unique_ok (d\<lparr>order_items := order_items d @ [(n, x)], next_id := m\<rparr>) \<longleftrightarrow> unique_ok d"
  by (simp add: uq_defs)

lemma unique_append_supplies:
  "unique_ok (d\<lparr>supplies := supplies d @ [(n, x)], next_id := m\<rparr>) \<longleftrightarrow> unique_ok d"
  by (simp add: uq_defs)

lemma unique_append_supply_items:
  "unique_ok (d\<lparr>supply_items := supply_items d @ [(n, x)], next_id := m\<rparr>) \<longleftrightarrow> unique_ok d"
  by (simp add: uq_defs)

lemma unique_append_supply_documents:
  "unique_ok (d\<lparr>supply_documents := supply_documents d @ [(n, x)], next_id := m\<rparr>) \<longleftrightarrow> unique_ok d"
  by (simp add: uq_defs)

lemma unique_append_shipments:
  "unique_ok (d\<lparr>shipments := shipments d @ [(n, x)], next_id := m\<rparr>) \<longleftrightarrow> unique_ok d"
  by (simp add: uq_defs)

lemma unique_append_shipment_orders:
  "unique_ok (d\<lparr>shipment_orders := shipment_orders d @ [(n, x)], next_id := m\<rparr>) \<longleftrightarrow>
   unique_ok d \<and> \<not> list_ex (\<lambda>(i, r). (so_shipment r, so_order r) = (so_shipment x, so_order x)) (shipment_orders d)"
  by (auto simp: uq_defs list_ex_iff intro: rev_image_eqI)

lemma unique_append_shipment_documents:
  "unique_ok (d\<lparr>shipment_documents := shipment_documents d @ [(n, x)], next_id := m\<rparr>) \<longleftrightarrow> unique_ok d"
  by (simp add: uq_defs)

lemma unique_append_services:
  "unique_ok (d\<lparr>services := services d @ [(n, x)], next_id := m\<rparr>) \<longleftrightarrow> unique_ok d"
  by (simp add: uq_defs)

lemma unique_append_service_requests:
  "unique_ok (d\<lparr>service_requests := service_requests d @ [(n, x)], next_id := m\<rparr>) \<longleftrightarrow> unique_ok d"
  by (simp add: uq_defs)

lemma unique_append_service_request_items:
  "unique_ok (d\<lparr>service_request_items := service_request_items d @ [(n, x)], next_id := m\<rparr>) \<longleftrightarrow> unique_ok d"
  by (simp add: uq_defs)

lemma unique_append_reports:
  "unique_ok (d\<lparr>reports := reports d @ [(n, x)], next_id := m\<rparr>) \<longleftrightarrow> unique_ok d"
  by (simp add: uq_defs)

lemma unique_append_inventories:
  "unique_ok (d\<lparr>inventories := inventories d @ [(n, x)], next_id := m\<rparr>) \<longleftrightarrow> unique_ok d"
  by (simp add: uq_defs)

lemma unique_append_inventory_items:
  "unique_ok (d\<lparr>inventory_items := inventory_items d @ [(n, x)], next_id := m\<rparr>) \<longleftrightarrow> unique_ok d"
  by (simp add: uq_defs)

lemmas unique_append =
  unique_append_companies unique_append_users unique_append_marketplaces unique_append_warehouses unique_append_storage_units unique_append_products unique_append_product_images unique_append_product_marketplaces unique_append_orders unique_append_order_items unique_append_supplies unique_append_supply_items unique_append_supply_documents unique_append_shipments unique_append_shipment_orders unique_append_shipment_documents unique_append_services unique_append_service_requests unique_append_service_request_items unique_append_reports unique_append_inventories unique_append_inventory_items

lemma orm_create_unique: "unique_ok d \<Longrightarrow> orm_create c now d = Inr (i, d') \<Longrightarrow> unique_ok d'"
  by (cases c; simp add: create_defs split: if_splits; elim conjE; hypsubst;
      simp add: unique_append new_rows)

lemma orm_create_db_ok: "db_ok d \<Longrightarrow> orm_create c now d = Inr (i, d') \<Longrightarrow> db_ok d'"
  unfolding db_ok_def using orm_create_pk orm_create_fk orm_create_unique by blast

lemma orm_create_status: "status_ok d \<Longrightarrow> orm_create c now d = Inr (i, d') \<Longrightarrow> status_ok d'"
  by (cases c; simp add: create_defs split: if_splits; elim conjE; hypsubst;
      simp add: status_ok_def new_rows ORDER_STATUSES_def SUPPLY_STATUSES_def SHIPMENT_STATUSES_def
        REQUEST_STATUSES_def INVENTORY_STATUSES_def)

lemma reparent_consistent:
  assumes ok: "db_ok d" and st: "status_ok d" and c: "set_parent_unit u p now d = Inr d'"
  shows "db_ok d' \<and> status_ok d'"
proof
  show "db_ok d'"
    using set_parent_unit_pk [OF ok c] set_parent_unit_fk [OF ok c] set_parent_unit_unique [OF ok c]
    by (simp add: db_ok_def)
  show "status_ok d'" using st by (simp add: set_parent_unit_Inr(3) [OF c] status_ok_def)
qed

section \<open>Properties\<close>

text \<open>
  C11. Every \<open>objects.create\<close> of the model that succeeds keeps the database consistent
  (distinct keys below the counter, foreign keys resolved, unique fields distinct) and
  returns a key that was not in use and now is.
\<close>

theorem orm_create_keeps_db_ok:
  assumes "db_ok d" and "orm_create c now d = Inr (i, d')"
  shows "db_ok d' \<and> i \<notin> set (all_ids d) \<and> i \<in> set (all_ids d')"
proof -
  have "i \<notin> set (all_ids d)"
    using assms orm_create_Inr [OF assms(2)] by (auto simp: db_ok_def pk_ok_def)
  with orm_create_db_ok [OF assms] orm_create_Inr [OF assms(2)] show ?thesis by simp
qed

theorem orm_create_keeps_db_ok_witness:
  "\<exists>d'. orm_create (Create_storage_unit 3 ''Bin'' ''bin'' ''R-1-1-1'' (Some 5)) 40 example_db = Inr (9, d') \<and>
        db_ok d'"
proof -
  obtain d' where c: "orm_create (Create_storage_unit 3 ''Bin'' ''bin'' ''R-1-1-1'' (Some 5)) 40 example_db = Inr (9, d')"
    by (simp add: create_storage_unit_def empty_db_def has_row_def opt_ref_def new_storage_unit_def)
  have "db_ok d'" using orm_create_keeps_db_ok [OF example_db_ok c] by (rule conjunct1)
  with c show ?thesis by (intro exI [of _ d'] conjI)
qed

text \<open>
  C10. Every database the ORM can build from an empty one -- by any sequence of the
  create calls, deletions with their cascades and re-parenting of storage units -- is
  consistent and keeps every status within its choices.
\<close>

theorem db_reachable_consistent: "db_reachable d \<Longrightarrow> db_ok d \<and> status_ok d"
proof (induction rule: db_reachable.induct)
  case empty
  then show ?case
    by (simp add: empty_db_def db_ok_def pk_ok_def all_ids_def fk_defs uq_defs status_ok_def)
next
  case (create d c now i d')
  then show ?case using orm_create_db_ok orm_create_status by blast
next
  case (delete d t)
  then show ?case
    by (simp add: db_ok_def fk_ok_def fk_delete pk_delete unique_delete status_ok_delete)
next
  case (reparent d u p now d')
  then show ?case using reparent_consistent by blast
qed

theorem db_reachable_consistent_witness:
  "\<exists>d. db_reachable d \<and> length (orders d) = 1 \<and> db_ok d \<and> status_ok d"
proof -
  obtain d1 where c1: "orm_create (Create_company ''Acme'' ''7701000000'' ''Moscow'') 0 empty_db = Inr (1, d1)"
    by (simp add: create_company_def empty_db_def)
  obtain d2 where c2: "orm_create (Create_marketplace ''WB shop'' ''wildberries'' 1) 1 d1 = Inr (2, d2)"
    using c1 [symmetric] by (simp add: create_company_def create_marketplace_def empty_db_def has_row_def)
  obtain d3 where c3: "orm_create (Create_order 2 1 ''A-1'' 9900) 2 d2 = Inr (3, d3)"
    using c1 [symmetric] c2 [symmetric]
    by (simp add: create_company_def create_marketplace_def create_order_def empty_db_def has_row_def)
  have r: "db_reachable d3"
    using db_reachable.create [OF db_reachable.create [OF db_reachable.create [OF db_reachable.empty c1] c2] c3] .
  have "length (orders d3) = 1"
    using c1 [symmetric] c2 [symmetric] c3 [symmetric]
    by (simp add: create_company_def create_marketplace_def create_order_def empty_db_def has_row_def)
  with db_reachable_consistent [OF r] r show ?thesis by blast
qed

end
