(* ===== verification/Reservation.thy ===== *)
theory Reservation
  imports Ledger Orders
begin

text \<open>
  The Reservation Manager of spec section 4.2, modelled from the spec over the ledger
  and the source's \<open>OrderItem\<close> rows. Processing an order reserves each item that is not
  yet processed at the first candidate storage unit whose \<open>available\<close> stock covers it
  (\<open>route\<close>). If an item cannot be placed, every reservation made for the order so far
  is released again (\<open>release_all\<close>, latest first) and the order is reported
  unfulfillable; otherwise every item is marked \<open>is_processed\<close>. Processing an order
  whose items are all processed reserves nothing. Cancelling an order releases its
  reservations and sets its status to \<open>cancelled\<close>.
\<close>

type_synonym reservation = "obj_id \<times> obj_id \<times> int"

definition route :: "ledger \<Rightarrow> obj_id list \<Rightarrow> obj_id \<Rightarrow> int \<Rightarrow> obj_id option" where
  "route l cs p q = find (\<lambda>u. q \<le> available (snapshot l u p)) cs"

fun reserve_items ::
  "obj_id \<Rightarrow> obj_id list \<Rightarrow> (obj_id \<times> order_item) list \<Rightarrow> reservation list \<Rightarrow> ledger \<Rightarrow>
   (obj_id \<times> reservation list \<times> ledger) + (reservation list \<times> ledger)" where
  "reserve_items a cs [] acc l = Inr (acc, l)"
| "reserve_items a cs ((i, it) # its) acc l =
     (if oi_is_processed it then reserve_items a cs its acc l
      else (case route l cs (oi_product it) (oi_quantity it) of
              None \<Rightarrow> Inl (i, acc, l)
            | Some u \<Rightarrow>
                (case reserve u (oi_product it) (oi_quantity it) a l of
                   Inl e \<Rightarrow> Inl (i, acc, l)
                 | Inr l' \<Rightarrow> reserve_items a cs its ((u, oi_product it, oi_quantity it) # acc) l')))"

fun release_all :: "obj_id \<Rightarrow> reservation list \<Rightarrow> ledger \<Rightarrow> wms_error + ledger" where
  "release_all a [] l = Inr l"
| "release_all a ((u, p, q) # rs) l =
     (case release u p q a l of Inl e \<Rightarrow> Inl e | Inr l' \<Rightarrow> release_all a rs l')"

datatype reservation_outcome = Reserved "reservation list" | Unfulfillable obj_id

definition mark_processed :: "(obj_id \<times> order_item) list \<Rightarrow> (obj_id \<times> order_item) list" where
  "mark_processed its = map (\<lambda>(i, it). (i, it\<lparr>oi_is_processed := True\<rparr>)) its"

definition process_order ::
  "obj_id \<Rightarrow> obj_id list \<Rightarrow> (obj_id \<times> order_item) list \<Rightarrow> ledger \<Rightarrow>
   wms_error + reservation_outcome \<times> (obj_id \<times> order_item) list \<times> ledger" where
  "process_order a cs its l =
     (case reserve_items a cs its [] l of
        Inl (i, acc, l') \<Rightarrow>
          (case release_all a acc l' of
             Inl e \<Rightarrow> Inl e
           | Inr l'' \<Rightarrow> Inr (Unfulfillable i, its, l''))
      | Inr (acc, l') \<Rightarrow> Inr (Reserved (rev acc), mark_processed its, l'))"

text \<open>Cancelling is allowed from the non-terminal statuses (spec section 3).\<close>

definition cancel_order :: "obj_id \<Rightarrow> reservation list \<Rightarrow> order \<Rightarrow> ledger \<Rightarrow> wms_error + order \<times> ledger" where
  "cancel_order a rs r l =
     (if order_status r \<notin> {''new'', ''processing'', ''ready_to_ship''} then Inl InvalidTransition
      else (case release_all a (rev rs) l of
              Inl e \<Rightarrow> Inl e
            | Inr l' \<Rightarrow> Inr (r\<lparr>order_status := ''cancelled''\<rparr>, l')))"

text \<open>The quantity a list of reservations holds on one entry.\<close>

definition held :: "reservation list \<Rightarrow> obj_id \<Rightarrow> obj_id \<Rightarrow> int" where
  "held rs u p = sum_list (map (\<lambda>(u', p', q). if (u', p') = (u, p) then q else 0) rs)"

text \<open>\<open>l'\<close> is \<open>l\<close> with the reservations \<open>rs\<close> moved from available to reserved.\<close>

definition moved_by :: "ledger \<Rightarrow> reservation list \<Rightarrow> int \<Rightarrow> ledger \<Rightarrow> bool" where
  "moved_by l rs s l' \<longleftrightarrow>
     layout l' = layout l \<and>
     (\<forall>u p. snapshot l' u p = shift (snapshot l u p) (- s * held rs u p) (s * held rs u p) 0)"

definition valid_reservations :: "ledger \<Rightarrow> reservation list \<Rightarrow> bool" where
  "valid_reservations l rs \<longleftrightarrow> (\<forall>(u, p, q) \<in> set rs. 0 \<le> q \<and> layout l u \<noteq> None)"

text \<open>Examples: the ledger after receiving five items of product 2 into shelf 1, and two
  orders' items: one of three items of product 2, and one adding an item of four more.\<close>

abbreviation stocked_ledger :: ledger where
  "stocked_ledger \<equiv> post 1 2 5 0 0 Cause_receive 7 (init_ledger example_layout)"

abbreviation small_order :: "(obj_id \<times> order_item) list" where
  "small_order \<equiv> [(20, new_order_item 10 2 3 1500 0)]"

abbreviation large_order :: "(obj_id \<times> order_item) list" where
  "large_order \<equiv> [(20, new_order_item 10 2 3 1500 0), (21, new_order_item 10 2 4 1500 0)]"

section \<open>Lemmas\<close>

lemma held_Nil [simp]: "held [] u p = 0"
  by (simp add: held_def)

lemma held_Cons [simp]:
  "held ((u', p', q) # rs) u p = (if (u', p') = (u, p) then q else 0) + held rs u p"
  by (simp add: held_def)

lemma held_append [simp]: "held (xs @ ys) u p = held xs u p + held ys u p"
  by (simp add: held_def)

lemma held_rev [simp]: "held (rev rs) u p = held rs u p"
  by (simp add: held_def rev_map [symmetric] sum_list_rev)

lemma held_nonneg: "valid_reservations l rs \<Longrightarrow> 0 \<le> held rs u p"
  by (induction rs) (auto simp: valid_reservations_def)

lemma shift_0 [simp]: "shift e 0 0 0 = e"
  by (simp add: shift_def)

lemma shift_shift [simp]: "shift (shift e a b c) a' b' c' = shift e (a + a') (b + b') (c + c')"
  by (simp add: shift_def algebra_simps)

lemma moved_by_refl [simp]: "moved_by l [] s l"
  by (simp add: moved_by_def)

lemma moved_by_trans:
  "moved_by l xs s l1 \<Longrightarrow> moved_by l1 ys s l2 \<Longrightarrow> moved_by l (ys @ xs) s l2"
  by (simp add: moved_by_def algebra_simps)

lemma reserve_Inr:
  assumes "reserve u p q a l = Inr l'"
  shows "l' = post u p (- q) q 0 Cause_reserve a l" "layout l u \<noteq> None" "0 \<le> q"
    "q \<le> available (snapshot l u p)"
  using assms by (auto simp: reserve_def split: if_splits)

lemma release_Inr:
  "layout l u \<noteq> None \<Longrightarrow> 0 \<le> q \<Longrightarrow> q \<le> reserved (snapshot l u p) \<Longrightarrow>
   release u p q a l = Inr (post u p q (- q) 0 Cause_release a l)"
  by (simp add: release_def)

lemma moved_by_post:
  "moved_by l [(u, p, q)] s (post u p (- s * q) (s * q) 0 c a l)"
  by (simp add: moved_by_def post_fields snapshot_post)

lemma valid_reservations_Cons:
  "valid_reservations l ((u, p, q) # rs) \<longleftrightarrow> 0 \<le> q \<and> layout l u \<noteq> None \<and> valid_reservations l rs"
  by (simp add: valid_reservations_def)

lemma valid_reservations_append [simp]:
  "valid_reservations l (xs @ ys) \<longleftrightarrow> valid_reservations l xs \<and> valid_reservations l ys"
  by (simp add: valid_reservations_def ball_Un)

lemma valid_reservations_Nil [simp]: "valid_reservations l []"
  by (simp add: valid_reservations_def)

lemma valid_reservations_post [simp]:
  "valid_reservations (post u p da dr dt c a l) rs = valid_reservations l rs"
  by (simp add: valid_reservations_def post_fields)

text \<open>What \<open>reserve_items\<close> has done when it stops, successfully or not.\<close>

lemma reserve_items_moves:
  assumes "reserve_items a cs its acc l = Inr (acc', l') \<or> reserve_items a cs its acc l = Inl (i, acc', l')"
  shows "\<exists>new. acc' = new @ acc \<and> valid_reservations l new \<and> moved_by l new 1 l'"
  using assms
proof (induction a cs its acc l rule: reserve_items.induct)
  case (1 a cs acc l)
  then show ?case by (auto intro: exI [of _ "[]"])
next
  case (2 a cs j it its acc l)
  show ?case
  proof (cases "oi_is_processed it")
    case True
    with 2 show ?thesis by simp
  next
    case False
    show ?thesis
    proof (cases "route l cs (oi_product it) (oi_quantity it)")
      case None
      with 2 False show ?thesis by (auto intro: exI [of _ "[]"])
    next
      case (Some u)
      show ?thesis
      proof (cases "reserve u (oi_product it) (oi_quantity it) a l")
        case (Inl e)
        with 2 False Some show ?thesis by (auto intro: exI [of _ "[]"])
      next
        case (Inr l1)
        let ?r = "(u, oi_product it, oi_quantity it)"
        note r = reserve_Inr [OF Inr]
        from 2 False Some Inr obtain new where
          acc': "acc' = new @ ?r # acc" and v: "valid_reservations l1 new" and m: "moved_by l1 new 1 l'"
          by auto
        have "valid_reservations l new"
          using v by (simp add: r(1))
        then have "valid_reservations l (new @ [?r])"
          using r(2,3) by (simp add: valid_reservations_def)
        moreover have "moved_by l (new @ [?r]) 1 l'"
          using moved_by_post [of l u "oi_product it" "oi_quantity it" 1] m r(1)
          by (auto intro: moved_by_trans)
        ultimately show ?thesis using acc' by (intro exI [of _ "new @ [?r]"]) simp
      qed
    qed
  qed
qed

text \<open>Releasing reservations that are all still held succeeds and gives them back.\<close>

lemma release_all_moves:
  assumes "valid_reservations l rs" and "\<forall>u p. held rs u p \<le> reserved (snapshot l u p)"
  shows "\<exists>l'. release_all a rs l = Inr l' \<and> moved_by l (rev rs) (- 1) l'"
  using assms
proof (induction rs arbitrary: l)
  case Nil
  then show ?case by simp
next
  case (Cons r rs)
  obtain u p q where r: "r = (u, p, q)" by (cases r) auto
  have v: "0 \<le> q" "layout l u \<noteq> None" "valid_reservations l rs"
    using Cons.prems(1) by (simp_all add: r valid_reservations_Cons)
  have "q \<le> reserved (snapshot l u p)"
    using Cons.prems(2) [rule_format, of u p] held_nonneg [OF v(3), of u p] by (simp add: r)
  then have rel: "release u p q a l = Inr (post u p q (- q) 0 Cause_release a l)"
    using v by (simp add: release_Inr)
  let ?l1 = "post u p q (- q) 0 Cause_release a l"
  have "valid_reservations ?l1 rs"
    using v(3) by simp
  moreover have "\<forall>u' p'. held rs u' p' \<le> reserved (snapshot ?l1 u' p')"
  proof (intro allI)
    fix u' p'
    have h: "held ((u, p, q) # rs) u' p' \<le> reserved (snapshot l u' p')"
      using Cons.prems(2) by (simp add: r)
    show "held rs u' p' \<le> reserved (snapshot ?l1 u' p')"
    proof (cases "(u', p') = (u, p)")
      case True
      with h show ?thesis by (simp add: snapshot_post)
    next
      case False
      then have "snapshot ?l1 u' p' = snapshot l u' p'" "held ((u, p, q) # rs) u' p' = held rs u' p'"
        by (auto simp: snapshot_post)
      with h show ?thesis by simp
    qed
  qed
  ultimately have "\<exists>l'. release_all a rs ?l1 = Inr l' \<and> moved_by ?l1 (rev rs) (- 1) l'"
    by (rule Cons.IH)
  then obtain l' where l': "release_all a rs ?l1 = Inr l'" and m: "moved_by ?l1 (rev rs) (- 1) l'"
    by blast
  have "moved_by l [(u, p, q)] (- 1) ?l1"
    using moved_by_post [of l u p q "- 1"] by simp
  from this m have "moved_by l (rev rs @ [(u, p, q)]) (- 1) l'" by (rule moved_by_trans)
  with l' rel show ?case by (simp add: r)
qed

lemma reachable_reserve:
  "ledger_reachable us l \<Longrightarrow> reserve u p q a l = Inr l' \<Longrightarrow> ledger_reachable us l'"
  using ledger_reachable.step [of us l a "Reserve u p q" l'] by simp

lemma reachable_release:
  "ledger_reachable us l \<Longrightarrow> release u p q a l = Inr l' \<Longrightarrow> ledger_reachable us l'"
  using ledger_reachable.step [of us l a "Release u p q" l'] by simp

lemma reserve_items_reachable:
  assumes "reserve_items a cs its acc l = Inr (acc', l') \<or> reserve_items a cs its acc l = Inl (i, acc', l')"
    and "ledger_reachable us l"
  shows "ledger_reachable us l'"
  using assms
proof (induction a cs its acc l rule: reserve_items.induct)
  case (1 a cs acc l)
  then show ?case by auto
next
  case (2 a cs j it its acc l)
  show ?case
  proof (cases "\<not> oi_is_processed it \<and> route l cs (oi_product it) (oi_quantity it) \<noteq> None")
    case True
    then obtain u where u: "route l cs (oi_product it) (oi_quantity it) = Some u" by auto
    show ?thesis
    proof (cases "reserve u (oi_product it) (oi_quantity it) a l")
      case (Inl e)
      with 2 True u show ?thesis by auto
    next
      case (Inr l1)
      with 2 True u show ?thesis by (auto intro: reachable_reserve)
    qed
  next
    case False
    with 2 show ?thesis by (auto split: if_splits)
  qed
qed

lemma release_all_reachable:
  "release_all a rs l = Inr l' \<Longrightarrow> ledger_reachable us l \<Longrightarrow> ledger_reachable us l'"
proof (induction a rs l rule: release_all.induct)
  case (1 a l)
  then show ?case by simp
next
  case (2 a u p q rs l)
  then show ?case by (auto split: sum.splits intro: reachable_release)
qed

lemma find_Some_in_set: "find P xs = Some x \<Longrightarrow> x \<in> set xs"
  by (induction xs) (auto split: if_splits)

lemma reserve_items_Inr_items:
  assumes "reserve_items a cs its acc l = Inr (acc', l')"
  shows "\<exists>new. acc' = new @ acc \<and>
           map snd (rev new) =
             map (\<lambda>(i, it). (oi_product it, oi_quantity it)) (filter (\<lambda>(i, it). \<not> oi_is_processed it) its) \<and>
           set (map fst new) \<subseteq> set cs"
  using assms
proof (induction a cs its acc l rule: reserve_items.induct)
  case (1 a cs acc l)
  then show ?case by auto
next
  case (2 a cs j it its acc l)
  show ?case
  proof (cases "oi_is_processed it")
    case True
    with 2 show ?thesis by simp
  next
    case False
    then obtain u l1 where u: "route l cs (oi_product it) (oi_quantity it) = Some u"
      and l1: "reserve u (oi_product it) (oi_quantity it) a l = Inr l1"
      using "2.prems" by (auto split: option.splits sum.splits)
    let ?r = "(u, oi_product it, oi_quantity it)"
    have "reserve_items a cs its (?r # acc) l1 = Inr (acc', l')"
      using "2.prems" False u l1 by simp
    then obtain new where acc': "acc' = new @ ?r # acc"
      and m: "map snd (rev new) =
                map (\<lambda>(i, it). (oi_product it, oi_quantity it)) (filter (\<lambda>(i, it). \<not> oi_is_processed it) its)"
      and c: "set (map fst new) \<subseteq> set cs"
      using "2.IH"(2) [OF False u l1] by blast
    have "u \<in> set cs" using u by (simp add: route_def find_Some_in_set)
    with acc' m c False show ?thesis by (intro exI [of _ "new @ [?r]"]) auto
  qed
qed

lemma moved_by_snapshot:
  "moved_by l rs s l' \<Longrightarrow> snapshot l' u p = shift (snapshot l u p) (- s * held rs u p) (s * held rs u p) 0"
  by (simp add: moved_by_def)

lemma moved_by_layout: "moved_by l rs s l' \<Longrightarrow> layout l' = layout l"
  by (simp add: moved_by_def)

text \<open>Releasing what \<open>reserve_items\<close> reserved, right after it stopped, always
  succeeds and restores every entry.\<close>

lemma release_reserved_restores:
  assumes reach: "ledger_reachable us l"
    and res: "reserve_items a cs its [] l = Inl (i, acc, l1) \<or> reserve_items a cs its [] l = Inr (acc, l1)"
  shows "\<exists>l2. release_all a' acc l1 = Inr l2 \<and> ledger_reachable us l2 \<and>
           (\<forall>u p. snapshot l2 u p = snapshot l u p)"
proof -
  obtain new where acc: "acc = new" and v: "valid_reservations l new" and m: "moved_by l new 1 l1"
    using reserve_items_moves [of a cs its "[]" l acc l1 i] res by auto
  have inv: "ledger_inv l" using reach by (simp add: ledger_reachable_ledger_inv)
  have v1: "valid_reservations l1 acc"
    using v moved_by_layout [OF m] by (simp add: acc valid_reservations_def)
  have "\<forall>u p. held acc u p \<le> reserved (snapshot l1 u p)"
    using moved_by_snapshot [OF m] snapshot_ok [OF inv] by (simp add: acc entry_ok_def)
  then obtain l2 where rel: "release_all a' acc l1 = Inr l2" and m2: "moved_by l1 (rev acc) (- 1) l2"
    using release_all_moves [OF v1] by blast
  have "ledger_reachable us l1"
    using reserve_items_reachable [of a cs its "[]" l acc l1 i] res reach by blast
  then have "ledger_reachable us l2" using rel by (rule release_all_reachable [rotated])
  moreover have "snapshot l2 u p = snapshot l u p" for u p
    using moved_by_snapshot [OF m2, of u p] moved_by_snapshot [OF m, of u p] by (simp add: acc)
  ultimately show ?thesis using rel by blast
qed

lemma reserve_items_skip:
  "\<forall>(j, x) \<in> set before. oi_is_processed x \<Longrightarrow>
   reserve_items a cs (before @ rest) acc l = reserve_items a cs rest acc l"
  by (induction before) auto

lemma mark_processed_idem [simp]: "mark_processed (mark_processed its) = mark_processed its"
  by (simp add: mark_processed_def comp_def split_def)

lemma reserve_items_all_processed:
  "\<forall>(i, it) \<in> set its. oi_is_processed it \<Longrightarrow> reserve_items a cs its acc l = Inr (acc, l)"
  by (induction a cs its acc l rule: reserve_items.induct) auto

lemma process_order_Unfulfillable:
  "process_order a cs its l = Inr (Unfulfillable i, its', l') \<Longrightarrow>
   \<exists>acc l1. reserve_items a cs its [] l = Inl (i, acc, l1) \<and> release_all a acc l1 = Inr l' \<and> its' = its"
  by (auto simp: process_order_def split: sum.splits prod.splits)

lemma process_order_Reserved:
  "process_order a cs its l = Inr (Reserved rs, its', l') \<Longrightarrow>
   \<exists>acc. reserve_items a cs its [] l = Inr (acc, l') \<and> rs = rev acc \<and> its' = mark_processed its"
  by (auto simp: process_order_def split: sum.splits prod.splits)

section \<open>Properties\<close>

text \<open>
  C6. Processing an order against a reachable ledger never fails: it either reserves
  the order or reports it unfulfillable, and the ledger it leaves is again reachable, so
  every ledger invariant holds of it.
\<close>

theorem process_order_total:
  assumes "ledger_reachable us l"
  shows "\<exists>out its' l'. process_order a cs its l = Inr (out, its', l') \<and> ledger_reachable us l'"
proof (cases "reserve_items a cs its [] l")
  case (Inl r)
  then obtain i acc l1 where res: "reserve_items a cs its [] l = Inl (i, acc, l1)"
    by (cases r) auto
  then obtain l2 where "release_all a acc l1 = Inr l2" and "ledger_reachable us l2"
    using release_reserved_restores [OF assms] by blast
  with res show ?thesis by (simp add: process_order_def)
next
  case (Inr r)
  then obtain acc l1 where res: "reserve_items a cs its [] l = Inr (acc, l1)"
    by (cases r) auto
  then have "ledger_reachable us l1"
    using reserve_items_reachable [of a cs its "[]" l acc l1] assms by simp
  with res show ?thesis by (simp add: process_order_def)
qed

theorem process_order_total_witness:
  "\<exists>out its' l'. process_order 9 [1, 2] large_order stocked_ledger = Inr (out, its', l') \<and>
     ledger_reachable example_layout l'"
  by (rule process_order_total [OF example_reachable])

text \<open>
  C3. Reservation is all-or-nothing (spec section 4.2 and the testable property of
  section 8): when an item of the order cannot be reserved, the order's items are left
  unchanged and every stock entry is exactly as before the call.
\<close>

theorem process_order_all_or_nothing:
  assumes "ledger_reachable us l" and "process_order a cs its l = Inr (Unfulfillable i, its', l')"
  shows "its' = its \<and> (\<forall>u p. snapshot l' u p = snapshot l u p)"
proof -
  obtain acc l1 where res: "reserve_items a cs its [] l = Inl (i, acc, l1)"
    and rel: "release_all a acc l1 = Inr l'" and its: "its' = its"
    using process_order_Unfulfillable [OF assms(2)] by blast
  obtain l2 where "release_all a acc l1 = Inr l2" and "\<forall>u p. snapshot l2 u p = snapshot l u p"
    using release_reserved_restores [OF assms(1)] res by blast
  with rel its show ?thesis by simp
qed

theorem process_order_all_or_nothing_witness:
  "\<exists>l'. process_order 9 [1, 2] large_order stocked_ledger = Inr (Unfulfillable 21, large_order, l') \<and>
        snapshot l' 1 2 = snapshot stocked_ledger 1 2"
proof -
  obtain l' where p: "process_order 9 [1, 2] large_order stocked_ledger = Inr (Unfulfillable 21, large_order, l')"
    by (simp add: process_order_def route_def reserve_def release_def new_order_item_def snapshot_post
        post_fields)
  have "snapshot l' 1 2 = snapshot stocked_ledger 1 2"
    using process_order_all_or_nothing [OF example_reachable p] by simp
  with p show ?thesis by (intro exI [of _ l'] conjI)
qed

text \<open>
  C20. A successful reservation reserves exactly the order's unprocessed items, in order,
  each at one of the candidate units: every entry's available stock goes down and its
  reserved stock up by exactly the quantity reserved on it, and every item is marked
  processed.
\<close>

theorem process_order_reserved_effect:
  assumes "process_order a cs its l = Inr (Reserved rs, its', l')"
  shows "its' = mark_processed its \<and>
    map snd rs =
      map (\<lambda>(i, it). (oi_product it, oi_quantity it)) (filter (\<lambda>(i, it). \<not> oi_is_processed it) its) \<and>
    set (map fst rs) \<subseteq> set cs \<and>
    (\<forall>u p. snapshot l' u p = shift (snapshot l u p) (- held rs u p) (held rs u p) 0)"
proof -
  obtain acc where res: "reserve_items a cs its [] l = Inr (acc, l')" and rs: "rs = rev acc"
    and its: "its' = mark_processed its"
    using process_order_Reserved [OF assms] by blast
  obtain new where "acc = new" and m: "moved_by l new 1 l'"
    using reserve_items_moves [of a cs its "[]" l acc l'] res by auto
  moreover obtain new' where "acc = new'"
    and "map snd (rev new') =
           map (\<lambda>(i, it). (oi_product it, oi_quantity it)) (filter (\<lambda>(i, it). \<not> oi_is_processed it) its)"
    and "set (map fst new') \<subseteq> set cs"
    using reserve_items_Inr_items [OF res] by auto
  ultimately show ?thesis
    using its rs moved_by_snapshot [OF m] by auto
qed

theorem process_order_reserved_effect_witness:
  "\<exists>l'. process_order 9 [1, 2] small_order stocked_ledger =
          Inr (Reserved [(1, 2, 3)], mark_processed small_order, l') \<and>
        available (snapshot l' 1 2) = 2 \<and> reserved (snapshot l' 1 2) = 3"
proof -
  obtain l' where p: "process_order 9 [1, 2] small_order stocked_ledger =
                        Inr (Reserved [(1, 2, 3)], mark_processed small_order, l')"
    by (simp add: process_order_def route_def reserve_def new_order_item_def snapshot_post post_fields)
  have "snapshot l' 1 2 = shift (snapshot stocked_ledger 1 2) (- 3) 3 0"
    using process_order_reserved_effect [OF p] by simp
  then have "available (snapshot l' 1 2) = 2 \<and> reserved (snapshot l' 1 2) = 3"
    by (simp add: snapshot_post)
  with p show ?thesis by (intro exI [of _ l'] conjI) simp_all
qed

text \<open>
  C23. Reservation is idempotent (spec section 4.2): processing an order again after it
  was reserved reserves nothing and leaves the items and the ledger as they are.
\<close>

theorem process_order_idempotent:
  assumes "process_order a cs its l = Inr (Reserved rs, its', l')"
  shows "process_order a' cs' its' l' = Inr (Reserved [], its', l')"
proof -
  have its: "its' = mark_processed its"
    using process_order_Reserved [OF assms] by blast
  have "\<forall>(i, it) \<in> set its'. oi_is_processed it"
    by (auto simp: its mark_processed_def)
  then have "reserve_items a' cs' its' [] l' = Inr ([], l')"
    by (rule reserve_items_all_processed)
  then show ?thesis by (simp add: process_order_def its)
qed

theorem process_order_idempotent_witness:
  "\<exists>l'. process_order 9 [1, 2] small_order stocked_ledger =
          Inr (Reserved [(1, 2, 3)], mark_processed small_order, l') \<and>
        process_order 4 [2] (mark_processed small_order) l' =
          Inr (Reserved [], mark_processed small_order, l')"
proof -
  obtain l' where p: "process_order 9 [1, 2] small_order stocked_ledger =
                        Inr (Reserved [(1, 2, 3)], mark_processed small_order, l')"
    by (simp add: process_order_def route_def reserve_def new_order_item_def snapshot_post post_fields)
  have "process_order 4 [2] (mark_processed small_order) l' = Inr (Reserved [], mark_processed small_order, l')"
    by (rule process_order_idempotent [OF p])
  with p show ?thesis by (intro exI [of _ l'] conjI)
qed

text \<open>
  C24. Cancelling an order right after it was reserved releases every reservation: the
  order is cancelled and every stock entry is back to what it was before the order was
  processed. An order that is shipped, delivered, cancelled or returned cannot be
  cancelled.
\<close>

theorem cancel_after_reserve_restores:
  assumes reach: "ledger_reachable us l" and p: "process_order a cs its l = Inr (Reserved rs, its', l')"
  shows "(order_status r \<in> {''new'', ''processing'', ''ready_to_ship''} \<longrightarrow>
           (\<exists>l''. cancel_order a' rs r l' = Inr (r\<lparr>order_status := ''cancelled''\<rparr>, l'') \<and>
              ledger_reachable us l'' \<and> (\<forall>u p. snapshot l'' u p = snapshot l u p))) \<and>
         (order_status r \<notin> {''new'', ''processing'', ''ready_to_ship''} \<longrightarrow>
           cancel_order a' rs r l' = Inl InvalidTransition)"
proof -
  obtain acc where res: "reserve_items a cs its [] l = Inr (acc, l')" and rs: "rs = rev acc"
    using process_order_Reserved [OF p] by blast
  obtain l2 where "release_all a' acc l' = Inr l2" and "ledger_reachable us l2"
    and "\<forall>u p. snapshot l2 u p = snapshot l u p"
    using release_reserved_restores [OF reach] res by blast
  then show ?thesis by (auto simp: cancel_order_def rs)
qed

theorem cancel_after_reserve_restores_witness:
  "\<exists>l' l''. process_order 9 [1, 2] small_order stocked_ledger =
             Inr (Reserved [(1, 2, 3)], mark_processed small_order, l') \<and>
           cancel_order 9 [(1, 2, 3)] (new_order 2 1 ''A-100'' 4500 0) l' =
             Inr ((new_order 2 1 ''A-100'' 4500 0)\<lparr>order_status := ''cancelled''\<rparr>, l'') \<and>
           snapshot l'' 1 2 = snapshot stocked_ledger 1 2"
proof -
  obtain l' where p: "process_order 9 [1, 2] small_order stocked_ledger =
                        Inr (Reserved [(1, 2, 3)], mark_processed small_order, l')"
    by (simp add: process_order_def route_def reserve_def new_order_item_def snapshot_post post_fields)
  have st: "order_status (new_order 2 1 ''A-100'' 4500 0) \<in> {''new'', ''processing'', ''ready_to_ship''}"
    by (simp add: new_order_def)
  obtain l'' where "cancel_order 9 [(1, 2, 3)] (new_order 2 1 ''A-100'' 4500 0) l' =
                      Inr ((new_order 2 1 ''A-100'' 4500 0)\<lparr>order_status := ''cancelled''\<rparr>, l'')"
    and "\<forall>u p. snapshot l'' u p = snapshot stocked_ledger u p"
    using cancel_after_reserve_restores [OF example_reachable p] st by blast
  with p show ?thesis by blast
qed

text \<open>
  An order whose first unprocessed item cannot be routed to any candidate unit is
  reported unfulfillable at that item with no ledger call at all: the ledger, its
  movement log included, is unchanged (spec section 8, last scenario).
\<close>

theorem unroutable_item_records_nothing:
  assumes "\<forall>(j, x) \<in> set before. oi_is_processed x" and "\<not> oi_is_processed it"
    and "route l cs (oi_product it) (oi_quantity it) = None"
  shows "process_order a cs (before @ (i, it) # after) l =
           Inr (Unfulfillable i, before @ (i, it) # after, l)"
  using assms by (simp add: process_order_def reserve_items_skip)

theorem unroutable_item_records_nothing_witness:
  "process_order 9 [1, 2] [(30, new_order_item 11 3 2 990 0)] stocked_ledger =
     Inr (Unfulfillable 30, [(30, new_order_item 11 3 2 990 0)], stocked_ledger)"
proof -
  have "route stocked_ledger [1, 2] (oi_product (new_order_item 11 3 2 990 0))
          (oi_quantity (new_order_item 11 3 2 990 0)) = None"
    by (simp add: route_def new_order_item_def snapshot_post)
  then show ?thesis
    using unroutable_item_records_nothing [of "[]" "new_order_item 11 3 2 990 0" stocked_ledger "[1, 2]"
        9 30 "[]"]
    by (simp add: new_order_item_def)
qed

end
