(* ===== verification/SupplyPipeline.thy ===== *)
theory SupplyPipeline
  imports Ledger Supplies
begin

text \<open>
  The Supply Receiving Pipeline of spec section 4.3, modelled from the spec over the
  source's \<open>Supply\<close> and \<open>SupplyItem\<close> rows and the ledger. The supply's \<open>status\<close> field
  follows the state machine \<open>draft \<rightarrow> pending \<rightarrow> approved \<rightarrow> in_transit \<rightarrow> received\<close>, with
  \<open>cancelled\<close> from every non-terminal state. Approval checks that the destination
  storage unit can take the outstanding quantity (\<open>CapacityExceeded\<close> otherwise).
  A receipt for an item that is complete fails with \<open>OverReceipt\<close> whatever its
  quantity (spec section 8); otherwise a receipt books at most the item's remaining
  quantity into the ledger
  (\<open>Ledger.receive\<close>) and adds it to \<open>quantity_received\<close>; when every item is complete
  the supply becomes \<open>received\<close> by itself. A force-close ends an in-transit supply and
  records each item's shortfall.
\<close>

record supply_state =
  sp_supply :: supply_rec
  sp_items :: "(obj_id \<times> supply_item) list"
  sp_ledger :: ledger
  sp_shortfalls :: "(obj_id \<times> int) list"

datatype supply_cmd =
    Supply_submit
  | Supply_approve
  | Supply_dispatch
  | Supply_cancel
  | Supply_receive obj_id int
  | Supply_force_close

definition supply_state_status :: "supply_state \<Rightarrow> supply_status option" where
  "supply_state_status st = supply_status_of (sup_status (sp_supply st))"

definition set_supply_status :: "supply_status \<Rightarrow> supply_state \<Rightarrow> supply_state" where
  "set_supply_status s st = st\<lparr>sp_supply := (sp_supply st)\<lparr>sup_status := supply_status_value s\<rparr>\<rparr>"

definition remaining :: "supply_item \<Rightarrow> int" where
  "remaining it = si_quantity it - si_quantity_received it"

definition outstanding :: "(obj_id \<times> supply_item) list \<Rightarrow> int" where
  "outstanding its = sum_list (map (\<lambda>(i, it). remaining it) its)"

definition all_received :: "(obj_id \<times> supply_item) list \<Rightarrow> bool" where
  "all_received its \<longleftrightarrow> list_all (\<lambda>(i, it). si_quantity_received it = si_quantity it) its"

definition book_receipt :: "obj_id \<Rightarrow> int \<Rightarrow> (obj_id \<times> supply_item) list \<Rightarrow> (obj_id \<times> supply_item) list" where
  "book_receipt i q its =
     map (\<lambda>(j, x). (j, if j = i then x\<lparr>si_quantity_received := si_quantity_received x + q\<rparr> else x)) its"

definition shortfalls_of :: "(obj_id \<times> supply_item) list \<Rightarrow> (obj_id \<times> int) list" where
  "shortfalls_of its = map (\<lambda>(i, it). (i, remaining it)) (filter (\<lambda>(i, it). 0 < remaining it) its)"

text \<open>One command on a supply whose destination storage unit is \<open>u\<close>, by actor \<open>a\<close>.\<close>

fun supply_step :: "obj_id \<Rightarrow> obj_id \<Rightarrow> supply_cmd \<Rightarrow> supply_state \<Rightarrow> wms_error + supply_state" where
  "supply_step a u Supply_submit st =
     (if supply_state_status st = Some Supply_draft then Inr (set_supply_status Supply_pending st)
      else Inl InvalidTransition)"
| "supply_step a u Supply_approve st =
     (if supply_state_status st \<noteq> Some Supply_pending then Inl InvalidTransition
      else if \<not> fits (sp_ledger st) u (outstanding (sp_items st)) then Inl CapacityExceeded
      else Inr (set_supply_status Supply_approved st))"
| "supply_step a u Supply_dispatch st =
     (if supply_state_status st = Some Supply_approved then Inr (set_supply_status Supply_in_transit st)
      else Inl InvalidTransition)"
| "supply_step a u Supply_cancel st =
     (if supply_state_status st \<in> Some ` {Supply_draft, Supply_pending, Supply_approved, Supply_in_transit}
      then Inr (set_supply_status Supply_cancelled st)
      else Inl InvalidTransition)"
| "supply_step a u (Supply_receive i q) st =
     (case map_of (sp_items st) i of
        None \<Rightarrow> Inl NotFound
      | Some it \<Rightarrow>
          if remaining it \<le> 0 then Inl OverReceipt
          else if q < 0 then Inl NegativeQuantity
          else if remaining it < q then Inl OverReceipt
          else if supply_state_status st \<noteq> Some Supply_in_transit then Inl InvalidTransition
          else (case receive u (si_product it) q False a (sp_ledger st) of
                  Inl e \<Rightarrow> Inl e
                | Inr l' \<Rightarrow>
                    (let st' = st\<lparr>sp_items := book_receipt i q (sp_items st), sp_ledger := l'\<rparr>
                     in if all_received (sp_items st') then Inr (set_supply_status Supply_received st')
                        else Inr st')))"
| "supply_step a u Supply_force_close st =
     (if supply_state_status st = Some Supply_in_transit
      then Inr (set_supply_status Supply_received (st\<lparr>sp_shortfalls := shortfalls_of (sp_items st)\<rparr>))
      else Inl InvalidTransition)"

text \<open>The states a supply reaches from its creation, with any actors.\<close>

inductive supply_reachable :: "obj_id \<Rightarrow> supply_state \<Rightarrow> supply_state \<Rightarrow> bool" for u st0 where
  start: "supply_reachable u st0 st0"
| step: "supply_reachable u st0 st \<Longrightarrow> supply_step a u c st = Inr st' \<Longrightarrow> supply_reachable u st0 st'"

text \<open>A supply as created: status \<open>draft\<close>, items with nothing received, no shortfall.\<close>

definition fresh_supply :: "supply_state \<Rightarrow> bool" where
  "fresh_supply st \<longleftrightarrow>
     supply_state_status st = Some Supply_draft \<and> sp_shortfalls st = [] \<and>
     (\<forall>(i, it) \<in> set (sp_items st). 0 \<le> si_quantity it \<and> si_quantity_received it = 0)"

definition supply_inv :: "(obj_id \<rightharpoonup> storage_unit) \<Rightarrow> supply_state \<Rightarrow> bool" where
  "supply_inv us st \<longleftrightarrow>
     ledger_reachable us (sp_ledger st) \<and> supply_state_status st \<noteq> None \<and> distinct (map fst (sp_items st)) \<and>
     (\<forall>(i, it) \<in> set (sp_items st). 0 \<le> si_quantity_received it \<and> si_quantity_received it \<le> si_quantity it) \<and>
     (supply_state_status st = Some Supply_received \<longrightarrow>
        (\<forall>(i, it) \<in> set (sp_items st).
           si_quantity_received it = si_quantity it \<or> (i, remaining it) \<in> set (sp_shortfalls st)))"

text \<open>Example: a new supply of 50 items of product 2 into shelf 2 of the example layout.\<close>

abbreviation example_supply :: supply_state where
  "example_supply \<equiv>
     \<lparr>sp_supply = new_supply 1 3 3 20 ''09:00-12:00'' 0, sp_items = [(40, new_supply_item 30 2 50 0)],
      sp_ledger = init_ledger example_layout, sp_shortfalls = []\<rparr>"

text \<open>
  A sequence of commands on one supply, stopping at the first error; and the receipts a
  dispatched supply still expects: each incomplete item's remaining quantity, in item
  order.
\<close>

fun run_supply :: "obj_id \<Rightarrow> obj_id \<Rightarrow> supply_cmd list \<Rightarrow> supply_state \<Rightarrow> wms_error + supply_state" where
  "run_supply a u [] st = Inr st"
| "run_supply a u (c # cs) st =
     (case supply_step a u c st of Inl e \<Rightarrow> Inl e | Inr st' \<Rightarrow> run_supply a u cs st')"

definition receipts_due :: "(obj_id \<times> supply_item) list \<Rightarrow> supply_cmd list" where
  "receipts_due its =
     map (\<lambda>(i, it). Supply_receive i (remaining it)) (filter (\<lambda>(i, it). 0 < remaining it) its)"

section \<open>Lemmas\<close>

lemma supply_status_set [simp]: "supply_state_status (set_supply_status s st) = Some s"
  by (simp add: supply_state_status_def set_supply_status_def)

lemma set_supply_status_fields [simp]:
  "sp_items (set_supply_status s st) = sp_items st"
  "sp_ledger (set_supply_status s st) = sp_ledger st"
  "sp_shortfalls (set_supply_status s st) = sp_shortfalls st"
  by (simp_all add: set_supply_status_def)

lemma map_fst_book_receipt [simp]: "map fst (book_receipt i q its) = map fst its"
  by (simp add: book_receipt_def comp_def split_def)

lemma in_book_receipt:
  "(j, y) \<in> set (book_receipt i q its) \<longleftrightarrow>
   (\<exists>x. (j, x) \<in> set its \<and> y = (if j = i then x\<lparr>si_quantity_received := si_quantity_received x + q\<rparr> else x))"
  unfolding book_receipt_def by force

lemma map_of_distinct_row:
  "distinct (map fst its) \<Longrightarrow> map_of its i = Some it \<Longrightarrow> (i, x) \<in> set its \<Longrightarrow> x = it"
  by (metis map_of_is_SomeI option.inject)

lemma all_received_iff:
  "all_received its \<longleftrightarrow> (\<forall>(i, it) \<in> set its. si_quantity_received it = si_quantity it)"
  by (simp add: all_received_def list_all_iff)

lemma in_shortfalls_of:
  "(i, it) \<in> set its \<Longrightarrow> 0 < remaining it \<Longrightarrow> (i, remaining it) \<in> set (shortfalls_of its)"
  by (force simp: shortfalls_of_def)

lemma receive_external_reachable:
  "ledger_reachable us l \<Longrightarrow> receive u p q False a l = Inr l' \<Longrightarrow> ledger_reachable us l'"
  using ledger_reachable.step [of us l a "Receive u p q False" l'] by simp

lemma supply_status_update [simp]:
  "supply_state_status (st\<lparr>sp_items := its, sp_ledger := l\<rparr>) = supply_state_status st"
  "supply_state_status (st\<lparr>sp_shortfalls := sh\<rparr>) = supply_state_status st"
  by (simp_all add: supply_state_status_def)

lemma supply_inv_status_change:
  assumes "supply_inv us st" and "s \<noteq> Supply_received"
  shows "supply_inv us (set_supply_status s st)"
  using assms by (simp add: supply_inv_def)

lemma supply_inv_receive:
  assumes inv: "supply_inv us st" and st: "supply_step a u (Supply_receive i q) st = Inr st'"
  shows "supply_inv us st'"
proof -
  obtain it l' where it: "map_of (sp_items st) i = Some it" and q: "0 \<le> q" "q \<le> remaining it"
    and tr: "supply_state_status st = Some Supply_in_transit"
    and rc: "receive u (si_product it) q False a (sp_ledger st) = Inr l'"
    and st': "st' = (let st1 = st\<lparr>sp_items := book_receipt i q (sp_items st), sp_ledger := l'\<rparr>
                     in if all_received (sp_items st1) then set_supply_status Supply_received st1 else st1)"
    using st by (auto split: option.splits if_splits sum.splits simp: Let_def)
  let ?st1 = "st\<lparr>sp_items := book_receipt i q (sp_items st), sp_ledger := l'\<rparr>"
  have dist: "distinct (map fst (sp_items st))" using inv by (simp add: supply_inv_def)
  have lr: "ledger_reachable us l'"
    using receive_external_reachable [OF _ rc] inv by (simp add: supply_inv_def)
  have items: "\<forall>(j, y) \<in> set (book_receipt i q (sp_items st)).
      0 \<le> si_quantity_received y \<and> si_quantity_received y \<le> si_quantity y"
  proof (clarsimp simp: in_book_receipt)
    fix j x assume jx: "(j, x) \<in> set (sp_items st)"
    then have b: "0 \<le> si_quantity_received x \<and> si_quantity_received x \<le> si_quantity x"
      using inv by (auto simp: supply_inv_def)
    show "(j = i \<longrightarrow> 0 \<le> si_quantity_received x + q \<and> si_quantity_received x + q \<le> si_quantity x) \<and>
          (j \<noteq> i \<longrightarrow> 0 \<le> si_quantity_received x \<and> si_quantity_received x \<le> si_quantity x)"
      using b q map_of_distinct_row [OF dist it, of x] jx by (auto simp: remaining_def)
  qed
  have inv1: "ledger_reachable us l' \<and> supply_state_status ?st1 \<noteq> None \<and> distinct (map fst (sp_items ?st1)) \<and>
      (\<forall>(j, y) \<in> set (sp_items ?st1). 0 \<le> si_quantity_received y \<and> si_quantity_received y \<le> si_quantity y)"
    using lr items tr dist by simp
  show ?thesis
  proof (cases "all_received (sp_items ?st1)")
    case True
    then show ?thesis using st' inv1 by (auto simp: supply_inv_def all_received_iff Let_def)
  next
    case False
    then show ?thesis using st' inv1 tr by (simp add: supply_inv_def Let_def)
  qed
qed

lemma supply_inv_force_close:
  assumes inv: "supply_inv us st" and st: "supply_step a u Supply_force_close st = Inr st'"
  shows "supply_inv us st'"
proof -
  have st': "st' = set_supply_status Supply_received (st\<lparr>sp_shortfalls := shortfalls_of (sp_items st)\<rparr>)"
    and tr: "supply_state_status st = Some Supply_in_transit"
    using st by (auto split: if_splits)
  have "si_quantity_received it = si_quantity it \<or> (i, remaining it) \<in> set (shortfalls_of (sp_items st))"
    if "(i, it) \<in> set (sp_items st)" for i it
  proof (cases "0 < remaining it")
    case True
    with that show ?thesis by (simp add: in_shortfalls_of)
  next
    case False
    with that inv show ?thesis by (fastforce simp: supply_inv_def remaining_def)
  qed
  with inv tr show ?thesis by (auto simp: st' supply_inv_def)
qed

lemma supply_step_keeps_inv:
  assumes "supply_inv us st" and "supply_step a u c st = Inr st'"
  shows "supply_inv us st'"
proof (cases c)
  case (Supply_receive i q)
  with assms show ?thesis using supply_inv_receive by blast
next
  case Supply_force_close
  with assms show ?thesis using supply_inv_force_close by blast
qed (use assms in \<open>auto split: if_splits intro: supply_inv_status_change\<close>)

lemma fresh_supply_inv:
  "fresh_supply st \<Longrightarrow> distinct (map fst (sp_items st)) \<Longrightarrow> ledger_reachable us (sp_ledger st) \<Longrightarrow>
   supply_inv us st"
  by (fastforce simp: fresh_supply_def supply_inv_def)

lemma fits_mono: "fits l u Q \<Longrightarrow> q \<le> Q \<Longrightarrow> fits l u q"
  by (auto simp: fits_def split: option.splits)

lemma fits_post: "fits l u (q + Q) \<Longrightarrow> fits (post u p q 0 0 c a l) u Q"
  by (auto simp: fits_def post_fields split: option.splits)

lemma map_of_book_receipt:
  "map_of (book_receipt i q its) j =
     map_option (\<lambda>x. if j = i then x\<lparr>si_quantity_received := si_quantity_received x + q\<rparr> else x) (map_of its j)"
  by (induction its) (auto simp: book_receipt_def)

text \<open>
  Progress of the receipts: on a dispatched supply whose other items are complete, the
  receipts of the pending items' remaining quantities all succeed when the destination
  can take their sum, and the last one moves the supply to \<open>received\<close>.
\<close>

lemma run_receipts:
  assumes "distinct (map fst ps)" and "ps \<noteq> []"
    and "\<forall>(i, it) \<in> set ps. map_of (sp_items st) i = Some it \<and> 0 < remaining it"
    and "supply_state_status st = Some Supply_in_transit"
    and "fits (sp_ledger st) u (sum_list (map (\<lambda>(i, it). remaining it) ps))"
    and "\<forall>(i, it) \<in> set (sp_items st). i \<notin> fst ` set ps \<longrightarrow> si_quantity_received it = si_quantity it"
    and "distinct (map fst (sp_items st))"
  shows "\<exists>st'. run_supply a u (map (\<lambda>(i, it). Supply_receive i (remaining it)) ps) st = Inr st' \<and>
           supply_state_status st' = Some Supply_received \<and> all_received (sp_items st')"
  using assms
proof (induction ps arbitrary: st)
  case Nil
  then show ?case by simp
next
  case (Cons y ps)
  obtain i it where y: "y = (i, it)" by (cases y)
  let ?q = "remaining it"
  have it: "map_of (sp_items st) i = Some it" and q: "0 < ?q" using Cons.prems(3) y by auto
  have rest_pos: "0 \<le> sum_list (map (\<lambda>(i, it). remaining it) ps)"
    using Cons.prems(3) by (intro sum_list_nonneg) fastforce
  have fit: "fits (sp_ledger st) u (?q + sum_list (map (\<lambda>(i, it). remaining it) ps))"
    using Cons.prems(5) y by simp
  then have "fits (sp_ledger st) u ?q" by (rule fits_mono) (simp add: rest_pos)
  then have lay: "layout (sp_ledger st) u \<noteq> None" by (auto simp: fits_def split: option.splits)
  define l' where "l' = post u (si_product it) ?q 0 0 Cause_receive a (sp_ledger st)"
  define st1 where "st1 = st\<lparr>sp_items := book_receipt i ?q (sp_items st), sp_ledger := l'\<rparr>"
  have rc: "receive u (si_product it) ?q False a (sp_ledger st) = Inr l'"
    using lay q \<open>fits (sp_ledger st) u ?q\<close> by (simp add: receive_def l'_def)
  have m1: "map_of (sp_items st1) j = (if j = i then Some (it\<lparr>si_quantity_received := si_quantity it\<rparr>)
      else map_of (sp_items st) j)" for j
    using it by (simp add: st1_def map_of_book_receipt remaining_def option.map_ident)
  have done1: "all_received (sp_items st1) \<longleftrightarrow> ps = []"
  proof
    assume "all_received (sp_items st1)"
    show "ps = []"
    proof (rule ccontr)
      assume "ps \<noteq> []"
      then obtain j jt where j: "(j, jt) \<in> set ps" by (cases ps) auto
      with Cons.prems(1) y have "j \<noteq> i" by force
      have "map_of (sp_items st) j = Some jt" and pos: "0 < remaining jt" using j Cons.prems(3) by auto
      with \<open>j \<noteq> i\<close> m1 [of j] have "(j, jt) \<in> set (sp_items st1)" by (simp add: map_of_SomeD)
      with pos \<open>all_received (sp_items st1)\<close> show False by (auto simp: all_received_iff remaining_def)
    qed
  next
    assume "ps = []"
    show "all_received (sp_items st1)"
      unfolding all_received_iff
    proof (clarsimp simp: st1_def in_book_receipt)
      fix j x assume jx: "(j, x) \<in> set (sp_items st)"
      show "(j = i \<longrightarrow> si_quantity_received x + ?q = si_quantity x) \<and>
            (j \<noteq> i \<longrightarrow> si_quantity_received x = si_quantity x)"
        using map_of_distinct_row [OF Cons.prems(7) it, of x] Cons.prems(6) \<open>ps = []\<close> y jx
        by (auto simp: remaining_def)
    qed
  qed
  show ?case
  proof (cases "ps = []")
    case True
    then show ?thesis
      using it q rc Cons.prems(4) done1 y by (simp add: st1_def Let_def)
  next
    case False
    have step: "supply_step a u (Supply_receive i ?q) st = Inr st1"
      using it q rc Cons.prems(4) done1 False by (simp add: st1_def Let_def)
    have "\<exists>st'. run_supply a u (map (\<lambda>(i, it). Supply_receive i (remaining it)) ps) st1 = Inr st' \<and>
        supply_state_status st' = Some Supply_received \<and> all_received (sp_items st')"
    proof (rule Cons.IH)
      show "distinct (map fst ps)" using Cons.prems(1) by simp
      show "ps \<noteq> []" by (rule False)
      show "\<forall>(j, jt) \<in> set ps. map_of (sp_items st1) j = Some jt \<and> 0 < remaining jt"
        using Cons.prems(1,3) y m1 by force
      show "supply_state_status st1 = Some Supply_in_transit" using Cons.prems(4) by (simp add: st1_def)
      show "fits (sp_ledger st1) u (sum_list (map (\<lambda>(i, it). remaining it) ps))"
        using fit by (simp add: st1_def l'_def fits_post)
      show "\<forall>(j, jt) \<in> set (sp_items st1). j \<notin> fst ` set ps \<longrightarrow> si_quantity_received jt = si_quantity jt"
      proof (clarsimp simp: st1_def in_book_receipt)
        fix j x assume jx: "(j, x) \<in> set (sp_items st)" and "j \<notin> fst ` set ps"
        then show "(j = i \<longrightarrow> si_quantity_received x + ?q = si_quantity x) \<and>
              (j \<noteq> i \<longrightarrow> si_quantity_received x = si_quantity x)"
          using map_of_distinct_row [OF Cons.prems(7) it, of x] Cons.prems(6) y
          by (auto simp: remaining_def)
      qed
      show "distinct (map fst (sp_items st1))" using Cons.prems(7) by (simp add: st1_def)
    qed
    with step y show ?thesis by simp
  qed
qed

section \<open>Properties\<close>

text \<open>
  C8. Every state a supply reaches from its creation keeps the pipeline's invariant:
  the ledger stays reachable (so the ledger invariants hold), the status is one of the
  choices, every item has received between zero and its planned quantity, and a
  supply is \<open>received\<close> only when every item was received exactly or its shortfall is
  recorded (spec section 4.3: a shortfall is never silently dropped).
\<close>

theorem supply_reachable_inv:
  assumes "supply_reachable u st0 st" and "fresh_supply st0" and "distinct (map fst (sp_items st0))"
    and "ledger_reachable us (sp_ledger st0)"
  shows "supply_inv us st"
  using assms(1)
proof (induction rule: supply_reachable.induct)
  case start
  then show ?case using assms(2-4) by (rule fresh_supply_inv)
next
  case (step st a c st')
  from step.IH step.hyps(2) show ?case by (rule supply_step_keeps_inv)
qed

theorem supply_reachable_inv_witness: "supply_inv example_layout example_supply"
proof (rule supply_reachable_inv [of 2])
  show "supply_reachable 2 example_supply example_supply" by (rule supply_reachable.start)
  show "fresh_supply example_supply"
    by (simp add: fresh_supply_def supply_state_status_def new_supply_def new_supply_item_def
        supply_status_of_def all_supply_statuses_def choice_of_def)
  show "distinct (map fst (sp_items example_supply))" by simp
  show "ledger_reachable example_layout (sp_ledger example_supply)" by (simp add: ledger_reachable.init)
qed

text \<open>
  C18. Receiving makes progress (spec section 4.3): a dispatched supply that satisfies
  the pipeline invariant and still expects stock, whose destination can take the
  outstanding quantity -- the condition its approval checked -- reaches \<open>received\<close>
  by the receipts of each incomplete item's remaining quantity: every one of them
  succeeds, and afterwards every item is received in full.
\<close>

theorem supply_receipts_complete:
  assumes inv: "supply_inv us st" and tr: "supply_state_status st = Some Supply_in_transit"
    and fit: "fits (sp_ledger st) u (outstanding (sp_items st))"
    and due: "\<not> all_received (sp_items st)"
  shows "\<exists>st'. run_supply a u (receipts_due (sp_items st)) st = Inr st' \<and>
           supply_state_status st' = Some Supply_received \<and> all_received (sp_items st')"
proof -
  let ?P = "\<lambda>(i, it). 0 < remaining it"
  let ?ps = "filter ?P (sp_items st)"
  have dist: "distinct (map fst (sp_items st))"
    and bnd: "\<forall>(i, it) \<in> set (sp_items st). 0 \<le> si_quantity_received it \<and> si_quantity_received it \<le> si_quantity it"
    using inv by (simp_all add: supply_inv_def)
  have rem: "0 \<le> remaining it" if "(i, it) \<in> set (sp_items st)" for i it
    using bnd that by (auto simp: remaining_def)
  show ?thesis
    unfolding receipts_due_def
  proof (rule run_receipts)
    show "distinct (map fst ?ps)" using dist by (simp add: distinct_map_filter)
    show "?ps \<noteq> []"
      using due bnd by (fastforce simp: all_received_iff filter_empty_conv remaining_def)
    show "\<forall>(i, it) \<in> set ?ps. map_of (sp_items st) i = Some it \<and> 0 < remaining it"
      using dist by auto
    show "supply_state_status st = Some Supply_in_transit" by (rule tr)
    have "sum_list (map (\<lambda>(i, it). remaining it) ?ps) \<le> outstanding (sp_items st)"
      using sum_list_map_filter_split [of "\<lambda>(i, it). remaining it" "sp_items st" ?P] rem
      by (simp add: outstanding_def) (fastforce intro: sum_list_nonneg)
    with fit show "fits (sp_ledger st) u (sum_list (map (\<lambda>(i, it). remaining it) ?ps))"
      by (rule fits_mono)
    show "\<forall>(i, it) \<in> set (sp_items st). i \<notin> fst ` set ?ps \<longrightarrow> si_quantity_received it = si_quantity it"
    proof (clarify)
      fix i it assume iit: "(i, it) \<in> set (sp_items st)" and "i \<notin> fst ` set ?ps"
      then have "\<not> 0 < remaining it" by (force simp: image_iff)
      with iit bnd show "si_quantity_received it = si_quantity it" by (auto simp: remaining_def)
    qed
    show "distinct (map fst (sp_items st))" by (rule dist)
  qed
qed

theorem supply_receipts_complete_witness:
  "\<exists>st'. run_supply 7 2 (receipts_due (sp_items example_supply))
          (set_supply_status Supply_in_transit example_supply) = Inr st' \<and>
        supply_state_status st' = Some Supply_received \<and> all_received (sp_items st')"
proof -
  have "fresh_supply example_supply"
    by (simp add: fresh_supply_def supply_state_status_def new_supply_def new_supply_item_def
        supply_status_of_def all_supply_statuses_def choice_of_def)
  then have "supply_inv example_layout example_supply"
    by (rule fresh_supply_inv) (simp_all add: ledger_reachable.init)
  then have inv: "supply_inv example_layout (set_supply_status Supply_in_transit example_supply)"
    by (rule supply_inv_status_change) simp
  have fit: "fits (sp_ledger (set_supply_status Supply_in_transit example_supply)) 2
      (outstanding (sp_items (set_supply_status Supply_in_transit example_supply)))"
    by (simp add: fits_def new_storage_unit_def)
  have due: "\<not> all_received (sp_items (set_supply_status Supply_in_transit example_supply))"
    by (simp add: all_received_def new_supply_item_def)
  show ?thesis
    using supply_receipts_complete [OF inv _ fit due, of 7] by simp
qed

end
