(* ===== verification/ShipmentPipeline.thy ===== *)
theory ShipmentPipeline
  imports Reservation Shipments
begin

text \<open>
  The Shipment Consolidation Pipeline of spec section 4.4, modelled from the spec over
  the source's \<open>Shipment\<close>, \<open>ShipmentOrder\<close> and \<open>Order\<close> rows and the ledger. The
  shipment's \<open>status\<close> follows \<open>draft \<rightarrow> pending \<rightarrow> approved \<rightarrow> shipped \<rightarrow> delivered\<close>, with
  \<open>cancelled\<close> from \<open>draft\<close>, \<open>pending\<close> and \<open>approved\<close>. A draft shipment takes orders
  in status \<open>ready_to_ship\<close>, each once, through a \<open>ShipmentOrder\<close> link. Shipping calls
  \<open>Ledger.ship\<close> for every reserved line of every linked order (\<open>lines\<close> gives an order's
  reservations) and marks each link once its order's lines are shipped; this mark is the
  spec's per-link processed flag, which \<open>ShipmentOrder\<close> does not have, so it is kept
  beside the rows (\<open>sh_shipped\<close>). The ledger calls are separate transactions. The spec
  requires the ship-all to be all-or-nothing (sections 5 and 7) but names no ledger
  operation that would return shipped stock to \<open>reserved\<close>; the model therefore checks the
  whole batch of pending lines before the first call (\<open>ship_check\<close>), and the lemmas
  show that a batch that passes cannot fail part-way. When every link is shipped the
  shipment and its orders become \<open>shipped\<close>. Cancelling unlinks the orders, which stay
  \<open>ready_to_ship\<close>, without a ledger call.
\<close>

record shipment_state =
  sh_shipment :: shipment
  sh_links :: "(obj_id \<times> shipment_order) list"
  sh_orders :: "order table"
  sh_shipped :: "obj_id list"
  sh_ledger :: ledger

datatype shipment_cmd =
    Shipment_add obj_id obj_id datetime
  | Shipment_submit
  | Shipment_approve
  | Shipment_ship
  | Shipment_deliver
  | Shipment_cancel

definition shipment_state_status :: "shipment_state \<Rightarrow> shipment_status option" where
  "shipment_state_status st = shipment_status_of (shp_status (sh_shipment st))"

definition set_shipment_status :: "shipment_status \<Rightarrow> shipment_state \<Rightarrow> shipment_state" where
  "set_shipment_status s st = st\<lparr>sh_shipment := (sh_shipment st)\<lparr>shp_status := shipment_status_value s\<rparr>\<rparr>"

fun ship_lines :: "obj_id \<Rightarrow> reservation list \<Rightarrow> ledger \<Rightarrow> wms_error option \<times> ledger" where
  "ship_lines a [] l = (None, l)"
| "ship_lines a ((u, p, q) # rs) l =
     (case ship u p q a l of Inl e \<Rightarrow> (Some e, l) | Inr l' \<Rightarrow> ship_lines a rs l')"

fun ship_links ::
  "obj_id \<Rightarrow> (obj_id \<Rightarrow> reservation list) \<Rightarrow> (obj_id \<times> shipment_order) list \<Rightarrow> shipment_state \<Rightarrow>
   wms_error option \<times> shipment_state" where
  "ship_links a lines [] st = (None, st)"
| "ship_links a lines ((k, so) # ls) st =
     (if k \<in> set (sh_shipped st) then ship_links a lines ls st
      else (case ship_lines a (lines (so_order so)) (sh_ledger st) of
              (Some e, l') \<Rightarrow> (Some e, st\<lparr>sh_ledger := l'\<rparr>)
            | (None, l') \<Rightarrow> ship_links a lines ls (st\<lparr>sh_ledger := l', sh_shipped := k # sh_shipped st\<rparr>)))"

text \<open>The reserved lines of the links not yet shipped.\<close>

definition pending_lines ::
  "(obj_id \<Rightarrow> reservation list) \<Rightarrow> (obj_id \<times> shipment_order) list \<Rightarrow> obj_id list \<Rightarrow> reservation list" where
  "pending_lines lines ls done = concat (map (\<lambda>(k, so). lines (so_order so)) (filter (\<lambda>(k, so). k \<notin> set done) ls))"

text \<open>
  Before the first ledger call, ship-all checks the whole batch of pending lines against
  the ledger: every line's unit exists, no quantity is negative, and each entry holds in
  \<open>reserved\<close> all that the batch takes from it. A failed check returns its error with
  nothing done.
\<close>

definition ship_check :: "ledger \<Rightarrow> reservation list \<Rightarrow> wms_error option" where
  "ship_check l rs =
     (if list_ex (\<lambda>(u, p, q). layout l u = None) rs then Some NotFound
      else if list_ex (\<lambda>(u, p, q). q < 0) rs then Some NegativeQuantity
      else if list_ex (\<lambda>(u, p, q). reserved (snapshot l u p) < held rs u p) rs then Some InsufficientStock
      else None)"

definition set_linked_orders :: "string \<Rightarrow> shipment_state \<Rightarrow> shipment_state" where
  "set_linked_orders v st =
     st\<lparr>sh_orders := map (\<lambda>(i, r). (i, if i \<in> so_order ` snd ` set (sh_links st)
                                        then r\<lparr>order_status := v\<rparr> else r)) (sh_orders st)\<rparr>"

text \<open>One command on shipment \<open>sid\<close> by actor \<open>a\<close>; the result carries the error, if any,
  and the state reached.\<close>

fun shipment_step ::
  "obj_id \<Rightarrow> (obj_id \<Rightarrow> reservation list) \<Rightarrow> obj_id \<Rightarrow> shipment_cmd \<Rightarrow> shipment_state \<Rightarrow>
   wms_error option \<times> shipment_state" where
  "shipment_step a lines sid (Shipment_add k r now) st =
     (if shipment_state_status st \<noteq> Some Shipment_draft then (Some InvalidTransition, st)
      else (case map_of (sh_orders st) r of
              None \<Rightarrow> (Some NotFound, st)
            | Some x \<Rightarrow>
                if order_status x \<noteq> ''ready_to_ship'' then (Some InvalidTransition, st)
                else if list_ex (\<lambda>(j, so). so_order so = r) (sh_links st) then (Some InvalidTransition, st)
                else (None, st\<lparr>sh_links := sh_links st @
                                 [(k, \<lparr>so_shipment = sid, so_order = r, so_created_at = now\<rparr>)]\<rparr>)))"
| "shipment_step a lines sid Shipment_submit st =
     (if shipment_state_status st = Some Shipment_draft then (None, set_shipment_status Shipment_pending st)
      else (Some InvalidTransition, st))"
| "shipment_step a lines sid Shipment_approve st =
     (if shipment_state_status st = Some Shipment_pending then (None, set_shipment_status Shipment_approved st)
      else (Some InvalidTransition, st))"
| "shipment_step a lines sid Shipment_ship st =
     (if shipment_state_status st \<noteq> Some Shipment_approved then (Some InvalidTransition, st)
      else (case ship_check (sh_ledger st) (pending_lines lines (sh_links st) (sh_shipped st)) of
              Some e \<Rightarrow> (Some e, st)
            | None \<Rightarrow>
                (case ship_links a lines (sh_links st) st of
                   (Some e, st') \<Rightarrow> (Some e, st')
                 | (None, st') \<Rightarrow> (None, set_shipment_status Shipment_shipped (set_linked_orders ''shipped'' st')))))"
| "shipment_step a lines sid Shipment_deliver st =
     (if shipment_state_status st = Some Shipment_shipped
      then (None, set_shipment_status Shipment_delivered (set_linked_orders ''delivered'' st))
      else (Some InvalidTransition, st))"
| "shipment_step a lines sid Shipment_cancel st =
     (if shipment_state_status st \<in> Some ` {Shipment_draft, Shipment_pending, Shipment_approved}
      then (None, set_shipment_status Shipment_cancelled (st\<lparr>sh_links := []\<rparr>))
      else (Some InvalidTransition, st))"

text \<open>Examples. An approved shipment (7) from warehouse 3 with one link (50) to order 6,
  whose one line holds three items of product 2 reserved on shelf 1.\<close>

abbreviation example_lines :: "obj_id \<Rightarrow> reservation list" where
  "example_lines \<equiv> (\<lambda>r. if r = 6 then [(1, 2, 3)] else [])"

abbreviation example_shipment :: shipment_state where
  "example_shipment \<equiv>
     \<lparr>sh_shipment = (new_shipment 1 3 20 0)\<lparr>shp_status := ''approved''\<rparr>,
      sh_links = [(50, \<lparr>so_shipment = 7, so_order = 6, so_created_at = 0\<rparr>)],
      sh_orders = [(6, (new_order 2 1 ''A-100'' 4500 0)\<lparr>order_status := ''ready_to_ship''\<rparr>)],
      sh_shipped = [], sh_ledger = post 1 2 (- 3) 3 0 Cause_reserve 9 stocked_ledger\<rparr>"

text \<open>A shelf-2 ledger holding ten items of product 2, of which two orders reserved three
  each, and an approved shipment linking the first of them, whose lines are three of
  product 2 and one of product 5.\<close>

abbreviation two_orders_ledger :: ledger where
  "two_orders_ledger \<equiv>
     post 2 2 (- 3) 3 0 Cause_reserve 7 (post 2 2 (- 3) 3 0 Cause_reserve 7
       (post 2 2 10 0 0 Cause_receive 7 (init_ledger example_layout)))"

abbreviation split_lines :: "obj_id \<Rightarrow> reservation list" where
  "split_lines \<equiv> (\<lambda>r. if r = 6 then [(2, 2, 3), (2, 5, 1)] else [])"

section \<open>Lemmas\<close>

lemma shipment_status_set [simp]: "shipment_state_status (set_shipment_status s st) = Some s"
  by (simp add: shipment_state_status_def set_shipment_status_def)

lemma ship_lines_moves:
  "ship_lines a rs l = (None, l') \<Longrightarrow>
   layout l' = layout l \<and> (\<forall>u p. snapshot l' u p = shift (snapshot l u p) 0 (- held rs u p) 0)"
proof (induction a rs l rule: ship_lines.induct)
  case (1 a l)
  then show ?case by simp
next
  case (2 a u p q rs l)
  then obtain l1 where s: "ship u p q a l = Inr l1" and r: "ship_lines a rs l1 = (None, l')"
    by (auto split: sum.splits)
  have l1: "l1 = post u p 0 (- q) 0 Cause_ship a l"
    using s by (auto simp: ship_def split: if_splits)
  from "2.IH" [OF s r] show ?case by (simp add: l1 post_fields snapshot_post algebra_simps)
qed

lemma pending_lines_Nil [simp]: "pending_lines lines [] done = []"
  by (simp add: pending_lines_def)

lemma pending_lines_Cons:
  "pending_lines lines ((k, so) # ls) done =
     (if k \<in> set done then [] else lines (so_order so)) @ pending_lines lines ls done"
  by (simp add: pending_lines_def)

lemma pending_lines_mark:
  "k \<notin> fst ` set ls \<Longrightarrow> pending_lines lines ls (k # done) = pending_lines lines ls done"
  unfolding pending_lines_def by (induction ls) auto

lemma ship_links_moves:
  assumes "ship_links a lines ls st = (None, st')" and "distinct (map fst ls)"
  shows "sh_links st' = sh_links st \<and> sh_orders st' = sh_orders st \<and> sh_shipment st' = sh_shipment st \<and>
    layout (sh_ledger st') = layout (sh_ledger st) \<and>
    (\<forall>u p. snapshot (sh_ledger st') u p =
       shift (snapshot (sh_ledger st) u p) 0 (- held (pending_lines lines ls (sh_shipped st)) u p) 0)"
  using assms
proof (induction a lines ls st rule: ship_links.induct)
  case (1 a lines st)
  then show ?case by simp
next
  case (2 a lines k so ls st)
  show ?case
  proof (cases "k \<in> set (sh_shipped st)")
    case True
    with 2 show ?thesis by (simp add: pending_lines_Cons)
  next
    case False
    obtain l' where sl: "ship_lines a (lines (so_order so)) (sh_ledger st) = (None, l')"
      and rest: "ship_links a lines ls (st\<lparr>sh_ledger := l', sh_shipped := k # sh_shipped st\<rparr>) = (None, st')"
      using "2.prems"(1) False by (auto split: prod.splits option.splits)
    have k: "k \<notin> fst ` set ls" using "2.prems"(2) by simp
    have ih: "sh_links st' = sh_links st \<and> sh_orders st' = sh_orders st \<and> sh_shipment st' = sh_shipment st \<and>
      layout (sh_ledger st') = layout l' \<and>
      (\<forall>u p. snapshot (sh_ledger st') u p =
         shift (snapshot l' u p) 0 (- held (pending_lines lines ls (sh_shipped st)) u p) 0)"
      using "2.IH"(2) [OF False sl[symmetric] refl rest] "2.prems"(2) by (simp add: pending_lines_mark [OF k])
    with ship_lines_moves [OF sl] False show ?thesis
      by (simp add: pending_lines_Cons algebra_simps)
  qed
qed

lemma ship_check_None:
  "ship_check l rs = None \<longleftrightarrow>
     valid_reservations l rs \<and> (\<forall>(u, p, q) \<in> set rs. held rs u p \<le> reserved (snapshot l u p))"
proof -
  have "ship_check l rs = None \<longleftrightarrow>
          \<not> list_ex (\<lambda>(u, p, q). layout l u = None) rs \<and> \<not> list_ex (\<lambda>(u, p, q). q < 0) rs \<and>
          \<not> list_ex (\<lambda>(u, p, q). reserved (snapshot l u p) < held rs u p) rs"
    by (simp add: ship_check_def)
  then show ?thesis
    by (auto simp: valid_reservations_def list_ex_iff not_less)
qed

text \<open>A batch that passes the check ships line by line without a failure.\<close>

lemma ship_lines_succeeds:
  "valid_reservations l rs \<Longrightarrow> \<forall>(u, p, q) \<in> set rs. held rs u p \<le> reserved (snapshot l u p) \<Longrightarrow>
   fst (ship_lines a rs l) = None"
proof (induction rs arbitrary: l)
  case Nil
  then show ?case by simp
next
  case (Cons x rs)
  obtain u p q where x: "x = (u, p, q)" by (cases x)
  have q: "0 \<le> q" and lay: "layout l u \<noteq> None" and v: "valid_reservations l rs"
    using Cons.prems(1) x by (simp_all add: valid_reservations_Cons)
  have "q + held rs u p \<le> reserved (snapshot l u p)"
    using Cons.prems(2) x by auto
  moreover have "0 \<le> held rs u p" using v by (rule held_nonneg)
  ultimately have sh: "ship u p q a l = Inr (post u p 0 (- q) 0 Cause_ship a l)"
    using q lay by (simp add: ship_def)
  let ?l1 = "post u p 0 (- q) 0 Cause_ship a l"
  have "valid_reservations ?l1 rs" using v by (simp add: valid_reservations_def post_fields)
  moreover have "\<forall>(u', p', q') \<in> set rs. held rs u' p' \<le> reserved (snapshot ?l1 u' p')"
    using Cons.prems(2) x by (fastforce simp: snapshot_post)
  ultimately have "fst (ship_lines a rs ?l1) = None" by (rule Cons.IH)
  then show ?case by (simp add: x sh)
qed

lemma ship_links_succeeds:
  assumes "distinct (map fst ls)"
    and "valid_reservations (sh_ledger st) (pending_lines lines ls (sh_shipped st))"
    and "\<forall>(u, p, q) \<in> set (pending_lines lines ls (sh_shipped st)).
           held (pending_lines lines ls (sh_shipped st)) u p \<le> reserved (snapshot (sh_ledger st) u p)"
  shows "fst (ship_links a lines ls st) = None"
  using assms
proof (induction a lines ls st rule: ship_links.induct)
  case (1 a lines st)
  then show ?case by simp
next
  case (2 a lines k so ls st)
  show ?case
  proof (cases "k \<in> set (sh_shipped st)")
    case True
    with 2 show ?thesis by (simp add: pending_lines_Cons)
  next
    case False
    let ?rs = "lines (so_order so)" and ?P = "pending_lines lines ls (sh_shipped st)"
    have pend: "pending_lines lines ((k, so) # ls) (sh_shipped st) = ?rs @ ?P"
      using False by (simp add: pending_lines_Cons)
    have vr: "valid_reservations (sh_ledger st) ?rs" and vP: "valid_reservations (sh_ledger st) ?P"
      using "2.prems"(2) pend by simp_all
    have cover: "held ?rs u p + held ?P u p \<le> reserved (snapshot (sh_ledger st) u p)"
      if "(u, p, q) \<in> set (?rs @ ?P)" for u p q
      using "2.prems"(3) pend that by fastforce
    have "\<forall>(u, p, q) \<in> set ?rs. held ?rs u p \<le> reserved (snapshot (sh_ledger st) u p)"
    proof (intro ballI, clarify)
      fix u p q assume uq: "(u, p, q) \<in> set ?rs"
      have "held ?rs u p + held ?P u p \<le> reserved (snapshot (sh_ledger st) u p)"
        using cover [of u p q] uq by simp
      moreover have "0 \<le> held ?P u p" by (rule held_nonneg [OF vP])
      ultimately show "held ?rs u p \<le> reserved (snapshot (sh_ledger st) u p)" by simp
    qed
    then have "fst (ship_lines a ?rs (sh_ledger st)) = None" by (rule ship_lines_succeeds [OF vr])
    then obtain l' where sl: "ship_lines a ?rs (sh_ledger st) = (None, l')"
      by (cases "ship_lines a ?rs (sh_ledger st)") simp
    note mv = ship_lines_moves [OF sl]
    let ?st1 = "st\<lparr>sh_ledger := l', sh_shipped := k # sh_shipped st\<rparr>"
    have k: "k \<notin> fst ` set ls" using "2.prems"(1) by simp
    have P1: "pending_lines lines ls (k # sh_shipped st) = ?P" by (rule pending_lines_mark [OF k])
    have "fst (ship_links a lines ls ?st1) = None"
    proof (rule "2.IH"(2) [OF False sl [symmetric] refl])
      show "distinct (map fst ls)" using "2.prems"(1) by simp
      show "valid_reservations (sh_ledger ?st1) (pending_lines lines ls (sh_shipped ?st1))"
        using vP mv by (simp add: P1 valid_reservations_def)
      show "\<forall>(u, p, q) \<in> set (pending_lines lines ls (sh_shipped ?st1)).
              held (pending_lines lines ls (sh_shipped ?st1)) u p \<le> reserved (snapshot (sh_ledger ?st1) u p)"
        using cover mv by (fastforce simp: P1)
    qed
    with False sl show ?thesis by simp
  qed
qed

lemma set_linked_orders_fields [simp]:
  "sh_ledger (set_linked_orders v st) = sh_ledger st"
  "sh_links (set_linked_orders v st) = sh_links st"
  "sh_shipped (set_linked_orders v st) = sh_shipped st"
  "shipment_state_status (set_linked_orders v st) = shipment_state_status st"
  by (simp_all add: set_linked_orders_def shipment_state_status_def)

lemma set_shipment_status_fields [simp]:
  "sh_ledger (set_shipment_status s st) = sh_ledger st"
  "sh_links (set_shipment_status s st) = sh_links st"
  "sh_shipped (set_shipment_status s st) = sh_shipped st"
  by (simp_all add: set_shipment_status_def)

lemmas shipment_eval =
  shipment_state_status_def shipment_status_of_def all_shipment_statuses_def choice_of_def new_shipment_def
  set_shipment_status_def set_linked_orders_def ship_def snapshot_post post_fields pending_lines_def

section \<open>Properties\<close>

text \<open>
  C9. Shipping is exactly-once per link and all-or-nothing (spec sections 4.4, 5 and 8):
  a successful ship call moves out of \<open>reserved\<close> exactly the lines of the links not
  shipped before, once each, marks the shipment \<open>shipped\<close>, and a repeated call changes
  nothing; a ship call that fails leaves the shipment, its links and marks and the ledger
  as they were; and on an approved shipment whose pending lines pass the batch check the
  call succeeds.
\<close>

theorem ship_exactly_once:
  assumes dist: "distinct (map fst (sh_links st))"
  shows "(shipment_step a lines sid Shipment_ship st = (None, st1) \<longrightarrow>
            (\<forall>u p. snapshot (sh_ledger st1) u p =
               shift (snapshot (sh_ledger st) u p) 0 (- held (pending_lines lines (sh_links st) (sh_shipped st)) u p) 0) \<and>
            shipment_state_status st1 = Some Shipment_shipped \<and>
            shipment_step a' lines sid Shipment_ship st1 = (Some InvalidTransition, st1)) \<and>
         (shipment_step a lines sid Shipment_ship st = (Some e, st2) \<longrightarrow> st2 = st) \<and>
         (shipment_state_status st = Some Shipment_approved \<longrightarrow>
            ship_check (sh_ledger st) (pending_lines lines (sh_links st) (sh_shipped st)) = None \<longrightarrow>
            fst (shipment_step a lines sid Shipment_ship st) = None)"
proof -
  have runs: "fst (ship_links a lines (sh_links st) st) = None"
    if "ship_check (sh_ledger st) (pending_lines lines (sh_links st) (sh_shipped st)) = None"
    using that ship_links_succeeds [OF dist] by (simp add: ship_check_None)
  have A: "shipment_step a lines sid Shipment_ship st = (None, st1) \<longrightarrow>
            (\<forall>u p. snapshot (sh_ledger st1) u p =
               shift (snapshot (sh_ledger st) u p) 0 (- held (pending_lines lines (sh_links st) (sh_shipped st)) u p) 0) \<and>
            shipment_state_status st1 = Some Shipment_shipped \<and>
            shipment_step a' lines sid Shipment_ship st1 = (Some InvalidTransition, st1)"
  proof
    assume ok: "shipment_step a lines sid Shipment_ship st = (None, st1)"
    obtain st' where sl: "ship_links a lines (sh_links st) st = (None, st')"
      and st1: "st1 = set_shipment_status Shipment_shipped (set_linked_orders ''shipped'' st')"
      using ok by (auto split: if_splits prod.splits option.splits)
    from ship_links_moves [OF sl dist] show "(\<forall>u p. snapshot (sh_ledger st1) u p =
        shift (snapshot (sh_ledger st) u p) 0 (- held (pending_lines lines (sh_links st) (sh_shipped st)) u p) 0) \<and>
        shipment_state_status st1 = Some Shipment_shipped \<and>
        shipment_step a' lines sid Shipment_ship st1 = (Some InvalidTransition, st1)"
      by (simp add: st1)
  qed
  have B: "shipment_step a lines sid Shipment_ship st = (Some e, st2) \<longrightarrow> st2 = st"
  proof
    assume r: "shipment_step a lines sid Shipment_ship st = (Some e, st2)"
    show "st2 = st"
    proof (cases "ship_check (sh_ledger st) (pending_lines lines (sh_links st) (sh_shipped st))")
      case None
      with runs r show ?thesis by (auto split: if_splits prod.splits)
    next
      case (Some e')
      with r show ?thesis by (auto split: if_splits)
    qed
  qed
  have C: "shipment_state_status st = Some Shipment_approved \<longrightarrow>
            ship_check (sh_ledger st) (pending_lines lines (sh_links st) (sh_shipped st)) = None \<longrightarrow>
            fst (shipment_step a lines sid Shipment_ship st) = None"
  proof (intro impI)
    assume ap: "shipment_state_status st = Some Shipment_approved"
      and ck: "ship_check (sh_ledger st) (pending_lines lines (sh_links st) (sh_shipped st)) = None"
    obtain st' where "ship_links a lines (sh_links st) st = (None, st')"
      using runs [OF ck] by (cases "ship_links a lines (sh_links st) st") simp
    with ap ck show "fst (shipment_step a lines sid Shipment_ship st) = None" by simp
  qed
  show ?thesis by (rule conjI [OF A conjI [OF B C]])
qed

theorem ship_exactly_once_witness:
  "(\<exists>st1. shipment_step 9 example_lines 7 Shipment_ship example_shipment = (None, st1) \<and>
     reserved (snapshot (sh_ledger st1) 1 2) = 0 \<and>
     shipment_step 4 example_lines 7 Shipment_ship st1 = (Some InvalidTransition, st1)) \<and>
   shipment_step 9 example_lines 7 Shipment_ship (example_shipment\<lparr>sh_ledger := stocked_ledger\<rparr>) =
     (Some InsufficientStock, example_shipment\<lparr>sh_ledger := stocked_ledger\<rparr>)"
proof -
  have dist: "distinct (map fst (sh_links example_shipment))" by simp
  obtain st1 where ok: "shipment_step 9 example_lines 7 Shipment_ship example_shipment = (None, st1)"
    by (simp add: shipment_eval ship_check_def)
  have p1: "reserved (snapshot (sh_ledger st1) 1 2) = 0 \<and>
        shipment_step 4 example_lines 7 Shipment_ship st1 = (Some InvalidTransition, st1)"
    using ship_exactly_once [OF dist, of 9 example_lines 7 st1 4] ok by (simp add: shipment_eval)
  have d2: "distinct (map fst (sh_links (example_shipment\<lparr>sh_ledger := stocked_ledger\<rparr>)))" by simp
  have e: "fst (shipment_step 9 example_lines 7 Shipment_ship (example_shipment\<lparr>sh_ledger := stocked_ledger\<rparr>)) =
           Some InsufficientStock"
    by (simp add: shipment_eval ship_check_def)
  then obtain st2 where r: "shipment_step 9 example_lines 7 Shipment_ship
      (example_shipment\<lparr>sh_ledger := stocked_ledger\<rparr>) = (Some InsufficientStock, st2)"
    by (cases "shipment_step 9 example_lines 7 Shipment_ship (example_shipment\<lparr>sh_ledger := stocked_ledger\<rparr>)")
       simp
  have "st2 = example_shipment\<lparr>sh_ledger := stocked_ledger\<rparr>"
    by (rule mp [OF conjunct1 [OF conjunct2 [OF ship_exactly_once [OF d2,
          of 9 example_lines 7 _ _ InsufficientStock st2]]] r])
  with r have fail: "shipment_step 9 example_lines 7 Shipment_ship (example_shipment\<lparr>sh_ledger := stocked_ledger\<rparr>) =
     (Some InsufficientStock, example_shipment\<lparr>sh_ledger := stocked_ledger\<rparr>)" by simp
  have "\<exists>st1. shipment_step 9 example_lines 7 Shipment_ship example_shipment = (None, st1) \<and>
     reserved (snapshot (sh_ledger st1) 1 2) = 0 \<and>
     shipment_step 4 example_lines 7 Shipment_ship st1 = (Some InvalidTransition, st1)"
    by (rule exI [of _ st1]) (rule conjI [OF ok p1])
  then show ?thesis by (rule conjI [OF _ fail])
qed

end
