(* ===== verification/InventoryAudit.thy ===== *)
theory InventoryAudit
  imports Ledger Reports
begin

text \<open>
  The Inventory Audit Engine of spec section 4.5, modelled from the spec over the
  source's \<open>Inventory\<close> and \<open>InventoryItem\<close> rows and the ledger. Starting an inventory
  (\<open>draft \<rightarrow> in_progress\<close>) creates one item per audited product, its
  \<open>expected_quantity\<close> read from the ledger's \<open>available\<close> bucket (the configuration that
  adds \<open>reserved\<close> is not modelled). A count submission sets \<open>actual_quantity\<close>,
  \<open>is_checked\<close> and the computed \<open>has_discrepancy\<close>. Completing
  (\<open>in_progress \<rightarrow> completed\<close>) needs every item counted (\<open>IncompleteAudit\<close> otherwise)
  and applies \<open>Ledger.adjust\<close> by \<open>actual - expected\<close> with reason
  \<open>audit_correction\<close> for every discrepant item, as one batch: if an adjustment fails,
  nothing is applied. \<open>InventoryItem\<close> has no storage-unit field, so the unit an item
  counts is given by \<open>at\<close>, from the item's key.
\<close>

record audit_state =
  au_inventory :: inventory
  au_items :: "(obj_id \<times> inventory_item) list"
  au_ledger :: ledger

definition audit_status :: "audit_state \<Rightarrow> inventory_status option" where
  "audit_status st = inventory_status_of (inv_status (au_inventory st))"

definition set_audit_status :: "inventory_status \<Rightarrow> audit_state \<Rightarrow> audit_state" where
  "set_audit_status s st = st\<lparr>au_inventory := (au_inventory st)\<lparr>inv_status := inventory_status_value s\<rparr>\<rparr>"

text \<open>Start: one item per (item key, product) pair, expected quantity from the ledger.\<close>

definition start_audit ::
  "obj_id \<Rightarrow> (obj_id \<Rightarrow> obj_id) \<Rightarrow> (obj_id \<times> obj_id) list \<Rightarrow> datetime \<Rightarrow> audit_state \<Rightarrow> wms_error + audit_state" where
  "start_audit vid at keys now st =
     (if audit_status st \<noteq> Some Inv_draft then Inl InvalidTransition
      else Inr (set_audit_status Inv_in_progress
                 (st\<lparr>au_items := map (\<lambda>(i, p). (i, new_inventory_item vid p
                                         (available (snapshot (au_ledger st) (at i) p)) now)) keys\<rparr>)))"

definition count_item :: "int \<Rightarrow> datetime \<Rightarrow> inventory_item \<Rightarrow> inventory_item" where
  "count_item n now x =
     x\<lparr>ii_actual_quantity := Some n, ii_is_checked := True,
       ii_has_discrepancy := (n \<noteq> ii_expected_quantity x), ii_updated_at := now\<rparr>"

definition submit_count :: "obj_id \<Rightarrow> int \<Rightarrow> datetime \<Rightarrow> audit_state \<Rightarrow> wms_error + audit_state" where
  "submit_count i n now st =
     (if audit_status st \<noteq> Some Inv_in_progress then Inl InvalidTransition
      else if map_of (au_items st) i = None then Inl NotFound
      else if n < 0 then Inl NegativeQuantity
      else Inr (st\<lparr>au_items := map (\<lambda>(j, x). (j, if j = i then count_item n now x else x)) (au_items st)\<rparr>))"

definition correction :: "inventory_item \<Rightarrow> int" where
  "correction x = (case ii_actual_quantity x of None \<Rightarrow> 0 | Some n \<Rightarrow> n - ii_expected_quantity x)"

fun adjust_items ::
  "obj_id \<Rightarrow> (obj_id \<Rightarrow> obj_id) \<Rightarrow> (obj_id \<times> inventory_item) list \<Rightarrow> ledger \<Rightarrow> wms_error + ledger" where
  "adjust_items a at [] l = Inr l"
| "adjust_items a at ((i, x) # its) l =
     (if ii_has_discrepancy x
      then (case adjust (at i) (ii_product x) (correction x) ''audit_correction'' a l of
              Inl e \<Rightarrow> Inl e
            | Inr l' \<Rightarrow> adjust_items a at its l')
      else adjust_items a at its l)"

definition complete_audit ::
  "obj_id \<Rightarrow> (obj_id \<Rightarrow> obj_id) \<Rightarrow> date \<Rightarrow> audit_state \<Rightarrow> wms_error + audit_state" where
  "complete_audit a at today st =
     (if audit_status st \<noteq> Some Inv_in_progress then Inl InvalidTransition
      else if \<not> list_all (\<lambda>(i, x). ii_is_checked x) (au_items st) then Inl IncompleteAudit
      else (case adjust_items a at (au_items st) (au_ledger st) of
              Inl e \<Rightarrow> Inl e
            | Inr l' \<Rightarrow> Inr (set_audit_status Inv_completed
                              (st\<lparr>au_ledger := l', au_inventory := (au_inventory st)\<lparr>inv_end_date := Some today\<rparr>\<rparr>))))"

definition cancel_audit :: "audit_state \<Rightarrow> wms_error + audit_state" where
  "cancel_audit st =
     (if audit_status st \<in> {Some Inv_draft, Some Inv_in_progress} then Inr (set_audit_status Inv_cancelled st)
      else Inl InvalidTransition)"

text \<open>Every counted item carries its count and the discrepancy computed from it.\<close>

definition counts_consistent :: "audit_state \<Rightarrow> bool" where
  "counts_consistent st \<longleftrightarrow>
     (\<forall>(i, x) \<in> set (au_items st). ii_is_checked x \<longrightarrow>
        (\<exists>n. ii_actual_quantity x = Some n \<and> ii_has_discrepancy x = (n \<noteq> ii_expected_quantity x)))"

text \<open>The correction the discrepant items ask for on one entry.\<close>

definition corrections_at ::
  "(obj_id \<Rightarrow> obj_id) \<Rightarrow> (obj_id \<times> inventory_item) list \<Rightarrow> obj_id \<Rightarrow> obj_id \<Rightarrow> int" where
  "corrections_at at its u p =
     sum_list (map (\<lambda>(i, x). if ii_has_discrepancy x \<and> (at i, ii_product x) = (u, p) then correction x else 0) its)"

text \<open>Example: ten items of product 2 on shelf 2, and a new inventory of warehouse 3.\<close>

abbreviation example_audit :: audit_state where
  "example_audit \<equiv>
     \<lparr>au_inventory = new_inventory 1 3 ''Q1 count'' 20 0, au_items = [],
      au_ledger = post 2 2 10 0 0 Cause_receive 7 (init_ledger example_layout)\<rparr>"

section \<open>Lemmas\<close>

lemma audit_status_set [simp]: "audit_status (set_audit_status s st) = Some s"
  by (simp add: audit_status_def set_audit_status_def)

lemma set_audit_status_fields [simp]:
  "au_ledger (set_audit_status s st) = au_ledger st" "au_items (set_audit_status s st) = au_items st"
  by (simp_all add: set_audit_status_def)

lemma adjust_items_moves:
  "adjust_items a at its l = Inr l' \<Longrightarrow>
   layout l' = layout l \<and>
   (\<forall>u p. snapshot l' u p = shift (snapshot l u p) (corrections_at at its u p) 0 0) \<and>
   (\<exists>new. movements l' = movements l @ new \<and>
      map mv_cause new =
        replicate (length (filter (\<lambda>(i, x). ii_has_discrepancy x) its)) (Cause_adjust ''audit_correction''))"
proof (induction a at its l rule: adjust_items.induct)
  case (1 a at l)
  then show ?case by (simp add: corrections_at_def)
next
  case (2 a at i x its l)
  show ?case
  proof (cases "ii_has_discrepancy x")
    case False
    with 2 show ?thesis by (simp add: corrections_at_def)
  next
    case True
    then obtain l1 where adj: "adjust (at i) (ii_product x) (correction x) ''audit_correction'' a l = Inr l1"
      and rest: "adjust_items a at its l1 = Inr l'"
      using "2.prems" by (auto split: sum.splits)
    have l1: "l1 = post (at i) (ii_product x) (correction x) 0 0 (Cause_adjust ''audit_correction'') a l"
      using adj by (auto simp: adjust_def split: if_splits)
    from "2.IH"(1) [OF True adj rest] obtain new where
      lay: "layout l' = layout l1"
      and sn: "\<forall>u p. snapshot l' u p = shift (snapshot l1 u p) (corrections_at at its u p) 0 0"
      and mv: "movements l' = movements l1 @ new"
      and cs: "map mv_cause new =
        replicate (length (filter (\<lambda>(i, x). ii_has_discrepancy x) its)) (Cause_adjust ''audit_correction'')"
      by blast
    have "layout l' = layout l" using lay by (simp add: l1 post_fields)
    moreover have "\<forall>u p. snapshot l' u p = shift (snapshot l u p) (corrections_at at ((i, x) # its) u p) 0 0"
      using sn True by (simp add: l1 snapshot_post corrections_at_def algebra_simps)
    moreover have "\<exists>new. movements l' = movements l @ new \<and>
      map mv_cause new =
        replicate (length (filter (\<lambda>(i, x). ii_has_discrepancy x) ((i, x) # its))) (Cause_adjust ''audit_correction'')"
      using mv cs True by (simp add: l1 post_fields)
    ultimately show ?thesis by blast
  qed
qed

lemma corrections_at_single:
  assumes "distinct (map (\<lambda>(i, x). (at i, ii_product x)) its)" and "(i, x) \<in> set its"
  shows "corrections_at at its (at i) (ii_product x) = (if ii_has_discrepancy x then correction x else 0)"
  using assms
proof (induction its)
  case Nil
  then show ?case by simp
next
  case (Cons y its)
  obtain j z where y: "y = (j, z)" by (cases y)
  show ?case
  proof (cases "(j, z) = (i, x)")
    case True
    then have "\<forall>(j', z') \<in> set its. (at j', ii_product z') \<noteq> (at i, ii_product x)"
      using Cons.prems(1) y by force
    then have "corrections_at at its (at i) (ii_product x) = 0"
      unfolding corrections_at_def by (induction its) auto
    with True y show ?thesis by (simp add: corrections_at_def)
  next
    case False
    then have "(i, x) \<in> set its" using Cons.prems(2) y by auto
    moreover have "(at j, ii_product z) \<noteq> (at i, ii_product x)"
      using Cons.prems y \<open>(i, x) \<in> set its\<close> by force
    ultimately show ?thesis using Cons.IH Cons.prems(1) y by (auto simp: corrections_at_def)
  qed
qed

lemmas audit_eval =
  audit_status_def set_audit_status_def start_audit_def submit_count_def complete_audit_def count_item_def
  inventory_status_of_def all_inventory_statuses_def choice_of_def new_inventory_def new_inventory_item_def
  adjust_def fits_def new_storage_unit_def snapshot_post post_fields correction_def

section \<open>Properties\<close>

text \<open>
  C12. Audit correction is correct (spec section 4.5): when the inventory is completed
  while the ledger still holds the quantities its items expected, every audited entry's
  \<open>available\<close> becomes exactly the counted quantity, no other bucket moves, and the
  ledger records one movement with reason \<open>audit_correction\<close> per discrepant item.
\<close>

theorem audit_completion_sets_counts:
  assumes fin: "complete_audit a at today st = Inr st'"
    and cons: "counts_consistent st"
    and snap: "\<forall>(i, x) \<in> set (au_items st).
                 ii_expected_quantity x = available (snapshot (au_ledger st) (at i) (ii_product x))"
    and dist: "distinct (map (\<lambda>(i, x). (at i, ii_product x)) (au_items st))"
  shows "(\<forall>(i, x) \<in> set (au_items st).
            ii_actual_quantity x = Some (available (snapshot (au_ledger st') (at i) (ii_product x)))) \<and>
         (\<forall>u p. reserved (snapshot (au_ledger st') u p) = reserved (snapshot (au_ledger st) u p) \<and>
                in_transit (snapshot (au_ledger st') u p) = in_transit (snapshot (au_ledger st) u p)) \<and>
         (\<exists>new. movements (au_ledger st') = movements (au_ledger st) @ new \<and>
            map mv_cause new =
              replicate (length (filter (\<lambda>(i, x). ii_has_discrepancy x) (au_items st)))
                (Cause_adjust ''audit_correction''))"
proof -
  obtain l' where chk: "list_all (\<lambda>(i, x). ii_is_checked x) (au_items st)"
    and adj: "adjust_items a at (au_items st) (au_ledger st) = Inr l'" and l': "au_ledger st' = l'"
    using fin by (auto simp: complete_audit_def split: if_splits sum.splits)
  note m = adjust_items_moves [OF adj]
  have "ii_actual_quantity x = Some (available (snapshot l' (at i) (ii_product x)))"
    if ix: "(i, x) \<in> set (au_items st)" for i x
  proof -
    obtain n where n: "ii_actual_quantity x = Some n" and d: "ii_has_discrepancy x = (n \<noteq> ii_expected_quantity x)"
      using cons chk ix by (fastforce simp: counts_consistent_def list_all_iff)
    have "available (snapshot l' (at i) (ii_product x)) =
          available (snapshot (au_ledger st) (at i) (ii_product x)) + (if ii_has_discrepancy x then correction x else 0)"
      using m corrections_at_single [OF dist ix] by simp
    with snap ix n d show ?thesis by (auto simp: correction_def)
  qed
  with m l' show ?thesis by auto
qed

theorem audit_completion_sets_counts_witness:
  "\<exists>st1 st2 st3.
     start_audit 1 (\<lambda>i. 2) [(60, 2)] 30 example_audit = Inr st1 \<and>
     submit_count 60 7 31 st1 = Inr st2 \<and>
     complete_audit 9 (\<lambda>i. 2) 21 st2 = Inr st3 \<and>
     available (snapshot (au_ledger st3) 2 2) = available (snapshot (au_ledger example_audit) 2 2) - 3"
proof -
  obtain st1 where s1: "start_audit 1 (\<lambda>i. 2) [(60, 2)] 30 example_audit = Inr st1"
    by (simp add: audit_eval)
  obtain st2 where s2: "submit_count 60 7 31 st1 = Inr st2"
    using s1 [symmetric] by (simp add: audit_eval)
  obtain st3 where s3: "complete_audit 9 (\<lambda>i. 2) 21 st2 = Inr st3"
    using s1 [symmetric] s2 [symmetric] by (simp add: audit_eval)
  have items: "au_items st2 = [(60, count_item 7 31 (new_inventory_item 1 2 10 30))]"
    and led: "au_ledger st2 = au_ledger example_audit"
    using s1 [symmetric] s2 [symmetric] by (simp_all add: audit_eval)
  have "counts_consistent st2" by (simp add: items counts_consistent_def count_item_def new_inventory_item_def)
  moreover have "\<forall>(i, x) \<in> set (au_items st2).
      ii_expected_quantity x = available (snapshot (au_ledger st2) ((\<lambda>i. 2) i) (ii_product x))"
    by (simp add: items led count_item_def new_inventory_item_def snapshot_post post_fields)
  moreover have "distinct (map (\<lambda>(i, x). ((\<lambda>i. 2) i, ii_product x)) (au_items st2))"
    by (simp add: items)
  ultimately have "ii_actual_quantity (count_item 7 31 (new_inventory_item 1 2 10 30)) =
      Some (available (snapshot (au_ledger st3) 2 2))"
    using audit_completion_sets_counts [OF s3] by (simp add: items count_item_def new_inventory_item_def)
  then have "available (snapshot (au_ledger st3) 2 2) = available (snapshot (au_ledger example_audit) 2 2) - 3"
    by (simp add: count_item_def snapshot_post post_fields)
  with s1 s2 s3 show ?thesis by blast
qed

end
