(* ===== verification/Reconciler.thy ===== *)
theory Reconciler
  imports Store
begin

text \<open>
  The marketplace sync reconciler of spec section 4.6, modelled from the specification
  over the source's \<open>Order\<close> rows, their \<open>unique_together = (marketplace, external_id)\<close>
  key, \<open>Order.objects.create\<close> (\<open>create_order\<close> of \<open>Store\<close>) and the only synchronisation
  timestamp the source has, \<open>Marketplace.last_sync\<close>. An inbound order event either
  creates the order, updates the marketplace-side fields of the existing one, or is
  discarded as stale when it is older than the marketplace's \<open>last_sync\<close>. Rows are
  stamped with the event's time, so replaying an event writes the same values.
\<close>

section \<open>Events and outcomes\<close>

record order_event =
  ev_marketplace :: obj_id
  ev_external_id :: string
  ev_total_price :: decimal
  ev_time :: datetime

text \<open>
  The outcomes of the order ingestion interface (spec section 6): the created or updated
  order's id, or \<open>Stale\<close>; a \<open>Rejected\<close> event is the error value of the result.
  Only \<open>Created\<close> hands the order to reservation.
\<close>

datatype ingest_outcome = Created obj_id | Updated obj_id | Stale

section \<open>Operations\<close>

text \<open>An event older than the stored \<open>last_sync\<close> is stale; an equal one is not.\<close>

definition is_stale :: "marketplace \<Rightarrow> datetime \<Rightarrow> bool" where
  "is_stale m t \<longleftrightarrow> (case mp_last_sync m of None \<Rightarrow> False | Some s \<Rightarrow> t < s)"

text \<open>\<open>Order.objects.filter(marketplace=mp, external_id=ext).first()\<close>.\<close>

definition find_order :: "order table \<Rightarrow> obj_id \<Rightarrow> string \<Rightarrow> obj_id option" where
  "find_order os mp ext =
     map_option fst (find (\<lambda>(i, r). order_marketplace r = mp \<and> order_external_id r = ext) os)"

text \<open>\<open>marketplace.last_sync = t; marketplace.save()\<close> (with \<open>auto_now\<close> on \<open>updated_at\<close>).\<close>

definition touch_marketplace :: "obj_id \<Rightarrow> datetime \<Rightarrow> db \<Rightarrow> db" where
  "touch_marketplace mp t d =
     d\<lparr>marketplaces :=
        map (\<lambda>(i, m). (i, if i = mp then m\<lparr>mp_last_sync := Some t, mp_updated_at := t\<rparr> else m))
          (marketplaces d)\<rparr>"

text \<open>The marketplace-side fields of an existing order: its price and \<open>updated_at\<close>.\<close>

definition update_order :: "obj_id \<Rightarrow> order_event \<Rightarrow> db \<Rightarrow> db" where
  "update_order k ev d =
     d\<lparr>orders :=
        map (\<lambda>(i, r). (i, if i = k then r\<lparr>order_total_price := ev_total_price ev,
                                          order_updated_at := ev_time ev\<rparr> else r))
          (orders d)\<rparr>"

definition ingest_event :: "order_event \<Rightarrow> db \<Rightarrow> wms_error + ingest_outcome \<times> db" where
  "ingest_event ev d =
     (case map_of (marketplaces d) (ev_marketplace ev) of
        None \<Rightarrow> Inl NotFound
      | Some m \<Rightarrow>
          if is_stale m (ev_time ev) then Inr (Stale, d)
          else (case find_order (orders d) (ev_marketplace ev) (ev_external_id ev) of
                  Some k \<Rightarrow>
                    Inr (Updated k, touch_marketplace (ev_marketplace ev) (ev_time ev) (update_order k ev d))
                | None \<Rightarrow>
                    (case create_order (ev_marketplace ev) (mp_company m) (ev_external_id ev)
                            (ev_total_price ev) (ev_time ev) d of
                       Inl e \<Rightarrow> Inl e
                     | Inr (k, d') \<Rightarrow> Inr (Created k, touch_marketplace (ev_marketplace ev) (ev_time ev) d'))))"

text \<open>What a replay of an event returns: the outcome of the first call, as an update.\<close>

fun replayed :: "ingest_outcome \<Rightarrow> ingest_outcome" where
  "replayed (Created k) = Updated k"
| "replayed r = r"

text \<open>
  Two events of the marketplace of \<open>example_db\<close>: a new order \<open>A-200\<close> at time 20, and
  the first event about another new order \<open>A-300\<close>, sent at time 10 and delivered late.
\<close>

abbreviation event_a200 :: order_event where
  "event_a200 \<equiv> \<lparr>ev_marketplace = 2, ev_external_id = ''A-200'', ev_total_price = 500000, ev_time = 20\<rparr>"

abbreviation event_a300 :: order_event where
  "event_a300 \<equiv> \<lparr>ev_marketplace = 2, ev_external_id = ''A-300'', ev_total_price = 70000, ev_time = 10\<rparr>"

section \<open>Lemmas\<close>

lemma map_of_map_keyed: "map_of (map (\<lambda>(i, m). (i, f i m)) ms) j = map_option (f j) (map_of ms j)"
  by (induction ms) auto

lemma find_order_map_keyed:
  assumes "\<And>i r. order_marketplace (g i r) = order_marketplace r"
    and "\<And>i r. order_external_id (g i r) = order_external_id r"
  shows "find_order (map (\<lambda>(i, r). (i, g i r)) os) mp ext = find_order os mp ext"
proof (induction os)
  case Nil
  then show ?case by (simp add: find_order_def)
next
  case (Cons y os)
  obtain i r where "y = (i, r)" by (cases y)
  with Cons show ?case by (simp add: find_order_def assms)
qed

lemma map_of_touch:
  "map_of (marketplaces (touch_marketplace mp t d)) j =
     map_option (\<lambda>m. if j = mp then m\<lparr>mp_last_sync := Some t, mp_updated_at := t\<rparr> else m)
       (map_of (marketplaces d) j)"
  by (simp add: touch_marketplace_def map_of_map_keyed)

lemma touch_fields [simp]:
  "orders (touch_marketplace mp t d) = orders d"
  "companies (touch_marketplace mp t d) = companies d"
  "next_id (touch_marketplace mp t d) = next_id d"
  by (simp_all add: touch_marketplace_def)

lemma update_order_fields [simp]:
  "marketplaces (update_order k ev d) = marketplaces d"
  "companies (update_order k ev d) = companies d"
  "next_id (update_order k ev d) = next_id d"
  by (simp_all add: update_order_def)

lemma touch_touch: "touch_marketplace mp t (touch_marketplace mp t d) = touch_marketplace mp t d"
  by (simp add: touch_marketplace_def comp_def case_prod_unfold)

lemma touch_update: "touch_marketplace mp t (update_order k ev d) = update_order k ev (touch_marketplace mp t d)"
  by (simp add: touch_marketplace_def update_order_def)

lemma find_order_Some:
  "find_order os mp ext = Some k \<Longrightarrow>
     \<exists>r. (k, r) \<in> set os \<and> order_marketplace r = mp \<and> order_external_id r = ext"
  by (induction os) (auto simp: find_order_def split: if_splits)

lemma find_order_None:
  "find_order os mp ext = None \<longleftrightarrow> \<not> list_ex (\<lambda>(i, r). order_marketplace r = mp \<and> order_external_id r = ext) os"
  by (auto simp: find_order_def find_None_iff list_ex_iff)

lemma find_order_update:
  "find_order (orders (update_order k ev d)) mp ext = find_order (orders d) mp ext"
  unfolding update_order_def by (simp add: find_order_map_keyed)

lemma update_order_update_order: "update_order k ev (update_order k ev d) = update_order k ev d"
  by (simp add: update_order_def comp_def case_prod_unfold)

lemma update_order_same:
  assumes "\<And>r. (k, r) \<in> set (orders d) \<Longrightarrow>
             r\<lparr>order_total_price := ev_total_price ev, order_updated_at := ev_time ev\<rparr> = r"
  shows "update_order k ev d = d"
proof -
  have "map (\<lambda>(i, r). (i, if i = k then r\<lparr>order_total_price := ev_total_price ev,
                                           order_updated_at := ev_time ev\<rparr> else r)) (orders d) = orders d"
    by (rule map_idI) (auto simp: assms)
  then show ?thesis by (simp add: update_order_def)
qed

lemma find_append_None: "find P xs = None \<Longrightarrow> P x \<Longrightarrow> find P (xs @ [x]) = Some x"
  by (induction xs) auto

lemma find_order_append:
  "find_order os mp ext = None \<Longrightarrow> order_marketplace r = mp \<Longrightarrow> order_external_id r = ext \<Longrightarrow>
   find_order (os @ [(k, r)]) mp ext = Some k"
  by (simp add: find_order_def find_append_None)

lemma not_stale_touched: "\<not> is_stale (m\<lparr>mp_last_sync := Some t, mp_updated_at := t\<rparr>) t"
  by (simp add: is_stale_def)

text \<open>The three ways an ingestion succeeds.\<close>

lemma ingest_event_Inr:
  assumes "ingest_event ev d = Inr (r, d')"
  obtains m where "map_of (marketplaces d) (ev_marketplace ev) = Some m" "is_stale m (ev_time ev)"
      "r = Stale" "d' = d"
    | m k where "map_of (marketplaces d) (ev_marketplace ev) = Some m" "\<not> is_stale m (ev_time ev)"
      "find_order (orders d) (ev_marketplace ev) (ev_external_id ev) = Some k" "r = Updated k"
      "d' = touch_marketplace (ev_marketplace ev) (ev_time ev) (update_order k ev d)"
    | m k d0 where "map_of (marketplaces d) (ev_marketplace ev) = Some m" "\<not> is_stale m (ev_time ev)"
      "find_order (orders d) (ev_marketplace ev) (ev_external_id ev) = None" "r = Created k"
      "create_order (ev_marketplace ev) (mp_company m) (ev_external_id ev) (ev_total_price ev) (ev_time ev) d
         = Inr (k, d0)"
      "d' = touch_marketplace (ev_marketplace ev) (ev_time ev) d0"
  using assms by (auto simp: ingest_event_def split: option.splits if_splits sum.splits)

lemma all_ids_touch [simp]: "all_ids (touch_marketplace mp t d) = all_ids d"
  by (simp add: all_ids_def touch_marketplace_def comp_def case_prod_unfold)

lemma all_ids_update_order [simp]: "all_ids (update_order k ev d) = all_ids d"
  by (simp add: all_ids_def update_order_def comp_def case_prod_unfold)

lemma touch_db_ok: "db_ok d \<Longrightarrow> db_ok (touch_marketplace mp t d)"
  unfolding db_ok_def
proof (elim conjE, intro conjI)
  assume "pk_ok d" then show "pk_ok (touch_marketplace mp t d)" by (simp add: pk_ok_def)
next
  assume fk: "fk_ok d"
  have "fk_marketplaces (touch_marketplace mp t d)"
    using fk by (auto simp: fk_ok_def fk_marketplaces_def touch_marketplace_def)
  with fk show "fk_ok (touch_marketplace mp t d)"
    unfolding fk_ok_def by (simp add: fk_defs touch_marketplace_def del: fk_ok_def fk_marketplaces_def has_row_def)
next
  assume "unique_ok d" then show "unique_ok (touch_marketplace mp t d)"
    by (simp add: uq_defs touch_marketplace_def)
qed

lemma update_order_db_ok: "db_ok d \<Longrightarrow> db_ok (update_order k ev d)"
  unfolding db_ok_def
proof (elim conjE, intro conjI)
  assume "pk_ok d" then show "pk_ok (update_order k ev d)" by (simp add: pk_ok_def)
next
  assume fk: "fk_ok d"
  have "fk_orders (update_order k ev d)"
    using fk by (auto simp: fk_ok_def fk_orders_def update_order_def)
  with fk show "fk_ok (update_order k ev d)"
    unfolding fk_ok_def by (simp add: fk_defs update_order_def del: fk_ok_def fk_orders_def has_row_def)
next
  assume "unique_ok d" then show "unique_ok (update_order k ev d)"
    by (simp add: uq_defs update_order_def comp_def case_prod_unfold
        if_distrib [of order_marketplace] if_distrib [of order_external_id] cong: if_cong)
qed

lemma ingest_event_db_ok:
  assumes ok: "db_ok d" and ing: "ingest_event ev d = Inr (r, d')"
  shows "db_ok d'"
  using ing
proof (cases rule: ingest_event_Inr)
  case 1
  then show ?thesis using ok by simp
next
  case 2
  then show ?thesis using ok by (simp add: touch_db_ok update_order_db_ok)
next
  case (3 m k d0)
  then show ?thesis using create_order_db_ok [OF ok 3(5)] by (simp add: touch_db_ok)
qed

section \<open>Properties\<close>

text \<open>
  C16. Ingestion is idempotent under at-least-once delivery (spec sections 4.6 and 8):
  on a database with distinct keys, replaying an event that was ingested leaves the
  database as the first call left it, and a replayed creation comes back as an update of
  the same order, so it never re-triggers reservation.
\<close>

theorem ingest_event_idempotent:
  assumes pk: "pk_ok d" and ing: "ingest_event ev d = Inr (r, d')"
  shows "ingest_event ev d' = Inr (replayed r, d')"
  using ing
proof (cases rule: ingest_event_Inr)
  case (1 m)
  then show ?thesis by (cases r) (simp_all add: ingest_event_def)
next
  case (2 m k)
  have "find_order (orders d') (ev_marketplace ev) (ev_external_id ev) = Some k"
    using 2 by (simp add: find_order_update)
  with 2 show ?thesis
    by (simp add: ingest_event_def map_of_touch not_stale_touched touch_update touch_touch
        update_order_update_order)
next
  case (3 m k d0)
  note c = create_order_Inr [OF 3(5)]
  have new: "find_order (orders d') (ev_marketplace ev) (ev_external_id ev) = Some k"
    using 3 c by (simp add: find_order_append find_order_None new_order_def)
  have "fst ` set (orders d) \<subseteq> set (all_ids d)" by (auto simp: all_ids_def)
  then have "k \<notin> fst ` set (orders d)"
    using pk c(4) by (auto simp: pk_ok_def)
  then have "update_order k ev d0 = d0"
    by (intro update_order_same) (auto simp: c(5) new_order_def image_iff)
  moreover have "map_of (marketplaces d0) (ev_marketplace ev) = Some m" using 3(1) c(5) by simp
  ultimately show ?thesis using 3 new
    by (simp add: ingest_event_def map_of_touch not_stale_touched touch_update [symmetric] touch_touch)
qed

theorem ingest_event_idempotent_witness:
  "\<exists>d'. ingest_event event_a200 example_db = Inr (Created 9, d') \<and>
        ingest_event event_a200 d' = Inr (Updated 9, d')"
proof -
  obtain d' where i: "ingest_event event_a200 example_db = Inr (Created 9, d')"
    by (simp add: ingest_event_def is_stale_def find_order_def create_order_def empty_db_def
        new_marketplace_def new_order_def has_row_def)
  have "pk_ok example_db" using example_db_ok by (simp add: db_ok_def)
  from ingest_event_idempotent [OF this i] have "ingest_event event_a200 d' = Inr (Updated 9, d')" by simp
  with i show ?thesis by (intro exI [of _ d'] conjI)
qed

end
