(* ===== verification/Spec2Isabelle.thy ===== *)
theory Spec2Isabelle
  imports Ledger Store Integrity Inserts Reservation SupplyPipeline ShipmentPipeline InventoryAudit Reconciler
begin

text \<open>
  \<^bold>\<open>A verification library for lite-wms-system.\<close>

  \<^bold>\<open>The program.\<close> The repository's sources (src/backend) are the Django models of a
  warehouse-management system: ten \<open>models.py\<close> files, one per app (companies, users,
  api, warehouses, products, orders, supplies, shipments, services, reports). They declare
  tables, choice sets, defaults, \<open>__str__\<close> methods, foreign keys with their
  \<open>on_delete\<close> rules, and \<open>unique\<close>/\<open>unique_together\<close> constraints. The behaviour the
  specification (spec.md) describes on top of them -- the stock ledger, reservations,
  the supply, shipment and audit pipelines, marketplace reconciliation -- has no code
  under src/; the parts of it modelled here are modelled from the specification and
  marked so in the project manifest.

  \<^bold>\<open>Theories.\<close>
  \<^item> \<open>Prelude\<close>: the error type of the core (spec section 7, plus the database's
    \<open>IntegrityError\<close>); Python's \<open>str\<close> of an integer and of a primary key
    (\<open>pk_str\<close>, \<open>None\<close> before the first save); tables as association lists from
    primary key to row, with \<open>has_row\<close>, \<open>doomed_in\<close> and \<open>keep_rows\<close>; Django's field
    validators (\<open>max_length\<close>, 32-bit \<open>IntegerField\<close>, \<open>DecimalField\<close>) and choice
    lookups; the shared lemmas on these.
  \<^item> \<open>Companies\<close>, \<open>Warehouses\<close>, \<open>Products\<close>, \<open>Orders\<close>, \<open>Supplies\<close>,
    \<open>Shipments\<close>, \<open>Services\<close>, \<open>Reports\<close>: one theory per app (users and the api app's
    \<open>Marketplace\<close> live in \<open>Companies\<close>). Each model is a \<open>record\<close> with the model's
    fields (a \<open>ForeignKey\<close> is the referenced primary key, a nullable field an option,
    a \<open>DecimalField\<close> an integer count of hundredths, a timestamp a natural number); each
    choice set is the source's list of (value, label) pairs and, where code branches on
    it, a \<open>datatype\<close> with its value map; \<open>new_X\<close> builds a row with the model's
    defaults, \<open>X_str\<close> is \<open>__str__\<close>, \<open>X_valid\<close> the field validators.
  \<^item> \<open>Store\<close>: the database (record \<open>db\<close>, one table per model and the key counter), the
    foreign keys (\<open>fk_X\<close>, conjunction \<open>fk_ok\<close>), the unique constraints (\<open>uq_X\<close>,
    \<open>unique_ok\<close>), distinct primary keys (\<open>pk_ok\<close>), and the ORM operations:
    \<open>delete_obj\<close> (\<open>obj.delete()\<close> on a row of any of the 22 models, \<open>del_target\<close>,
    with every transitive \<open>CASCADE\<close>, the self-referential \<open>StorageUnit.parent_unit\<close>
    by the bounded closure \<open>unit_closure\<close>, and the \<open>SET_NULL\<close> of
    \<open>Order.shipping_warehouse\<close>), \<open>create_order\<close>, \<open>add_shipment_order\<close> and
    \<open>set_parent_unit\<close> (with \<open>IntegrityError\<close> and \<open>DoesNotExist\<close> as error values).
  \<^item> \<open>Integrity\<close>: \<open>status_ok\<close>, the status fields of \<open>Order\<close>, \<open>Supply\<close>,
    \<open>Shipment\<close>, \<open>ServiceRequest\<close> and \<open>Inventory\<close> within their declared \<open>choices\<close>, and
    the lemmas that compute the deletion of an order and of a marketplace.
  \<^item> \<open>Inserts\<close>: \<open>objects.create\<close> of every one of the 22 models (\<open>create_company\<close>,
    \<open>create_storage_unit\<close>, ..., with the foreign-key and \<open>unique\<close> checks the database
    makes), gathered as the command type \<open>create_cmd\<close> with the dispatcher
    \<open>orm_create\<close>, and \<open>db_reachable\<close>, the inductive set of databases built from an empty
    one by creates, deletions and re-parenting.
  \<^item> \<open>Ledger\<close> (from the spec, section 4.1): stock entries per (storage unit, product)
    with \<open>available\<close>, \<open>reserved\<close> and \<open>in_transit\<close> buckets, the six operations
    \<open>reserve\<close>, \<open>release\<close>, \<open>commit_in_transit\<close>, \<open>receive\<close>, \<open>ship\<close>, \<open>adjust\<close>
    returning \<open>wms_error + ledger\<close>, the append-only movement log and its replay, and the
    capacity bound taken from the source's \<open>StorageUnit.max_items\<close>. \<open>ledger_step\<close>
    dispatches a request; \<open>ledger_reachable\<close> is the inductive set of states reachable
    from an empty ledger over a fixed layout of units; \<open>op_guard\<close>/\<open>op_delta\<close> read an
    operation's guard and bucket deltas off a request, so that the invariant and the
    commutation proofs treat the six operations at once.
  \<^item> \<open>Reservation\<close> (from the spec, section 4.2, over the source's \<open>OrderItem\<close>):
    \<open>process_order\<close> routes each unprocessed item to the first candidate unit with enough
    available stock (\<open>route\<close>), reserves it (\<open>reserve_items\<close>), and on the first item that
    cannot be placed releases the order's reservations again, latest first
    (\<open>release_all\<close>); \<open>cancel_order\<close> releases an order's reservations.
  \<^item> \<open>SupplyPipeline\<close> (from the spec, section 4.3, over \<open>Supply\<close>/\<open>SupplyItem\<close>):
    \<open>supply_step\<close> takes one command (submit, approve with the destination's capacity
    check, dispatch, cancel, receive, force-close) and returns the new state or the error;
    a receipt on a complete item is an \<open>OverReceipt\<close> whatever its quantity (spec 8);
    \<open>supply_reachable\<close> is the inductive set of states reached from a created supply;
    \<open>run_supply\<close> runs a list of commands, \<open>receipts_due\<close> lists the receipts a
    dispatched supply still expects.
  \<^item> \<open>ShipmentPipeline\<close> (from the spec, section 4.4, over \<open>Shipment\<close>,
    \<open>ShipmentOrder\<close> and \<open>Order\<close>): \<open>shipment_step\<close> links ready orders, moves the
    status, and ships every reserved line of the links not yet marked (\<open>ship_links\<close>,
    \<open>ship_lines\<close>) after checking the whole batch against the ledger (\<open>ship_check\<close>): the
    spec requires the ship-all to be all-or-nothing but names no ledger operation that
    would undo a \<open>ship\<close>.
  \<^item> \<open>InventoryAudit\<close> (from the spec, section 4.5, over \<open>Inventory\<close>/\<open>InventoryItem\<close>):
    \<open>start_audit\<close> snapshots expected quantities, \<open>submit_count\<close> records a count with its
    computed discrepancy, \<open>complete_audit\<close> refuses unchecked items
    (\<open>IncompleteAudit\<close>) and books one \<open>audit_correction\<close> adjustment per discrepancy.
  \<^item> \<open>Reconciler\<close> (from the spec, section 4.6, over \<open>Order\<close>, \<open>create_order\<close> and
    \<open>Marketplace.last_sync\<close>): \<open>ingest_event\<close> creates, updates or discards an order event
    as stale; rows are stamped with the event's time.

  \<^bold>\<open>What is proved.\<close>
  \<^item> Store and Integrity (on the code): deletion of any object, \<open>create_order\<close> and
    \<open>set_parent_unit\<close> keep \<open>db_ok\<close> (keys, foreign keys, unique constraints); a duplicate
    \<open>(marketplace, external_id)\<close> is refused whatever the other fields; the bounded
    storage-unit closure equals the inductive cascade \<open>below_root\<close>, cycles included.
    Deleting a warehouse keeps all orders and nulls exactly their shipping warehouse;
    deleting a company purges everything it owns; deleting a product deletes the lines
    that refer to it and keeps their parents; deleting an order or a marketplace removes
    exactly the rows its cascade reaches (two levels deep for a marketplace) and leaves
    every other row as it was; creating an order and deleting it gives back the database
    up to the key counter. Two divergences from the spec are theorems over every
    consistent database: an order can be linked to two shipments, and a unit can be
    re-parented under its own child, closing a cycle.
  \<^item> Inserts (on the code): every successful create of the 22 models keeps the database
    consistent and returns a fresh key; every database reachable through the ORM is
    consistent and has every status within its choices (rule induction over
    \<open>db_reachable\<close>, composing the create, delete and re-parent lemmas).
  \<^item> Orders (on the code): a new order validates exactly within the field bounds (external
    id at most 100 characters, price at most 99,999,999.99).
  \<^item> Ledger: every reachable state satisfies \<open>ledger_inv\<close> (non-negative buckets,
    entries equal to the replay of the log, log times 0,1,2,..., loads within
    \<open>max_items\<close>), by rule induction; operations on different units commute.
  \<^item> Reservation: processing an order never fails on a reachable ledger; it is
    all-or-nothing (an unfulfillable order leaves every entry as it was), reserves
    exactly the unprocessed items at candidate units, is idempotent, and cancelling right
    after it restores every entry. The proofs go through \<open>moved_by\<close>, which says a ledger
    is another with given reservations moved between the buckets, and \<open>held\<close>, the
    quantity a list of reservations holds on one entry.
  \<^item> Supply pipeline: every reachable supply state satisfies \<open>supply_inv\<close> (rule
    induction over \<open>supply_reachable\<close>); a dispatched supply whose destination can take the
    outstanding quantity reaches \<open>received\<close> by the receipts of the remaining quantities
    (progress, by induction over the pending items).
  \<^item> Shipment pipeline: a successful ship moves exactly the pending reserved lines once and
    a retried ship changes nothing; a failed ship changes nothing; and an approved
    shipment whose batch passes the check ships (the check is shown sufficient by
    induction over the links and their lines).
  \<^item> Audit: completing an audit sets every audited entry's available stock to the count,
    with one \<open>audit_correction\<close> movement per discrepant item.
  \<^item> Reconciler: replaying an ingested event changes nothing and never re-creates the
    order.

  \<^bold>\<open>Bounds and fuel.\<close> The storage-unit cascade iterates one parent step as many times as
  the table has rows; \<open>unit_closure_enough_fuel\<close> shows (by counting the units reached,
  which grow strictly until the fixpoint) that this reaches the fixpoint, so the closure
  is total and exact even when parent links form a cycle. Ledger quantities are
  unbounded integers: the spec fixes no width, and the Django \<open>IntegerField\<close> bound is
  stated separately by \<open>integer_field_ok\<close>. Every other loop of the model
  (\<open>reserve_items\<close>, \<open>release_all\<close>, \<open>ship_lines\<close>, \<open>ship_links\<close>, \<open>adjust_items\<close>,
  \<open>run_supply\<close>) recurses structurally over a list, so all operations are total and
  need no fuel.

  \<^bold>\<open>Not modelled.\<close> Django's internals (\<open>AbstractUser\<close> and its unique \<open>username\<close>,
  migrations, the admin), file and image storage, the HTTP API and marketplace clients
  (not in the sources; pure I/O). The creates check foreign keys and unique fields but
  not \<open>max_length\<close>, which the \<open>X_valid\<close> validators state separately; the address
  syntax of \<open>EmailField\<close> is not modelled. Field updates through \<open>save()\<close> other than
  \<open>parent_unit\<close> (and the pipelines' status and quantity updates) are not modelled, nor
  are \<open>upload_to\<close> file paths and \<open>verbose_name\<close>/\<open>ordering\<close> metadata other than
  \<open>ProductImage.ordering\<close> (a stable sort; the database does not promise the order of
  ties). Capacity uses \<open>max_items\<close> only, not \<open>max_weight\<close>. Routing by client
  preference (spec 4.2) is abstracted as the list of candidate units the caller passes.
  Marketplace listing-change events (spec 4.6) keep no state beyond
  \<open>ProductMarketplace\<close> rows and are not modelled; whether an audit counts reserved stock
  is left open by the spec, and the model compares counts with available stock. Crash
  recovery and the write-ahead persistence of the movement log (spec 6) are below the
  level of this model; concurrent execution is represented by the order of independent
  ledger requests.
\<close>

end
